theory Spec2Isabelle
  imports Main "HOL-Library.Word"
begin

unbundle bit_operations_syntax

section \<open>Bytes, errors and the script encoding\<close>

text \<open>
  Python \<open>bytes\<close> are lists of 8-bit words. Python integers are unbounded: \<open>int\<close>.
  Every exception the modelled code can raise is a value of \<open>error\<close>; a function that
  can raise returns \<open>error + 'a\<close> with \<open>Inl\<close> for the exception.
\<close>

type_synonym bytes = "8 word list"

datatype error =
    TypeError
  | AttributeError
  | AssertionError
  | IndexError
  | AddressError
  | ValueError
  | VaultException string

definition err_bind :: "error + 'a \<Rightarrow> ('a \<Rightarrow> error + 'b) \<Rightarrow> error + 'b" where
  "err_bind m f = (case m of Inl e \<Rightarrow> Inl e | Inr x \<Rightarrow> f x)"

text \<open>
  The opcodes the scripts use, with the byte values of \<open>bitcoin.core.script\<close>
  (python-bitcoinlib, the library \<open>src/revault/transactions/__init__.py\<close> imports
  them from; they are the opcode numbers of the Bitcoin script language).
\<close>

definition OP_0 :: "8 word" where "OP_0 = 0x00"
definition OP_PUSHDATA1 :: "8 word" where "OP_PUSHDATA1 = 0x4c"
definition OP_PUSHDATA2 :: "8 word" where "OP_PUSHDATA2 = 0x4d"
definition OP_PUSHDATA4 :: "8 word" where "OP_PUSHDATA4 = 0x4e"
definition OP_1NEGATE :: "8 word" where "OP_1NEGATE = 0x4f"
definition OP_1 :: "8 word" where "OP_1 = 0x51"
definition OP_2 :: "8 word" where "OP_2 = 0x52"
definition OP_3 :: "8 word" where "OP_3 = 0x53"
definition OP_4 :: "8 word" where "OP_4 = 0x54"
definition OP_6 :: "8 word" where "OP_6 = 0x56"
definition OP_IF :: "8 word" where "OP_IF = 0x63"
definition OP_ELSE :: "8 word" where "OP_ELSE = 0x67"
definition OP_ENDIF :: "8 word" where "OP_ENDIF = 0x68"
definition OP_DROP :: "8 word" where "OP_DROP = 0x75"
definition OP_DUP :: "8 word" where "OP_DUP = 0x76"
definition OP_SWAP :: "8 word" where "OP_SWAP = 0x7c"
definition OP_EQUAL :: "8 word" where "OP_EQUAL = 0x87"
definition OP_EQUALVERIFY :: "8 word" where "OP_EQUALVERIFY = 0x88"
definition OP_ADD :: "8 word" where "OP_ADD = 0x93"
definition OP_CHECKSIG :: "8 word" where "OP_CHECKSIG = 0xac"
definition OP_CHECKSIGVERIFY :: "8 word" where "OP_CHECKSIGVERIFY = 0xad"
definition OP_CHECKMULTISIG :: "8 word" where "OP_CHECKMULTISIG = 0xae"
definition OP_CHECKSEQUENCEVERIFY :: "8 word" where "OP_CHECKSEQUENCEVERIFY = 0xb2"

text \<open>
  The sighash flags of \<open>bitcoin.core.script\<close>, and the constant
  \<open>ALL_ANYONECANPAY = SIGHASH_ALL | SIGHASH_ANYONECANPAY\<close> of the source.
\<close>

definition SIGHASH_ALL :: "8 word" where "SIGHASH_ALL = 0x01"
definition SIGHASH_ANYONECANPAY :: "8 word" where "SIGHASH_ANYONECANPAY = 0x80"
definition ALL_ANYONECANPAY :: "8 word" where
  "ALL_ANYONECANPAY = SIGHASH_ALL OR SIGHASH_ANYONECANPAY"
definition SIGVERSION_WITNESS_V0 :: nat where "SIGVERSION_WITNESS_V0 = 1"

text \<open>
  An element of the list handed to \<open>CScript([...])\<close>: an opcode object, a Python
  integer, or a byte string.
\<close>

datatype script_item = ScriptOp "8 word" | ScriptInt int | ScriptBytes bytes

text \<open>
  \<open>CScript\<close> is python-bitcoinlib's, not this repository's. Its constructor
  serialises each element (\<open>CScript.__coerce_instance\<close>): an opcode is its byte; an
  integer from 0 to 16 is the opcode \<open>OP_0\<close>, \<open>OP_1\<close> .. \<open>OP_16\<close>, -1 is
  \<open>OP_1NEGATE\<close>, any other integer is a data push of \<open>bn2vch\<close> of it (little-endian
  magnitude of minimal length, the sign in the top bit of the last byte, one more byte
  when that bit is taken); a byte string is a data push (\<open>encode_op_pushdata\<close>): the
  length byte itself below 0x4c, else \<open>OP_PUSHDATA1/2/4\<close> and the little-endian
  length. The library raises on data of 2^32 bytes or more; the model keeps the
  \<open>OP_PUSHDATA4\<close> branch there, which no script of this program reaches.
\<close>

fun le_bytes :: "nat \<Rightarrow> bytes" where
  "le_bytes n = (if n = 0 then [] else word_of_nat (n mod 256) # le_bytes (n div 256))"

declare le_bytes.simps [simp del]

definition bn2vch :: "int \<Rightarrow> bytes" where
  "bn2vch v =
     (let m = le_bytes (nat \<bar>v\<bar>) in
      if m = [] then []
      else if last m AND 0x80 \<noteq> 0 then m @ [if v < 0 then 0x80 else 0x00]
      else if v < 0 then butlast m @ [last m OR 0x80]
      else m)"

definition le_fixed :: "nat \<Rightarrow> nat \<Rightarrow> bytes" where
  "le_fixed k n = map (\<lambda>i. word_of_nat (n div 256 ^ i mod 256)) [0..<k]"

definition encode_op_pushdata :: "bytes \<Rightarrow> bytes" where
  "encode_op_pushdata d =
     (if length d < 0x4c then word_of_nat (length d) # d
      else if length d \<le> 0xff then OP_PUSHDATA1 # word_of_nat (length d) # d
      else if length d \<le> 0xffff then OP_PUSHDATA2 # le_fixed 2 (length d) @ d
      else OP_PUSHDATA4 # le_fixed 4 (length d) @ d)"

definition encode_op_n :: "int \<Rightarrow> 8 word" where
  "encode_op_n n = (if n = 0 then OP_0 else word_of_int (uint OP_1 + n - 1))"

fun coerce_instance :: "script_item \<Rightarrow> bytes" where
  "coerce_instance (ScriptOp c) = [c]"
| "coerce_instance (ScriptInt n) =
     (if 0 \<le> n \<and> n \<le> 16 then [encode_op_n n]
      else if n = -1 then [OP_1NEGATE]
      else encode_op_pushdata (bn2vch n))"
| "coerce_instance (ScriptBytes d) = encode_op_pushdata d"

definition CScript :: "script_item list \<Rightarrow> bytes" where
  "CScript items = concat (map coerce_instance items)"

section \<open>Transactions\<close>

text \<open>
  The transaction objects of \<open>bitcoin.core\<close> as records with the library's field
  names. The witness of a transaction is one stack (a list of byte strings) per input.
  \<open>CMutableTransaction([txin], [txout], nVersion=2)\<close> leaves \<open>nLockTime\<close> at 0 and
  the witness empty. \<open>CTransaction.from_tx\<close> copies every field into an immutable
  object; mutability is not part of the model, so it is the identity.
  The constructors of the library check their arguments: \<open>COutPoint(hash, n)\<close> raises
  \<open>ValueError\<close> unless the hash has exactly 32 bytes and \<open>0 <= n <= 0xffffffff\<close>, and
  \<open>CTxIn(prevout, nSequence=s)\<close> raises it unless \<open>0 <= s <= 0xffffffff\<close>.
\<close>

record COutPoint =
  prev_hash :: bytes
  prev_n :: int

record CTxIn =
  prevout :: COutPoint
  scriptSig :: bytes
  nSequence :: int

record CTxOut =
  nValue :: int
  scriptPubKey :: bytes

record CTransaction =
  vin :: "CTxIn list"
  vout :: "CTxOut list"
  nLockTime :: int
  nVersion :: int
  wit :: "bytes list list"

definition mk_COutPoint :: "bytes \<Rightarrow> int \<Rightarrow> error + COutPoint" where
  "mk_COutPoint h n =
     (if length h \<noteq> 32 then Inl ValueError
      else if \<not> (0 \<le> n \<and> n \<le> 0xffffffff) then Inl ValueError
      else Inr \<lparr>prev_hash = h, prev_n = n\<rparr>)"

definition mk_CTxIn :: "COutPoint \<Rightarrow> int \<Rightarrow> error + CTxIn" where
  "mk_CTxIn op s =
     (if \<not> (0 \<le> s \<and> s \<le> 0xffffffff) then Inl ValueError
      else Inr \<lparr>prevout = op, scriptSig = [], nSequence = s\<rparr>)"

definition CMutableTransaction :: "CTxIn list \<Rightarrow> CTxOut list \<Rightarrow> int \<Rightarrow> CTransaction" where
  "CMutableTransaction ins outs v =
     \<lparr>vin = ins, vout = outs, nLockTime = 0, nVersion = v, wit = []\<rparr>"

definition from_tx :: "CTransaction \<Rightarrow> CTransaction" where
  "from_tx t = t"

text \<open>
  The library functions the program calls and the model does not open: SHA-256, the
  BIP143 signature hash, ECDSA signing and address decoding (which raises on a
  malformed address). They are parameters of the model, collected in one record.
\<close>

record lib =
  sha256 :: "bytes \<Rightarrow> bytes"
  SignatureHash :: "bytes \<Rightarrow> CTransaction \<Rightarrow> nat \<Rightarrow> 8 word \<Rightarrow> int \<Rightarrow> nat \<Rightarrow> bytes"
  CKey_sign :: "bytes \<Rightarrow> bytes \<Rightarrow> bytes"
  to_scriptPubKey :: "string \<Rightarrow> bytes option"

section \<open>src/revault/transactions/__init__.py\<close>

definition vault_script :: "bytes list \<Rightarrow> bytes" where
  "vault_script pubkeys =
     CScript ([ScriptOp OP_4] @ map ScriptBytes pubkeys @ [ScriptOp OP_4, ScriptOp OP_CHECKMULTISIG])"

definition vault_txout :: "lib \<Rightarrow> bytes list \<Rightarrow> int \<Rightarrow> CTxOut" where
  "vault_txout L pubkeys v =
     (let script = vault_script pubkeys;
          p2wsh = CScript [ScriptOp OP_0, ScriptBytes (sha256 L script)]
      in \<lparr>nValue = v, scriptPubKey = p2wsh\<rparr>)"

definition unvault_script :: "bytes \<Rightarrow> bytes \<Rightarrow> bytes \<Rightarrow> bytes \<Rightarrow> bytes \<Rightarrow> bytes" where
  "unvault_script pub_trader1 pub_trader2 pub1 pub2 pub_server =
     CScript [ScriptBytes pub_trader1, ScriptOp OP_CHECKSIG, ScriptOp OP_SWAP,
              ScriptBytes pub_trader2, ScriptOp OP_CHECKSIG, ScriptOp OP_ADD, ScriptOp OP_SWAP,
              ScriptBytes pub1, ScriptOp OP_CHECKSIG, ScriptOp OP_ADD,
              ScriptOp OP_DUP, ScriptOp OP_3, ScriptOp OP_EQUAL, ScriptOp OP_IF, ScriptOp OP_DROP,
              ScriptBytes pub2, ScriptOp OP_CHECKSIG, ScriptOp OP_ELSE, ScriptOp OP_2,
              ScriptOp OP_EQUALVERIFY, ScriptBytes pub_server, ScriptOp OP_CHECKSIGVERIFY,
              ScriptOp OP_6, ScriptOp OP_CHECKSEQUENCEVERIFY, ScriptOp OP_ENDIF]"

text \<open>
  The call \<open>unvault_script(*pubkeys, pub_server)\<close>: Python raises \<open>TypeError\<close> unless
  \<open>pubkeys\<close> has exactly four elements.
\<close>

fun unvault_script_star :: "bytes list \<Rightarrow> bytes \<Rightarrow> error + bytes" where
  "unvault_script_star [p1, p2, p3, p4] pub_server = Inr (unvault_script p1 p2 p3 p4 pub_server)"
| "unvault_script_star _ pub_server = Inl TypeError"

definition unvault_txout :: "lib \<Rightarrow> bytes list \<Rightarrow> bytes \<Rightarrow> int \<Rightarrow> error + CTxOut" where
  "unvault_txout L pubkeys pub_server v =
     (case unvault_script_star pubkeys pub_server of
        Inl e \<Rightarrow> Inl e
      | Inr script \<Rightarrow>
          Inr \<lparr>nValue = v, scriptPubKey = CScript [ScriptOp OP_0, ScriptBytes (sha256 L script)]\<rparr>)"

definition emergency_script :: "bytes list \<Rightarrow> bytes" where
  "emergency_script pubkeys =
     CScript ([ScriptInt 4464, ScriptOp OP_CHECKSEQUENCEVERIFY, ScriptOp OP_DROP, ScriptOp OP_4]
              @ map ScriptBytes pubkeys @ [ScriptOp OP_4, ScriptOp OP_CHECKMULTISIG])"

definition emergency_txout :: "lib \<Rightarrow> bytes list \<Rightarrow> int \<Rightarrow> CTxOut" where
  "emergency_txout L pubkeys v =
     (let script = emergency_script pubkeys;
          p2wsh = CScript [ScriptOp OP_0, ScriptBytes (sha256 L script)]
      in \<lparr>nValue = v, scriptPubKey = p2wsh\<rparr>)"

definition create_spend_vault_txout ::
  "bytes \<Rightarrow> int \<Rightarrow> CTxOut \<Rightarrow> bool \<Rightarrow> error + CTransaction" where
  "create_spend_vault_txout vault_txid vault_vout txout rbf =
     (let sequence = (if rbf then 0xfffffffe else 0xffffffff)
      in err_bind (mk_COutPoint vault_txid vault_vout) (\<lambda>outpoint.
         err_bind (mk_CTxIn outpoint sequence) (\<lambda>tmp_txin.
         Inr (CMutableTransaction [tmp_txin] [txout] 2))))"

definition form_spend_vault_txout :: "CTransaction \<Rightarrow> bytes list \<Rightarrow> bytes list \<Rightarrow> CTransaction" where
  "form_spend_vault_txout tx pubkeys sigs =
     (let witness_script = [[]] @ sigs @ [vault_script pubkeys]
      in from_tx (tx\<lparr>wit := [witness_script]\<rparr>))"

definition create_unvault_tx ::
  "lib \<Rightarrow> bytes \<Rightarrow> int \<Rightarrow> bytes list \<Rightarrow> bytes \<Rightarrow> int \<Rightarrow> error + CTransaction" where
  "create_unvault_tx L vault_txid vault_vout pubkeys pub_server v =
     (case unvault_txout L pubkeys pub_server v of
        Inl e \<Rightarrow> Inl e
      | Inr txout \<Rightarrow> create_spend_vault_txout vault_txid vault_vout txout False)"

definition sign_unvault_tx :: "lib \<Rightarrow> CTransaction \<Rightarrow> bytes \<Rightarrow> bytes list \<Rightarrow> int \<Rightarrow> bytes" where
  "sign_unvault_tx L tx privkey pubkeys prev_value =
     (let tx_hash = SignatureHash L (vault_script pubkeys) tx 0 SIGHASH_ALL prev_value
                      SIGVERSION_WITNESS_V0
      in CKey_sign L privkey tx_hash @ [SIGHASH_ALL])"

definition form_unvault_tx :: "CTransaction \<Rightarrow> bytes list \<Rightarrow> bytes list \<Rightarrow> CTransaction" where
  "form_unvault_tx tx pubkeys sigs = form_spend_vault_txout tx pubkeys sigs"

definition create_emergency_vault_tx ::
  "lib \<Rightarrow> bytes \<Rightarrow> int \<Rightarrow> int \<Rightarrow> bytes list \<Rightarrow> error + CTransaction" where
  "create_emergency_vault_tx L vault_txid vault_vout v emer_pubkeys =
     (let txout = emergency_txout L emer_pubkeys v
      in create_spend_vault_txout vault_txid vault_vout txout True)"

definition sign_emergency_vault_tx ::
  "lib \<Rightarrow> CTransaction \<Rightarrow> bytes \<Rightarrow> bytes list \<Rightarrow> int \<Rightarrow> bool \<Rightarrow> bytes" where
  "sign_emergency_vault_tx L tx privkey pubkeys prev_value sign_all =
     (let sighash = (if sign_all then SIGHASH_ALL else ALL_ANYONECANPAY);
          tx_hash = SignatureHash L (vault_script pubkeys) tx 0 sighash prev_value
                      SIGVERSION_WITNESS_V0
      in CKey_sign L privkey tx_hash @ [sighash])"

definition form_emergency_vault_tx :: "CTransaction \<Rightarrow> bytes list \<Rightarrow> bytes list \<Rightarrow> CTransaction" where
  "form_emergency_vault_tx tx pubkeys sigs = form_spend_vault_txout tx pubkeys sigs"

definition create_unvault_spend ::
  "bytes \<Rightarrow> int \<Rightarrow> CTxOut \<Rightarrow> bool \<Rightarrow> error + CTransaction" where
  "create_unvault_spend unvault_txid unvault_vout txout rbf =
     (let sequence = (if rbf then 0xfffffffe else 0xffffffff)
      in err_bind (mk_COutPoint unvault_txid unvault_vout) (\<lambda>outpoint.
         err_bind (mk_CTxIn outpoint sequence) (\<lambda>txin.
         Inr (CMutableTransaction [txin] [txout] 2))))"

definition sign_unvault_revault ::
  "lib \<Rightarrow> CTransaction \<Rightarrow> bytes \<Rightarrow> bytes list \<Rightarrow> bytes \<Rightarrow> int \<Rightarrow> bool \<Rightarrow> error + bytes" where
  "sign_unvault_revault L tx privkey pubkeys pub_server prev_value sign_all =
     (let sighash = (if sign_all then SIGHASH_ALL else ALL_ANYONECANPAY)
      in case unvault_script_star pubkeys pub_server of
           Inl e \<Rightarrow> Inl e
         | Inr script \<Rightarrow>
             (let tx_hash = SignatureHash L script tx 0 sighash prev_value SIGVERSION_WITNESS_V0
              in Inr (CKey_sign L privkey tx_hash @ [sighash])))"

definition form_unvault_spend ::
  "CTransaction \<Rightarrow> bytes list \<Rightarrow> bytes list \<Rightarrow> bytes \<Rightarrow> error + CTransaction" where
  "form_unvault_spend tx sigs pubkeys pub_server =
     (case unvault_script_star pubkeys pub_server of
        Inl e \<Rightarrow> Inl e
      | Inr script \<Rightarrow>
          (let witness_script = rev sigs @ [script]
           in Inr (from_tx (tx\<lparr>wit := [witness_script]\<rparr>))))"

definition create_cancel_tx ::
  "lib \<Rightarrow> bytes \<Rightarrow> int \<Rightarrow> bytes list \<Rightarrow> int \<Rightarrow> error + CTransaction" where
  "create_cancel_tx L unvault_txid unvault_vout pubkeys v =
     (let txout = vault_txout L pubkeys v
      in create_unvault_spend unvault_txid unvault_vout txout True)"

definition sign_cancel_tx ::
  "lib \<Rightarrow> CTransaction \<Rightarrow> bytes \<Rightarrow> bytes list \<Rightarrow> bytes \<Rightarrow> int \<Rightarrow> bool \<Rightarrow> error + bytes" where
  "sign_cancel_tx L tx privkey pubkeys pub_server prev_value sign_all =
     sign_unvault_revault L tx privkey pubkeys pub_server prev_value sign_all"

definition form_cancel_tx ::
  "CTransaction \<Rightarrow> bytes list \<Rightarrow> bytes list \<Rightarrow> bytes \<Rightarrow> error + CTransaction" where
  "form_cancel_tx tx sigs pubkeys pub_server = form_unvault_spend tx sigs pubkeys pub_server"

definition create_emer_unvault_tx ::
  "lib \<Rightarrow> bytes \<Rightarrow> int \<Rightarrow> bytes list \<Rightarrow> int \<Rightarrow> error + CTransaction" where
  "create_emer_unvault_tx L unvault_txid unvault_vout emer_pubkeys v =
     (let txout = emergency_txout L emer_pubkeys v
      in create_unvault_spend unvault_txid unvault_vout txout True)"

definition sign_emer_unvault_tx ::
  "lib \<Rightarrow> CTransaction \<Rightarrow> bytes \<Rightarrow> bytes list \<Rightarrow> bytes \<Rightarrow> int \<Rightarrow> bool \<Rightarrow> error + bytes" where
  "sign_emer_unvault_tx L tx privkey pubkeys pub_server prev_value sign_all =
     sign_unvault_revault L tx privkey pubkeys pub_server prev_value sign_all"

definition form_emer_unvault_tx ::
  "CTransaction \<Rightarrow> bytes list \<Rightarrow> bytes list \<Rightarrow> bytes \<Rightarrow> error + CTransaction" where
  "form_emer_unvault_tx tx sigs pubkeys pub_server = form_unvault_spend tx sigs pubkeys pub_server"

text \<open>
  \<open>create_spend_tx\<close>: \<open>addresses\<close> is a dictionary, read in insertion order by
  \<open>.items()\<close>: an association list. The list comprehension raises at the first address
  \<open>CBitcoinAddress\<close> rejects; the input is built after it.
\<close>

fun spend_txouts :: "lib \<Rightarrow> (string \<times> int) list \<Rightarrow> error + CTxOut list" where
  "spend_txouts L [] = Inr []"
| "spend_txouts L ((address, v) # rest) =
     (case to_scriptPubKey L address of
        None \<Rightarrow> Inl AddressError
      | Some spk \<Rightarrow>
          (case spend_txouts L rest of
             Inl e \<Rightarrow> Inl e
           | Inr outs \<Rightarrow> Inr (\<lparr>nValue = v, scriptPubKey = spk\<rparr> # outs)))"

definition create_spend_tx ::
  "lib \<Rightarrow> bytes \<Rightarrow> int \<Rightarrow> (string \<times> int) list \<Rightarrow> error + CTransaction" where
  "create_spend_tx L unvault_txid unvault_vout addresses =
     (case spend_txouts L addresses of
        Inl e \<Rightarrow> Inl e
      | Inr txouts \<Rightarrow>
          err_bind (mk_COutPoint unvault_txid unvault_vout) (\<lambda>outpoint.
          err_bind (mk_CTxIn outpoint 6) (\<lambda>txin.
          Inr (CMutableTransaction [txin] txouts 2))))"

definition sign_spend_tx ::
  "lib \<Rightarrow> CTransaction \<Rightarrow> bytes \<Rightarrow> bytes list \<Rightarrow> bytes \<Rightarrow> int \<Rightarrow> error + bytes" where
  "sign_spend_tx L tx privkey pubkeys pub_server prev_value =
     (case unvault_script_star pubkeys pub_server of
        Inl e \<Rightarrow> Inl e
      | Inr script \<Rightarrow>
          (let tx_hash = SignatureHash L script tx 0 SIGHASH_ALL prev_value SIGVERSION_WITNESS_V0
           in Inr (CKey_sign L privkey tx_hash @ [SIGHASH_ALL])))"

definition form_spend_tx ::
  "CTransaction \<Rightarrow> bytes list \<Rightarrow> bytes \<Rightarrow> bytes list \<Rightarrow> error + CTransaction" where
  "form_spend_tx tx pubkeys serv_pubkey sigs =
     (case unvault_script_star pubkeys serv_pubkey of
        Inl e \<Rightarrow> Inl e
      | Inr script \<Rightarrow>
          (let witness_script = rev sigs @ [script]
           in Inr (from_tx (tx\<lparr>wit := [witness_script]\<rparr>))))"

section \<open>src/revault/vault.py: the vault record and the engine\<close>

text \<open>
  The dictionary \<open>add_new_vault\<close> builds for a deposit. A signature table is a list of
  four slots, each \<open>None\<close> or a signature; a transaction is \<open>None\<close> until it is
  created. The keys \<open>txid\<close>, \<open>vout\<close>, \<open>amount\<close>, \<open>pubkeys\<close>, \<open>privkey\<close> and
  \<open>address\<close> carry the prefix \<open>v_\<close> here.
\<close>

record vault =
  v_txid :: string
  v_vout :: int
  v_amount :: int
  v_pubkeys :: "bytes list"
  v_privkey :: bytes
  v_address :: string
  emergency_tx :: "CTransaction option"
  emergency_sigs :: "bytes option list"
  emergency_signed :: bool
  unvault_tx :: "CTransaction option"
  unvault_sigs :: "bytes option list"
  unvault_signed :: bool
  cancel_tx :: "CTransaction option"
  cancel_sigs :: "bytes option list"
  unvault_emer_tx :: "CTransaction option"
  unvault_emer_sigs :: "bytes option list"
  unvault_secure :: bool

text \<open>
  The fields of the \<open>Vault\<close> object the modelled methods read or write. A keychain
  maps a derivation index to a public key (\<open>get_pubkey_from_path([index])\<close>); the own
  slot of \<open>keychains\<close> is \<open>None\<close>. \<open>sent\<close> is the sequence of
  \<open>sigserver.send_signature(txid, sig)\<close> calls made so far, oldest first.
\<close>

record engine =
  our_pubkey_from_path :: "int \<Rightarrow> bytes"
  our_privkey_from_path :: "int \<Rightarrow> bytes"
  keychains :: "(int \<Rightarrow> bytes) option list"
  emergency_pubkeys :: "bytes list"
  cosigner_pubkey :: bytes
  current_index :: int
  max_index :: int
  vault_addresses :: "string list"
  unvault_addresses :: "string list"
  acked_addresses :: "string list"
  acked_spends :: "string list"
  vaults :: "vault list"
  sent :: "(string \<times> bytes) list"

text \<open>
  The services the engine calls and this repository's \<open>src/\<close> does not hold (the
  bitcoind and sig-server wrappers, \<open>utils.tx_feerate\<close> and \<open>utils.bump_feerate\<close>,
  address encoding and the transaction id), as parameters: each is a function of its
  arguments. A failure inside a service (a network error, a refusal of the server) is
  not modelled.
  \<open>get_feerate\<close> is the sig-server's, \<open>getfeerate\<close> is bitcoind's.
\<close>

record ext =
  crypto :: lib
  from_scriptPubKey :: "bytes \<Rightarrow> string"
  GetTxid :: "CTransaction \<Rightarrow> bytes"
  tx_size :: "CTransaction \<Rightarrow> int"
  get_feerate :: "string \<Rightarrow> string \<Rightarrow> int"
  getfeerate :: "string \<Rightarrow> int"
  tx_feerate :: "CTransaction \<Rightarrow> int option \<Rightarrow> int"
  bump_feerate :: "CTransaction \<Rightarrow> int \<Rightarrow> int option \<Rightarrow> CTransaction"
  assertmempoolaccept :: "CTransaction \<Rightarrow> bool"

definition COIN :: int where "COIN = 100000000"

text \<open>Python's \<open>bytes.hex()\<close>: two lower-case hexadecimal digits per byte.\<close>

definition hexdigit :: "nat \<Rightarrow> char" where
  "hexdigit d = ''0123456789abcdef'' ! d"

definition hex :: "bytes \<Rightarrow> string" where
  "hex b = concat (map (\<lambda>w. [hexdigit (unat w div 16), hexdigit (unat w mod 16)]) b)"

text \<open>
  \<open>bitcoin.core.lx\<close>: \<open>binascii.unhexlify(h)[::-1]\<close>, the bytes of a hexadecimal string
  in reverse order; \<open>unhexlify\<close> raises (a \<open>ValueError\<close>) on an odd length or a
  character that is no hexadecimal digit.
\<close>

definition hexval :: "char \<Rightarrow> nat option" where
  "hexval c =
     (let n = (of_char c :: nat)
      in if 48 \<le> n \<and> n \<le> 57 then Some (n - 48)
         else if 97 \<le> n \<and> n \<le> 102 then Some (n - 87)
         else if 65 \<le> n \<and> n \<le> 70 then Some (n - 55)
         else None)"

fun unhexlify :: "string \<Rightarrow> error + bytes" where
  "unhexlify [] = Inr []"
| "unhexlify [c] = Inl ValueError"
| "unhexlify (c1 # c2 # rest) =
     (case (hexval c1, hexval c2) of
        (Some a, Some b) \<Rightarrow>
          err_bind (unhexlify rest) (\<lambda>bs. Inr (word_of_nat (16 * a + b) # bs))
      | _ \<Rightarrow> Inl ValueError)"

definition lx :: "string \<Rightarrow> error + bytes" where
  "lx h = err_bind (unhexlify h) (\<lambda>b. Inr (rev b))"

text \<open>\<open>self.keychains.index(None)\<close>: the first own slot, \<open>ValueError\<close> without one.\<close>

fun index_None :: "'a option list \<Rightarrow> error + nat" where
  "index_None [] = Inl ValueError"
| "index_None (None # ks) = Inr 0"
| "index_None (Some k # ks) = err_bind (index_None ks) (\<lambda>i. Inr (Suc i))"

text \<open>\<open>table[i] = x\<close>: \<open>IndexError\<close> out of range.\<close>

definition set_slot :: "'a list \<Rightarrow> nat \<Rightarrow> 'a \<Rightarrow> error + 'a list" where
  "set_slot table i x = (if i < length table then Inr (table[i := x]) else Inl IndexError)"

text \<open>
  \<open>vault["..._tx"]\<close> used as a transaction: an attribute access on \<open>None\<close> raises
  \<open>AttributeError\<close>.
\<close>

definition the_tx :: "CTransaction option \<Rightarrow> error + CTransaction" where
  "the_tx t = (case t of None \<Rightarrow> Inl AttributeError | Some tx \<Rightarrow> Inr tx)"

text \<open>\<open>tx.vout[0].nValue\<close>\<close>

definition vout0_nValue :: "CTransaction \<Rightarrow> error + int" where
  "vout0_nValue tx = (case vout tx of [] \<Rightarrow> Inl IndexError | out # _ \<Rightarrow> Inr (nValue out))"

definition get_pubkeys :: "engine \<Rightarrow> int \<Rightarrow> bytes list" where
  "get_pubkeys E index =
     map (\<lambda>keychain. case keychain of
                        Some k \<Rightarrow> k index
                      | None \<Rightarrow> our_pubkey_from_path E index) (keychains E)"

definition get_vault_address :: "ext \<Rightarrow> engine \<Rightarrow> int \<Rightarrow> string" where
  "get_vault_address X E index =
     (let pubkeys = get_pubkeys E index;
          txo = vault_txout (crypto X) pubkeys 0
      in from_scriptPubKey X (scriptPubKey txo))"

text \<open>
  \<open>guess_index\<close>: \<open>for index in range(self.max_index)\<close>, returning the first index
  whose vault address is the one given, \<open>None\<close> when the range is exhausted.
\<close>

function guess_loop :: "ext \<Rightarrow> engine \<Rightarrow> string \<Rightarrow> int \<Rightarrow> int option" where
  "guess_loop X E vault_address index =
     (if index < max_index E then
        (if vault_address = get_vault_address X E index then Some index
         else guess_loop X E vault_address (index + 1))
      else None)"
  by pat_completeness auto
termination
  by (relation "measure (\<lambda>(X, E, a, index). nat (max_index E - index))") auto

declare guess_loop.simps [simp del]

definition guess_index :: "ext \<Rightarrow> engine \<Rightarrow> string \<Rightarrow> int option" where
  "guess_index X E vault_address = guess_loop X E vault_address 0"

definition create_sign_emergency :: "ext \<Rightarrow> engine \<Rightarrow> vault \<Rightarrow> error + vault \<times> bytes" where
  "create_sign_emergency X E v =
     (let amount = COIN
      in err_bind (lx (v_txid v)) (\<lambda>txid.
         err_bind (create_emergency_vault_tx (crypto X) txid (v_vout v) amount
                     (emergency_pubkeys E)) (\<lambda>dummy_tx.
         let feerate = get_feerate X ''emergency'' (hex (GetTxid X dummy_tx));
             fees = feerate * tx_size X dummy_tx;
             amount = v_amount v - fees
         in err_bind (create_emergency_vault_tx (crypto X) txid (v_vout v) amount
                        (emergency_pubkeys E)) (\<lambda>tx.
            let v = v\<lparr>emergency_tx := Some tx\<rparr>
            in if \<not> (length (vin tx) = length (vout tx) \<and> length (vout tx) = 1)
               then Inl AssertionError
               else
                 (let sig = sign_emergency_vault_tx (crypto X) tx (v_privkey v) (v_pubkeys v)
                              (v_amount v) True
                  in err_bind (index_None (keychains E)) (\<lambda>slot.
                     err_bind (set_slot (emergency_sigs v) slot (Some sig)) (\<lambda>table.
                     Inr (v\<lparr>emergency_sigs := table\<rparr>,
                          sign_emergency_vault_tx (crypto X) tx (v_privkey v) (v_pubkeys v)
                            (v_amount v) False))))))))"

definition create_sign_unvault :: "ext \<Rightarrow> engine \<Rightarrow> vault \<Rightarrow> error + vault \<times> bytes" where
  "create_sign_unvault X E v =
     (let dummy_amount = COIN
      in err_bind (lx (v_txid v)) (\<lambda>txid.
         err_bind (create_unvault_tx (crypto X) txid (v_vout v) (v_pubkeys v)
                     (cosigner_pubkey E) dummy_amount) (\<lambda>dummy_tx.
         let feerate = get_feerate X ''cancel'' (hex (GetTxid X dummy_tx));
             size = tx_size X dummy_tx;
             unvault_amount = v_amount v - feerate * size
         in err_bind (create_unvault_tx (crypto X) txid (v_vout v) (v_pubkeys v)
                        (cosigner_pubkey E) unvault_amount) (\<lambda>tx.
            Inr (v\<lparr>unvault_tx := Some tx\<rparr>,
                 sign_unvault_tx (crypto X) tx (v_privkey v) (v_pubkeys v) (v_amount v))))))"

definition create_sign_cancel :: "ext \<Rightarrow> engine \<Rightarrow> vault \<Rightarrow> error + vault \<times> bytes" where
  "create_sign_cancel X E v =
     err_bind (the_tx (unvault_tx v)) (\<lambda>utx.
     let unvault_txid = GetTxid X utx;
         dummy_amount = COIN
     in err_bind (vout0_nValue utx) (\<lambda>unvault_amount.
        if length (vout utx) \<noteq> 1 then Inl AssertionError
        else
          err_bind (create_cancel_tx (crypto X) unvault_txid 0 (v_pubkeys v) dummy_amount)
            (\<lambda>dummy_tx.
          let feerate = get_feerate X ''cancel'' (hex (GetTxid X dummy_tx));
              size = tx_size X dummy_tx;
              cancel_amount = unvault_amount - feerate * size
          in err_bind (create_cancel_tx (crypto X) unvault_txid 0 (v_pubkeys v) cancel_amount)
               (\<lambda>tx.
             let v = v\<lparr>cancel_tx := Some tx\<rparr>
             in if \<not> (length (vin tx) = length (vout tx) \<and> length (vout tx) = 1)
                then Inl AssertionError
                else
                  err_bind (sign_cancel_tx (crypto X) tx (v_privkey v) (v_pubkeys v)
                              (cosigner_pubkey E) unvault_amount True) (\<lambda>sig.
                  err_bind (index_None (keychains E)) (\<lambda>slot.
                  err_bind (set_slot (cancel_sigs v) slot (Some sig)) (\<lambda>table.
                  err_bind (sign_cancel_tx (crypto X) tx (v_privkey v) (v_pubkeys v)
                              (cosigner_pubkey E) unvault_amount False) (\<lambda>shared.
                  Inr (v\<lparr>cancel_sigs := table\<rparr>, shared)))))))))"

definition create_sign_unvault_emer :: "ext \<Rightarrow> engine \<Rightarrow> vault \<Rightarrow> error + vault \<times> bytes" where
  "create_sign_unvault_emer X E v =
     err_bind (the_tx (unvault_tx v)) (\<lambda>utx.
     let unvault_txid = GetTxid X utx;
         dummy_amount = COIN
     in err_bind (vout0_nValue utx) (\<lambda>unvault_amount.
        err_bind (create_emer_unvault_tx (crypto X) unvault_txid 0 (emergency_pubkeys E)
                    dummy_amount) (\<lambda>dummy_tx.
        let feerate = get_feerate X ''emergency'' (hex (GetTxid X dummy_tx));
            size = tx_size X dummy_tx;
            emer_amount = unvault_amount - feerate * size
        in err_bind (create_emer_unvault_tx (crypto X) unvault_txid 0 (emergency_pubkeys E)
                       emer_amount) (\<lambda>tx.
           let v = v\<lparr>unvault_emer_tx := Some tx\<rparr>
           in if \<not> (length (vin tx) = length (vout tx) \<and> length (vout tx) = 1)
              then Inl AssertionError
              else
                err_bind (sign_emer_unvault_tx (crypto X) tx (v_privkey v) (v_pubkeys v)
                            (cosigner_pubkey E) unvault_amount False) (\<lambda>sig.
                err_bind (index_None (keychains E)) (\<lambda>slot.
                err_bind (set_slot (unvault_emer_sigs v) slot (Some sig)) (\<lambda>table.
                err_bind (sign_emer_unvault_tx (crypto X) tx (v_privkey v) (v_pubkeys v)
                            (cosigner_pubkey E) unvault_amount False) (\<lambda>shared.
                Inr (v\<lparr>unvault_emer_sigs := table\<rparr>, shared)))))))))"

text \<open>
  \<open>get_signed_emergency_tx\<close>, \<open>get_signed_cancel_tx\<close> and
  \<open>get_signed_unvault_emergency_tx\<close>: \<open>None\<close> while the table has an empty slot;
  otherwise the signed transaction, fee-bumped when its fee-rate is below bitcoind's
  target. Past the first test every slot of the table holds a signature, so the list
  handed to the \<open>form_\<close> function is \<open>map the\<close> of the table. The \<open>form_\<close> functions
  also set the witness of the stored template in place; no modelled method reads it.
\<close>

definition get_signed_emergency_tx :: "ext \<Rightarrow> engine \<Rightarrow> vault \<Rightarrow> error + CTransaction option" where
  "get_signed_emergency_tx X E v =
     (if None \<in> set (emergency_sigs v) then Inr None
      else
        err_bind (the_tx (emergency_tx v)) (\<lambda>etx.
        let feerate = tx_feerate X etx None;
            minimal_feerate = getfeerate X ''emergency''
        in if feerate < minimal_feerate then
             (let sigs = emergency_sigs v;
                  sig = sign_emergency_vault_tx (crypto X) etx (v_privkey v) (v_pubkeys v)
                          (v_amount v) False
              in err_bind (index_None (keychains E)) (\<lambda>slot.
                 err_bind (set_slot sigs slot (Some sig)) (\<lambda>sigs.
                 let tx = form_emergency_vault_tx etx (v_pubkeys v) (map the sigs)
                 in Inr (Some (bump_feerate X tx (minimal_feerate - feerate) None)))))
           else Inr (Some (form_emergency_vault_tx etx (v_pubkeys v) (map the (emergency_sigs v))))))"

definition get_signed_unvault_tx :: "vault \<Rightarrow> error + CTransaction option" where
  "get_signed_unvault_tx v =
     (if None \<in> set (unvault_sigs v) then Inr None
      else err_bind (the_tx (unvault_tx v)) (\<lambda>utx.
           Inr (Some (form_unvault_tx utx (v_pubkeys v) (map the (unvault_sigs v))))))"

definition get_signed_cancel_tx :: "ext \<Rightarrow> engine \<Rightarrow> vault \<Rightarrow> error + CTransaction option" where
  "get_signed_cancel_tx X E v =
     (if None \<in> set (cancel_sigs v) then Inr None
      else
        err_bind (the_tx (unvault_tx v)) (\<lambda>utx.
        err_bind (vout0_nValue utx) (\<lambda>unvault_amount.
        err_bind (the_tx (cancel_tx v)) (\<lambda>ctx.
        let feerate = tx_feerate X ctx (Some unvault_amount);
            minimal_feerate = getfeerate X ''cancel''
        in if feerate < minimal_feerate then
             (let sigs = cancel_sigs v
              in err_bind (sign_cancel_tx (crypto X) ctx (v_privkey v) (v_pubkeys v)
                             (cosigner_pubkey E) unvault_amount False) (\<lambda>sig.
                 err_bind (index_None (keychains E)) (\<lambda>slot.
                 err_bind (set_slot sigs slot (Some sig)) (\<lambda>sigs.
                 err_bind (form_cancel_tx ctx (map the sigs) (v_pubkeys v) (cosigner_pubkey E)) (\<lambda>tx.
                 Inr (Some (bump_feerate X tx (minimal_feerate - feerate) (Some unvault_amount))))))))
           else
             err_bind (form_cancel_tx ctx (map the (cancel_sigs v)) (v_pubkeys v)
                         (cosigner_pubkey E)) (\<lambda>tx. Inr (Some tx))))))"

definition get_signed_unvault_emergency_tx ::
  "ext \<Rightarrow> engine \<Rightarrow> vault \<Rightarrow> error + CTransaction option" where
  "get_signed_unvault_emergency_tx X E v =
     (if None \<in> set (unvault_emer_sigs v) then Inr None
      else
        err_bind (the_tx (unvault_tx v)) (\<lambda>utx.
        err_bind (vout0_nValue utx) (\<lambda>unvault_amount.
        err_bind (the_tx (unvault_emer_tx v)) (\<lambda>etx.
        let feerate = tx_feerate X etx (Some unvault_amount);
            minimal_feerate = getfeerate X ''cancel''
        in if feerate < minimal_feerate then
             (let sigs = unvault_emer_sigs v
              in err_bind (sign_emer_unvault_tx (crypto X) etx (v_privkey v) (v_pubkeys v)
                             (cosigner_pubkey E) unvault_amount False) (\<lambda>sig.
                 err_bind (index_None (keychains E)) (\<lambda>slot.
                 err_bind (set_slot sigs slot (Some sig)) (\<lambda>sigs.
                 err_bind (form_emer_unvault_tx etx (map the sigs) (v_pubkeys v)
                             (cosigner_pubkey E)) (\<lambda>tx.
                 Inr (Some (bump_feerate X tx (minimal_feerate - feerate) (Some unvault_amount))))))))
           else
             err_bind (form_emer_unvault_tx etx (map the (unvault_emer_sigs v)) (v_pubkeys v)
                         (cosigner_pubkey E)) (\<lambda>tx. Inr (Some tx))))))"

text \<open>
  An entry of bitcoind's \<open>listunspent\<close>, as \<open>add_new_vault\<close> reads it. \<open>u_amount\<close> is
  the amount in satoshis, the value of \<open>int(Decimal(output["amount"]) * Decimal(COIN))\<close>.
\<close>

record utxo =
  u_txid :: string
  u_vout :: int
  u_amount :: int
  u_address :: string

definition watch_unvault :: "ext \<Rightarrow> engine \<Rightarrow> vault \<Rightarrow> error + engine" where
  "watch_unvault X E v =
     err_bind (the_tx (unvault_tx v)) (\<lambda>utx.
     (case vout utx of
        [out] \<Rightarrow>
          (let addr = from_scriptPubKey X (scriptPubKey out)
           in Inr (if addr \<notin> set (unvault_addresses E)
                   then E\<lparr>unvault_addresses := unvault_addresses E @ [addr]\<rparr> else E))
      | _ \<Rightarrow> Inl AssertionError))"

definition new_vault :: "engine \<Rightarrow> utxo \<Rightarrow> int \<Rightarrow> vault" where
  "new_vault E out index =
     \<lparr>v_txid = u_txid out, v_vout = u_vout out, v_amount = u_amount out,
      v_pubkeys = get_pubkeys E index, v_privkey = our_privkey_from_path E index,
      v_address = u_address out,
      emergency_tx = None, emergency_sigs = [None, None, None, None], emergency_signed = False,
      unvault_tx = None, unvault_sigs = [None, None, None, None], unvault_signed = False,
      cancel_tx = None, cancel_sigs = [None, None, None, None],
      unvault_emer_tx = None, unvault_emer_sigs = [None, None, None, None],
      unvault_secure = False\<rparr>"

text \<open>
  \<open>add_new_vault\<close> returns the exception raised, if any, and the engine as the call
  leaves it: a raise keeps what was written before it.
\<close>

definition add_new_vault :: "ext \<Rightarrow> engine \<Rightarrow> utxo \<Rightarrow> error option \<times> engine" where
  "add_new_vault X E out =
     (case guess_index X E (u_address out) of
        None \<Rightarrow> (Some (VaultException ''No such vault script with our known pubkeys !''), E)
      | Some index \<Rightarrow>
     (case create_sign_emergency X E (new_vault E out index) of
        Inl e \<Rightarrow> (Some e, E)
      | Inr (v, shared_emer_sig) \<Rightarrow>
     (case create_sign_unvault X E v of
        Inl e \<Rightarrow> (Some e, E)
      | Inr (v, unvault_sig) \<Rightarrow>
     (case err_bind (index_None (keychains E)) (\<lambda>slot.
             set_slot (unvault_sigs v) slot (Some unvault_sig)) of
        Inl e \<Rightarrow> (Some e, E)
      | Inr table \<Rightarrow>
     (case watch_unvault X E (v\<lparr>unvault_sigs := table\<rparr>) of
        Inl e \<Rightarrow> (Some e, E)
      | Inr E1 \<Rightarrow>
     (case create_sign_cancel X E1 (v\<lparr>unvault_sigs := table\<rparr>) of
        Inl e \<Rightarrow> (Some e, E1)
      | Inr (v, cancel_sig) \<Rightarrow>
     (case create_sign_unvault_emer X E1 v of
        Inl e \<Rightarrow> (Some e, E1)
      | Inr (v, unvault_emer_sig) \<Rightarrow>
     (case the_tx (emergency_tx v) of
        Inl e \<Rightarrow> (Some e, E1)
      | Inr etx \<Rightarrow>
     (let E2 = E1\<lparr>sent := sent E1 @ [(hex (GetTxid X etx), shared_emer_sig)]\<rparr>
      in case the_tx (cancel_tx v) of
        Inl e \<Rightarrow> (Some e, E2)
      | Inr ctx \<Rightarrow>
     (let E3 = E2\<lparr>sent := sent E2 @ [(hex (GetTxid X ctx), cancel_sig)]\<rparr>
      in case the_tx (unvault_emer_tx v) of
        Inl e \<Rightarrow> (Some e, E3)
      | Inr uetx \<Rightarrow>
          (None, E3\<lparr>sent := sent E3 @ [(hex (GetTxid X uetx), unvault_emer_sig)],
                    vaults := vaults E3 @ [v]\<rparr>)))))))))))"

text \<open>
  \<open>poll_for_spends\<close>: one pass of the loop body over the proposals the sig-server
  returns, a dictionary from vault txid to a dictionary from address to amount. A vote
  is the call made on the sig-server, \<open>accept_spend\<close> or \<open>refuse_spend\<close>.
\<close>

datatype vote = Accept | Refuse

definition spend_vote :: "engine \<Rightarrow> (string \<times> int) list \<Rightarrow> vote" where
  "spend_vote E addresses =
     (let valid_addresses = vault_addresses E @ acked_addresses E
      in if list_ex (\<lambda>address. address \<notin> set valid_addresses) (map fst addresses) then Refuse
         else if list_ex (\<lambda>address. address \<notin> set (acked_addresses E)) (map fst addresses)
         then Refuse
         else Accept)"

record spend_poller =
  sp_engine :: engine
  known_spends :: "string list"
  votes :: "(string \<times> vote) list"

fun handle_spends ::
  "(string \<times> (string \<times> int) list) list \<Rightarrow> string list \<Rightarrow> spend_poller \<Rightarrow> spend_poller" where
  "handle_spends spends [] P = P"
| "handle_spends spends (txid # rest) P =
     (let addresses = (case map_of spends txid of Some a \<Rightarrow> a | None \<Rightarrow> []);
          E = sp_engine P;
          P = (case spend_vote E addresses of
                 Refuse \<Rightarrow> P\<lparr>votes := votes P @ [(txid, Refuse)]\<rparr>
               | Accept \<Rightarrow> P\<lparr>votes := votes P @ [(txid, Accept)],
                              sp_engine := E\<lparr>acked_spends := acked_spends E @ [txid]\<rparr>\<rparr>)
      in handle_spends spends rest (P\<lparr>known_spends := known_spends P @ [txid]\<rparr>))"

definition poll_for_spends_pass ::
  "(string \<times> (string \<times> int) list) list \<Rightarrow> spend_poller \<Rightarrow> spend_poller" where
  "poll_for_spends_pass spends P =
     handle_spends spends (filter (\<lambda>txid. txid \<notin> set (known_spends P)) (map fst spends)) P"

section \<open>src/revault/vault.py: the signature fetchers\<close>

text \<open>
  A fetcher thread works on one vault. Its loop sleeps on
  \<open>self.update_sigs_stop.wait(3.0)\<close> and then asks the sig-server for the missing
  slots. What the stop event and the sig-server answer changes with time, so both are
  functions of the round, the number of waits the thread has made (\<open>clock\<close>).
  \<open>posted\<close> holds the \<open>send_signature(txid, sig)\<close> calls of the thread, oldest first.
  The loops need not terminate (a peer may never post): they are run with fuel, and a
  run that exhausts it ends with status \<open>OutOfFuel\<close> in the state reached so far.
  \<open>Stopped\<close> is the \<open>return\<close> taken when the stop event is set, \<open>Finished\<close> the
  normal end, \<open>Raised\<close> an exception, with the state as the raise leaves it.
\<close>

record polls =
  stop_wait :: "nat \<Rightarrow> bool"
  get_signature :: "nat \<Rightarrow> string \<Rightarrow> nat \<Rightarrow> bytes option"

record fetcher =
  pv :: vault
  clock :: nat
  posted :: "(string \<times> bytes option) list"

datatype status = Finished | Stopped | Raised error | OutOfFuel

text \<open>
  \<open>update_emergency_signatures\<close>, \<open>update_unvault_emergency\<close> and
  \<open>update_cancel_unvault\<close> run the same loop, each on its own table of the vault:
  \<open>poll_table\<close> is that loop, \<open>fetch_slots\<close> its \<open>for i in range(1, 5)\<close>.
  \<open>sig[-1]\<close> raises \<open>IndexError\<close> on an empty signature. After its loop,
  \<open>update_emergency_signatures\<close> forms the emergency transaction (which also sets the
  witness of the stored template in place; no modelled method reads it) and has bitcoind
  test it.
\<close>

datatype table = EmergencySigs | UnvaultEmerSigs | CancelSigs

fun sigs_of :: "table \<Rightarrow> vault \<Rightarrow> bytes option list" where
  "sigs_of EmergencySigs v = emergency_sigs v"
| "sigs_of UnvaultEmerSigs v = unvault_emer_sigs v"
| "sigs_of CancelSigs v = cancel_sigs v"

fun put_sigs :: "table \<Rightarrow> bytes option list \<Rightarrow> vault \<Rightarrow> vault" where
  "put_sigs EmergencySigs t v = v\<lparr>emergency_sigs := t\<rparr>"
| "put_sigs UnvaultEmerSigs t v = v\<lparr>unvault_emer_sigs := t\<rparr>"
| "put_sigs CancelSigs t v = v\<lparr>cancel_sigs := t\<rparr>"

fun fetch_slots :: "table \<Rightarrow> polls \<Rightarrow> string \<Rightarrow> nat list \<Rightarrow> fetcher \<Rightarrow> error option \<times> fetcher" where
  "fetch_slots T S txid [] st = (None, st)"
| "fetch_slots T S txid (i # rest) st =
     (if length (sigs_of T (pv st)) \<le> i - 1 then (Some IndexError, st)
      else if sigs_of T (pv st) ! (i - 1) = None then
        (case get_signature S (clock st) txid i of
           None \<Rightarrow> fetch_slots T S txid rest st
         | Some sig \<Rightarrow>
             if sig = [] then (Some IndexError, st)
             else if last sig \<noteq> ALL_ANYONECANPAY then (Some AssertionError, st)
             else fetch_slots T S txid rest
                    (st\<lparr>pv := put_sigs T ((sigs_of T (pv st))[i - 1 := Some sig]) (pv st)\<rparr>))
      else fetch_slots T S txid rest st)"

fun poll_table :: "table \<Rightarrow> nat \<Rightarrow> polls \<Rightarrow> string \<Rightarrow> fetcher \<Rightarrow> status \<times> fetcher" where
  "poll_table T 0 S txid st =
     (if None \<in> set (sigs_of T (pv st)) then (OutOfFuel, st) else (Finished, st))"
| "poll_table T (Suc n) S txid st =
     (if None \<in> set (sigs_of T (pv st)) then
        (if stop_wait S (clock st) then (Stopped, st\<lparr>clock := clock st + 1\<rparr>)
         else
           (case fetch_slots T S txid [1, 2, 3, 4] (st\<lparr>clock := clock st + 1\<rparr>) of
              (Some e, st') \<Rightarrow> (Raised e, st')
            | (None, st') \<Rightarrow> poll_table T n S txid st'))
      else (Finished, st))"

definition update_emergency_signatures :: "nat \<Rightarrow> ext \<Rightarrow> polls \<Rightarrow> fetcher \<Rightarrow> status \<times> fetcher" where
  "update_emergency_signatures n X S st =
     (case the_tx (emergency_tx (pv st)) of
        Inl e \<Rightarrow> (Raised e, st)
      | Inr etx \<Rightarrow>
          (case poll_table EmergencySigs n S (hex (GetTxid X etx)) st of
             (Finished, st') \<Rightarrow>
               (let tx = form_emergency_vault_tx etx (v_pubkeys (pv st'))
                           (map the (emergency_sigs (pv st')))
                in if assertmempoolaccept X tx
                   then (Finished, st'\<lparr>pv := (pv st')\<lparr>emergency_signed := True\<rparr>\<rparr>)
                   else (Raised AssertionError, st'))
           | other \<Rightarrow> other))"

definition update_unvault_emergency :: "nat \<Rightarrow> ext \<Rightarrow> polls \<Rightarrow> fetcher \<Rightarrow> status \<times> fetcher" where
  "update_unvault_emergency n X S st =
     (case the_tx (unvault_emer_tx (pv st)) of
        Inl e \<Rightarrow> (Raised e, st)
      | Inr tx \<Rightarrow> poll_table UnvaultEmerSigs n S (hex (GetTxid X tx)) st)"

definition update_cancel_unvault :: "nat \<Rightarrow> ext \<Rightarrow> polls \<Rightarrow> fetcher \<Rightarrow> status \<times> fetcher" where
  "update_cancel_unvault n X S st =
     (case the_tx (cancel_tx (pv st)) of
        Inl e \<Rightarrow> (Raised e, st)
      | Inr tx \<Rightarrow> poll_table CancelSigs n S (hex (GetTxid X tx)) st)"

text \<open>
  \<open>update_unvault_transaction\<close>: the loop on the unvault table stores what
  \<open>get_signature\<close> returns as it is, a signature or \<open>None\<close>.
\<close>

fun fetch_unvault_slots :: "polls \<Rightarrow> string \<Rightarrow> nat list \<Rightarrow> fetcher \<Rightarrow> error option \<times> fetcher" where
  "fetch_unvault_slots S txid [] st = (None, st)"
| "fetch_unvault_slots S txid (i # rest) st =
     (if length (unvault_sigs (pv st)) \<le> i - 1 then (Some IndexError, st)
      else if unvault_sigs (pv st) ! (i - 1) = None then
        fetch_unvault_slots S txid rest
          (st\<lparr>pv := (pv st)\<lparr>unvault_sigs :=
                 (unvault_sigs (pv st))[i - 1 := get_signature S (clock st) txid i]\<rparr>\<rparr>)
      else fetch_unvault_slots S txid rest st)"

fun poll_unvault :: "nat \<Rightarrow> polls \<Rightarrow> string \<Rightarrow> fetcher \<Rightarrow> status \<times> fetcher" where
  "poll_unvault 0 S txid st =
     (if None \<in> set (unvault_sigs (pv st)) then (OutOfFuel, st) else (Finished, st))"
| "poll_unvault (Suc n) S txid st =
     (if None \<in> set (unvault_sigs (pv st)) then
        (if stop_wait S (clock st) then (Stopped, st\<lparr>clock := clock st + 1\<rparr>)
         else
           (case fetch_unvault_slots S txid [1, 2, 3, 4] (st\<lparr>clock := clock st + 1\<rparr>) of
              (Some e, st') \<Rightarrow> (Raised e, st')
            | (None, st') \<Rightarrow> poll_unvault n S txid st'))
      else (Finished, st))"

definition update_unvault_transaction :: "nat \<Rightarrow> ext \<Rightarrow> polls \<Rightarrow> fetcher \<Rightarrow> status \<times> fetcher" where
  "update_unvault_transaction n X S st =
     (case the_tx (unvault_tx (pv st)) of
        Inl e \<Rightarrow> (Raised e, st)
      | Inr tx \<Rightarrow>
          (case poll_unvault n S (hex (GetTxid X tx)) st of
             (Finished, st') \<Rightarrow> (Finished, st'\<lparr>pv := (pv st')\<lparr>unvault_signed := True\<rparr>\<rparr>)
           | other \<Rightarrow> other))"

text \<open>
  \<open>update_unvault_revocations\<close>. Both fetchers it calls return normally when stopped,
  so the test on the two tables follows in every case but a raise.
\<close>

definition returned :: "status \<Rightarrow> bool" where
  "returned s = (s = Finished \<or> s = Stopped)"

definition update_unvault_revocations ::
  "nat \<Rightarrow> ext \<Rightarrow> engine \<Rightarrow> polls \<Rightarrow> fetcher \<Rightarrow> status \<times> fetcher" where
  "update_unvault_revocations n X E S st =
     (case update_unvault_emergency n X S st of (s1, st1) \<Rightarrow>
      if \<not> returned s1 then (s1, st1)
      else
     (case update_cancel_unvault n X S st1 of (s2, st2) \<Rightarrow>
      if \<not> returned s2 then (s2, st2)
      else if None \<notin> set (unvault_emer_sigs (pv st2) @ cancel_sigs (pv st2)) then
        (let st3 = st2\<lparr>pv := (pv st2)\<lparr>unvault_secure := True\<rparr>\<rparr>
         in case the_tx (unvault_tx (pv st3)) of
              Inl e \<Rightarrow> (Raised e, st3)
            | Inr utx \<Rightarrow>
                (case index_None (keychains E) of
                   Inl e \<Rightarrow> (Raised e, st3)
                 | Inr slot \<Rightarrow>
                     if length (unvault_sigs (pv st3)) \<le> slot then (Raised IndexError, st3)
                     else update_unvault_transaction n X S
                            (st3\<lparr>posted := posted st3 @
                                   [(hex (GetTxid X utx), unvault_sigs (pv st3) ! slot)]\<rparr>)))
      else (Finished, st2)))"

text \<open>
  \<open>checked_ext old new\<close>: the table \<open>new\<close> has the slots of \<open>old\<close>, each unchanged or,
  where \<open>old\<close> had \<open>None\<close>, holding a non-empty signature whose last byte is
  \<open>ALL_ANYONECANPAY\<close>.
\<close>

definition checked_ext :: "bytes option list \<Rightarrow> bytes option list \<Rightarrow> bool" where
  "checked_ext old new =
     (length new = length old \<and>
      (\<forall>i < length old. new ! i = old ! i \<or>
         (old ! i = None \<and> (\<exists>sig. new ! i = Some sig \<and> sig \<noteq> [] \<and> last sig = ALL_ANYONECANPAY))))"

section \<open>Concrete inputs\<close>

text \<open>
  A transaction, library functions and keys used where a statement is evaluated at a
  concrete input. Transaction ids have 32 bytes, public keys 33, private keys 32, as
  the library's constructors and the key derivation have them. The library functions
  are stand-ins of the right type, not the cryptographic ones.
\<close>

definition tx0 :: CTransaction where
  "tx0 = CMutableTransaction
           [\<lparr>prevout = \<lparr>prev_hash = replicate 32 0xaa, prev_n = 0\<rparr>, scriptSig = [],
             nSequence = 0xfffffffe\<rparr>]
           [\<lparr>nValue = 1000, scriptPubKey = [0x00]\<rparr>] 2"

definition lib0 :: lib where
  "lib0 = \<lparr>sha256 = (\<lambda>b. take 3 b),
           SignatureHash = (\<lambda>script tx i flag amount ver. [flag]),
           CKey_sign = (\<lambda>key h. key @ h),
           to_scriptPubKey = (\<lambda>a. if a = [] then None else Some (map of_char a))\<rparr>"

text \<open>
  An engine of stakeholder 1 with \<open>current_index\<close> 1 and \<open>max_index\<close> 501, as
  after one deposit, watching the vault address of index 0 and the one the later indices
  share under these keys; the services it talks to (the id of a transaction is its first
  output's value modulo 251, then 31 zero bytes); a deposit to the address of index 0 by
  the transaction \<open>ab00..00\<close>; the vault \<open>add_new_vault\<close> builds for it; and a
  sig-server that holds a signature of every peer for every transaction: flag 0x01 for
  the unvault transaction (whose id is \<open>0200..00\<close>), 0x81 for the others.
\<close>

definition X0 :: ext where
  "X0 = \<lparr>crypto = lib0,
          from_scriptPubKey = (\<lambda>spk. ''bcrt1q'' @ hex (drop 2 spk)),
          GetTxid = (\<lambda>tx. case vout tx of
                            [] \<Rightarrow> replicate 32 0
                          | out # _ \<Rightarrow> word_of_int (nValue out mod 251) # replicate 31 0),
          tx_size = (\<lambda>tx. 100),
          get_feerate = (\<lambda>kind txid. if kind = ''emergency'' then 10 else 1),
          getfeerate = (\<lambda>kind. if kind = ''emergency'' then 10 else 1),
          tx_feerate = (\<lambda>tx prev. 5),
          bump_feerate = (\<lambda>tx add prev. tx\<lparr>vin := vin tx @
             [\<lparr>prevout = \<lparr>prev_hash = replicate 32 0xff, prev_n = 0\<rparr>, scriptSig = [],
               nSequence = 0xfffffffe\<rparr>]\<rparr>),
          assertmempoolaccept = (\<lambda>tx. True)\<rparr>"

definition E0 :: engine where
  "E0 = \<lparr>our_pubkey_from_path = (\<lambda>i. (if i = 0 then 0x02 else 0x03) # replicate 32 0x01),
          our_privkey_from_path = (\<lambda>i. replicate 32 0x11),
          keychains = [None, Some (\<lambda>i. 0x02 # replicate 32 0x05),
                       Some (\<lambda>i. 0x02 # replicate 32 0x06), Some (\<lambda>i. 0x02 # replicate 32 0x07)],
          emergency_pubkeys = [0x02 # replicate 32 0x21, 0x02 # replicate 32 0x22,
                               0x02 # replicate 32 0x23, 0x02 # replicate 32 0x24],
          cosigner_pubkey = 0x02 # replicate 32 0x09,
          current_index = 1, max_index = 501,
          vault_addresses = [''bcrt1q542102'', ''bcrt1q542103''], unvault_addresses = [],
          acked_addresses = [], acked_spends = [], vaults = [], sent = []\<rparr>"

definition utxo0 :: utxo where
  "utxo0 = \<lparr>u_txid = ''ab'' @ replicate 62 (CHR ''0''), u_vout = 0, u_amount = 100000,
            u_address = ''bcrt1q542102''\<rparr>"

definition vault0 :: vault where
  "vault0 =
     \<lparr>v_txid = ''ab'' @ replicate 62 (CHR ''0''), v_vout = 0, v_amount = 100000,
      v_pubkeys = [0x02 # replicate 32 0x01, 0x02 # replicate 32 0x05,
                   0x02 # replicate 32 0x06, 0x02 # replicate 32 0x07],
      v_privkey = replicate 32 0x11,
      v_address = ''bcrt1q542102'',
      emergency_tx = Some
        \<lparr>vin = [\<lparr>prevout = \<lparr>prev_hash = replicate 31 0 @ [0xab], prev_n = 0\<rparr>, scriptSig = [],
                 nSequence = 0xfffffffe\<rparr>],
         vout = [\<lparr>nValue = 99000, scriptPubKey = [0x00, 0x03, 0x02, 0x70, 0x11]\<rparr>],
         nLockTime = 0, nVersion = 2, wit = []\<rparr>,
      emergency_sigs = [Some (replicate 32 0x11 @ [0x01, 0x01]), None, None, None],
      emergency_signed = False,
      unvault_tx = Some
        \<lparr>vin = [\<lparr>prevout = \<lparr>prev_hash = replicate 31 0 @ [0xab], prev_n = 0\<rparr>, scriptSig = [],
                 nSequence = 0xffffffff\<rparr>],
         vout = [\<lparr>nValue = 99900, scriptPubKey = [0x00, 0x03, 0x21, 0x02, 0x01]\<rparr>],
         nLockTime = 0, nVersion = 2, wit = []\<rparr>,
      unvault_sigs = [Some (replicate 32 0x11 @ [0x01, 0x01]), None, None, None],
      unvault_signed = False,
      cancel_tx = Some
        \<lparr>vin = [\<lparr>prevout = \<lparr>prev_hash = 0x02 # replicate 31 0, prev_n = 0\<rparr>, scriptSig = [],
                 nSequence = 0xfffffffe\<rparr>],
         vout = [\<lparr>nValue = 99800, scriptPubKey = [0x00, 0x03, 0x54, 0x21, 0x02]\<rparr>],
         nLockTime = 0, nVersion = 2, wit = []\<rparr>,
      cancel_sigs = [Some (replicate 32 0x11 @ [0x01, 0x01]), None, None, None],
      unvault_emer_tx = Some
        \<lparr>vin = [\<lparr>prevout = \<lparr>prev_hash = 0x02 # replicate 31 0, prev_n = 0\<rparr>, scriptSig = [],
                 nSequence = 0xfffffffe\<rparr>],
         vout = [\<lparr>nValue = 98900, scriptPubKey = [0x00, 0x03, 0x02, 0x70, 0x11]\<rparr>],
         nLockTime = 0, nVersion = 2, wit = []\<rparr>,
      unvault_emer_sigs = [Some (replicate 32 0x11 @ [0x81, 0x81]), None, None, None],
      unvault_secure = False\<rparr>"

definition S0 :: polls where
  "S0 = \<lparr>stop_wait = (\<lambda>round. False),
          get_signature = (\<lambda>round txid i.
             Some [word_of_nat i, if txid = hex (0x02 # replicate 31 0) then 0x01 else 0x81])\<rparr>"

definition fetcher0 :: fetcher where
  "fetcher0 = \<lparr>pv = vault0, clock = 0, posted = []\<rparr>"

text \<open>
  The same engine with one acknowledged address, and the vault above once every peer
  signature of the emergency and the unvault-emergency transaction has been fetched.
\<close>

definition E_spend :: engine where
  "E_spend = E0\<lparr>acked_addresses := [''bcrt1qacked'']\<rparr>"

definition vault_full :: vault where
  "vault_full = vault0
     \<lparr>emergency_sigs := [Some (replicate 32 0x11 @ [0x01, 0x01]), Some [0x02, 0x81],
                         Some [0x03, 0x81], Some [0x04, 0x81]],
      unvault_emer_sigs := [Some (replicate 32 0x11 @ [0x81, 0x81]), Some [0x02, 0x81],
                            Some [0x03, 0x81], Some [0x04, 0x81]]\<rparr>"

section \<open>Scripts and templates\<close>

lemmas opcode_defs =
  OP_0_def OP_PUSHDATA1_def OP_PUSHDATA2_def OP_PUSHDATA4_def OP_1NEGATE_def OP_1_def
  OP_2_def OP_3_def OP_4_def OP_6_def OP_IF_def OP_ELSE_def OP_ENDIF_def OP_DROP_def
  OP_DUP_def OP_SWAP_def OP_EQUAL_def OP_EQUALVERIFY_def OP_ADD_def OP_CHECKSIG_def
  OP_CHECKSIGVERIFY_def OP_CHECKMULTISIG_def OP_CHECKSEQUENCEVERIFY_def

lemma bn2vch_4464: "bn2vch 4464 = [0x70, 0x11]"
  by (simp add: bn2vch_def le_bytes.simps Let_def)

lemma push33: "length e = 33 \<Longrightarrow> encode_op_pushdata e = 0x21 # e"
  by (simp add: encode_op_pushdata_def)

lemma CScript_append: "CScript (xs @ ys) = CScript xs @ CScript ys"
  by (simp add: CScript_def)

lemma CScript_pubkeys:
  "\<forall>e \<in> set E. length e = 33 \<Longrightarrow> CScript (map ScriptBytes E) = concat (map (\<lambda>e. 0x21 # e) E)"
proof (induction E)
  case Nil
  show ?case by (simp add: CScript_def)
next
  case (Cons e E)
  then have "CScript (map ScriptBytes E) = concat (map (\<lambda>e. 0x21 # e) E)" by simp
  moreover have "CScript (map ScriptBytes (e # E)) = encode_op_pushdata e @ CScript (map ScriptBytes E)"
    by (simp add: CScript_def)
  moreover have "length e = 33" using Cons.prems by simp
  ultimately show ?case by (simp add: push33)
qed

lemma emergency_script_head:
  "CScript [ScriptInt 4464, ScriptOp OP_CHECKSEQUENCEVERIFY, ScriptOp OP_DROP, ScriptOp OP_4]
     = [0x02, 0x70, 0x11, 0xb2, 0x75, 0x54]"
  by (simp add: CScript_def bn2vch_4464 encode_op_pushdata_def opcode_defs)

lemma emergency_script_tail:
  "CScript [ScriptOp OP_4, ScriptOp OP_CHECKMULTISIG] = [0x54, 0xae]"
  by (simp add: CScript_def opcode_defs)

lemma unvault_script_star_4:
  "length pubkeys = 4 \<Longrightarrow> \<exists>s. unvault_script_star pubkeys srv = Inr s"
  by (cases "(pubkeys, srv)" rule: unvault_script_star.cases) simp_all

lemma unvault_script_star_Inr:
  "unvault_script_star pubkeys srv = Inr s \<Longrightarrow> length pubkeys = 4"
  by (cases "(pubkeys, srv)" rule: unvault_script_star.cases) simp_all

lemma form_unvault_spend_frame:
  "form_unvault_spend tx sigs pubkeys pub_server = Inr t \<Longrightarrow>
     vin t = vin tx \<and> vout t = vout tx \<and> nVersion t = nVersion tx \<and> nLockTime t = nLockTime tx"
  by (auto simp: form_unvault_spend_def from_tx_def split: sum.splits)

lemma form_spend_tx_frame:
  "form_spend_tx tx pubkeys pub_server sigs = Inr t \<Longrightarrow>
     vin t = vin tx \<and> vout t = vout tx \<and> nVersion t = nVersion tx \<and> nLockTime t = nLockTime tx"
  by (auto simp: form_spend_tx_def from_tx_def split: sum.splits)

lemma sighash_values:
  "SIGHASH_ALL = 0x01" "ALL_ANYONECANPAY = 0x81"
  "SIGHASH_ALL OR SIGHASH_ANYONECANPAY = 0x81"
  "SIGHASH_ALL AND SIGHASH_ANYONECANPAY = 0"
  by (simp_all add: ALL_ANYONECANPAY_def SIGHASH_ALL_def SIGHASH_ANYONECANPAY_def)

lemma sign_spend_tx_flag:
  "sign_spend_tx L tx privkey pubkeys pub_server prev_value = Inr s \<Longrightarrow> last s = SIGHASH_ALL"
  by (auto simp: sign_spend_tx_def split: sum.splits)

lemma sign_unvault_revault_flag:
  "sign_unvault_revault L tx privkey pubkeys pub_server prev_value sign_all = Inr s \<Longrightarrow>
     last s = (if sign_all then SIGHASH_ALL else ALL_ANYONECANPAY)"
  by (auto simp: sign_unvault_revault_def split: sum.splits)

lemma spend_txouts_total:
  "\<forall>a \<in> fst ` set addresses. to_scriptPubKey L a \<noteq> None \<Longrightarrow> \<exists>outs. spend_txouts L addresses = Inr outs"
  by (induction addresses) (auto split: option.splits sum.splits)

text \<open>
  C3. The signatures of \<open>sign_unvault_tx\<close> and \<open>sign_spend_tx\<close> end with the flag byte
  \<open>SIGHASH_ALL\<close> (0x01), which has no \<open>ANYONECANPAY\<close> bit; the signatures of
  \<open>sign_unvault_revault\<close> and \<open>sign_emergency_vault_tx\<close> with \<open>sign_all\<close> left
  \<open>False\<close> end with \<open>SIGHASH_ALL | SIGHASH_ANYONECANPAY\<close> (0x81). The two functions
  that build the unvault script return a signature for every list of four pubkeys.
\<close>

theorem sighash_flags:
  "last (sign_unvault_tx L tx privkey pubkeys prev_value) = 0x01
   \<and> last (sign_unvault_tx L tx privkey pubkeys prev_value) AND SIGHASH_ANYONECANPAY = 0
   \<and> (\<forall>s. sign_spend_tx L tx privkey pubkeys pub_server prev_value = Inr s \<longrightarrow>
         last s = 0x01 \<and> last s AND SIGHASH_ANYONECANPAY = 0)
   \<and> (\<forall>s. sign_unvault_revault L tx privkey pubkeys pub_server prev_value False = Inr s \<longrightarrow>
         last s = 0x81 \<and> last s = SIGHASH_ALL OR SIGHASH_ANYONECANPAY)
   \<and> last (sign_emergency_vault_tx L tx privkey pubkeys prev_value False) = 0x81
   \<and> last (sign_emergency_vault_tx L tx privkey pubkeys prev_value False)
        = SIGHASH_ALL OR SIGHASH_ANYONECANPAY
   \<and> (length pubkeys = 4 \<longrightarrow>
         (\<exists>s. sign_spend_tx L tx privkey pubkeys pub_server prev_value = Inr s)
       \<and> (\<exists>s. sign_unvault_revault L tx privkey pubkeys pub_server prev_value False = Inr s))"
proof (intro conjI allI impI)
  have u: "last (sign_unvault_tx L tx privkey pubkeys prev_value) = SIGHASH_ALL"
    by (simp add: sign_unvault_tx_def)
  show "last (sign_unvault_tx L tx privkey pubkeys prev_value) = 0x01"
    using u by (simp add: sighash_values)
  show "last (sign_unvault_tx L tx privkey pubkeys prev_value) AND SIGHASH_ANYONECANPAY = 0"
    unfolding u by (rule sighash_values)
  have e: "last (sign_emergency_vault_tx L tx privkey pubkeys prev_value False) = ALL_ANYONECANPAY"
    by (simp add: sign_emergency_vault_tx_def)
  show "last (sign_emergency_vault_tx L tx privkey pubkeys prev_value False) = 0x81"
    using e by (simp add: sighash_values)
  show "last (sign_emergency_vault_tx L tx privkey pubkeys prev_value False)
          = SIGHASH_ALL OR SIGHASH_ANYONECANPAY"
    unfolding e by (rule ALL_ANYONECANPAY_def)
next
  fix s assume "sign_spend_tx L tx privkey pubkeys pub_server prev_value = Inr s"
  then have s: "last s = SIGHASH_ALL" by (rule sign_spend_tx_flag)
  show "last s = 0x01" using s by (simp add: sighash_values)
  show "last s AND SIGHASH_ANYONECANPAY = 0" unfolding s by (rule sighash_values)
next
  fix s assume "sign_unvault_revault L tx privkey pubkeys pub_server prev_value False = Inr s"
  from sign_unvault_revault_flag [OF this] have s: "last s = ALL_ANYONECANPAY" by simp
  show "last s = 0x81" using s by (simp add: sighash_values)
  show "last s = SIGHASH_ALL OR SIGHASH_ANYONECANPAY" unfolding s by (rule ALL_ANYONECANPAY_def)
next
  assume "length pubkeys = 4"
  from unvault_script_star_4 [OF this, of pub_server]
  obtain s where s: "unvault_script_star pubkeys pub_server = Inr s" ..
  show "\<exists>s. sign_spend_tx L tx privkey pubkeys pub_server prev_value = Inr s"
    by (simp add: sign_spend_tx_def s)
  show "\<exists>s. sign_unvault_revault L tx privkey pubkeys pub_server prev_value False = Inr s"
    by (simp add: sign_unvault_revault_def s)
qed

theorem sighash_flags_witness:
  "(\<exists>s. sign_spend_tx lib0 tx0 [7] [[5], [6], [7], [8]] [9] 1000 = Inr s
        \<and> last s = 0x01 \<and> last s AND SIGHASH_ANYONECANPAY = 0)
   \<and> (\<exists>s. sign_unvault_revault lib0 tx0 [7] [[5], [6], [7], [8]] [9] 1000 False = Inr s
        \<and> last s = 0x81)"
proof -
  have len: "length [[5], [6], [7], [8 :: 8 word]] = 4" by simp
  note A = sighash_flags [of lib0 tx0 "[7]" "[[5], [6], [7], [8]]" 1000 "[9]"]
  from A have tot: "length [[5], [6], [7], [8 :: 8 word]] = 4 \<longrightarrow>
         (\<exists>s. sign_spend_tx lib0 tx0 [7] [[5], [6], [7], [8]] [9] 1000 = Inr s)
       \<and> (\<exists>s. sign_unvault_revault lib0 tx0 [7] [[5], [6], [7], [8]] [9] 1000 False = Inr s)"
    by (elim conjE)
  from tot len obtain s1 s2 where
    s1: "sign_spend_tx lib0 tx0 [7] [[5], [6], [7], [8]] [9] 1000 = Inr s1" and
    s2: "sign_unvault_revault lib0 tx0 [7] [[5], [6], [7], [8]] [9] 1000 False = Inr s2"
    by blast
  from A have "\<forall>s. sign_spend_tx lib0 tx0 [7] [[5], [6], [7], [8]] [9] 1000 = Inr s \<longrightarrow>
         last s = 0x01 \<and> last s AND SIGHASH_ANYONECANPAY = 0"
    by (elim conjE)
  from this [rule_format, OF s1]
  have r1: "last s1 = 0x01 \<and> last s1 AND SIGHASH_ANYONECANPAY = 0" .
  from A have "\<forall>s. sign_unvault_revault lib0 tx0 [7] [[5], [6], [7], [8]] [9] 1000 False = Inr s \<longrightarrow>
         last s = 0x81 \<and> last s = SIGHASH_ALL OR SIGHASH_ANYONECANPAY"
    by (elim conjE)
  from this [rule_format, OF s2] have r2: "last s2 = 0x81" by (rule conjunct1)
  from s1 r1 have e1: "\<exists>s. sign_spend_tx lib0 tx0 [7] [[5], [6], [7], [8]] [9] 1000 = Inr s
        \<and> last s = 0x01 \<and> last s AND SIGHASH_ANYONECANPAY = 0"
    by (intro exI [of _ s1] conjI) (elim conjE, assumption)+
  from s2 r2 have e2: "\<exists>s. sign_unvault_revault lib0 tx0 [7] [[5], [6], [7], [8]] [9] 1000 False = Inr s
        \<and> last s = 0x81"
    by (intro exI [of _ s2]) simp
  from e1 e2 show ?thesis by (rule conjI)
qed

text \<open>
  C4. For four signatures and four pubkeys, \<open>form_spend_vault_txout\<close> attaches the
  witness stack [empty byte array, sig1, sig2, sig3, sig4, vault script], and
  \<open>form_unvault_spend\<close> attaches the four signatures in reverse slot order followed by
  the unvault script, with no leading empty element.
\<close>

theorem form_witness_stacks:
  "wit (form_spend_vault_txout tx [p1, p2, p3, p4] [s1, s2, s3, s4])
     = [[[], s1, s2, s3, s4, vault_script [p1, p2, p3, p4]]]
   \<and> (\<exists>t. form_unvault_spend tx [s1, s2, s3, s4] [p1, p2, p3, p4] pub_server = Inr t
          \<and> wit t = [[s4, s3, s2, s1, unvault_script p1 p2 p3 p4 pub_server]])"
  by (simp add: form_spend_vault_txout_def form_unvault_spend_def from_tx_def)

text \<open>
  C5, as the code has it. For four 33-byte pubkeys the emergency script is the bytes
  0x02 0x70 0x11 (a push of the two bytes of 4464, little-endian), then
  \<open>OP_CHECKSEQUENCEVERIFY\<close>, \<open>OP_DROP\<close>, and the 4-of-4 multisig: \<open>OP_4\<close>, each key
  behind its length byte 0x21, \<open>OP_4\<close>, \<open>OP_CHECKMULTISIG\<close>.
\<close>

theorem emergency_script_bytes:
  assumes "length e1 = 33" and "length e2 = 33" and "length e3 = 33" and "length e4 = 33"
  shows "emergency_script [e1, e2, e3, e4] =
     [0x02, 0x70, 0x11, OP_CHECKSEQUENCEVERIFY, OP_DROP, OP_4]
     @ (0x21 # e1) @ (0x21 # e2) @ (0x21 # e3) @ (0x21 # e4) @ [OP_4, OP_CHECKMULTISIG]"
proof -
  have "\<forall>e \<in> set [e1, e2, e3, e4]. length e = 33" using assms by simp
  then have "CScript (map ScriptBytes [e1, e2, e3, e4])
               = concat (map (\<lambda>e. 0x21 # e) [e1, e2, e3, e4])"
    by (rule CScript_pubkeys)
  then show ?thesis
    unfolding emergency_script_def CScript_append emergency_script_head emergency_script_tail
    by (simp add: opcode_defs)
qed

theorem emergency_script_bytes_witness:
  "take 6 (emergency_script (replicate 4 (replicate 33 0x02)))
     = [0x02, 0x70, 0x11, OP_CHECKSEQUENCEVERIFY, OP_DROP, OP_4]
   \<and> length (emergency_script (replicate 4 (replicate 33 0x02))) = 144"
proof -
  have r: "replicate 4 (replicate 33 (0x02 :: 8 word))
             = [replicate 33 0x02, replicate 33 0x02, replicate 33 0x02, replicate 33 0x02]"
    by (simp add: numeral_eq_Suc)
  have l: "length (replicate 33 (0x02 :: 8 word)) = 33" by simp
  show ?thesis
    unfolding r emergency_script_bytes [OF l l l l] by simp
qed

text \<open>
  C5, as the claim states it, fails: the script of four 33-byte keys does not begin with
  0x04 0x70 0x11.
\<close>

theorem emergency_script_prefix_counterexample:
  "take 3 (emergency_script (replicate 4 (replicate 33 0x02))) \<noteq> [0x04, 0x70, 0x11]"
  unfolding emergency_script_def CScript_append emergency_script_head by simp

lemma create_spend_vault_txout_Inr:
  "create_spend_vault_txout txid n txout rbf = Inr t \<Longrightarrow>
     nVersion t = 2 \<and> map nSequence (vin t) = [if rbf then 0xfffffffe else 0xffffffff]"
  by (auto simp: create_spend_vault_txout_def mk_COutPoint_def mk_CTxIn_def
      CMutableTransaction_def err_bind_def split: if_splits)

lemma create_spend_vault_txout_total:
  "length txid = 32 \<and> 0 \<le> n \<and> n \<le> 0xffffffff \<Longrightarrow>
     \<exists>t. create_spend_vault_txout txid n txout rbf = Inr t"
  by (simp add: create_spend_vault_txout_def mk_COutPoint_def mk_CTxIn_def err_bind_def)

lemma create_spend_vault_txout_raises:
  "\<not> (length txid = 32 \<and> 0 \<le> n \<and> n \<le> 0xffffffff) \<Longrightarrow>
     create_spend_vault_txout txid n txout rbf = Inl ValueError"
  by (auto simp: create_spend_vault_txout_def mk_COutPoint_def err_bind_def)

lemma create_unvault_spend_Inr:
  "create_unvault_spend txid n txout rbf = Inr t \<Longrightarrow>
     nVersion t = 2 \<and> map nSequence (vin t) = [if rbf then 0xfffffffe else 0xffffffff]"
  by (auto simp: create_unvault_spend_def mk_COutPoint_def mk_CTxIn_def
      CMutableTransaction_def err_bind_def split: if_splits)

lemma create_unvault_spend_total:
  "length txid = 32 \<and> 0 \<le> n \<and> n \<le> 0xffffffff \<Longrightarrow>
     \<exists>t. create_unvault_spend txid n txout rbf = Inr t"
  by (simp add: create_unvault_spend_def mk_COutPoint_def mk_CTxIn_def err_bind_def)

lemma create_unvault_spend_raises:
  "\<not> (length txid = 32 \<and> 0 \<le> n \<and> n \<le> 0xffffffff) \<Longrightarrow>
     create_unvault_spend txid n txout rbf = Inl ValueError"
  by (auto simp: create_unvault_spend_def mk_COutPoint_def err_bind_def)

lemma create_spend_tx_Inr:
  "create_spend_tx L txid n addresses = Inr t \<Longrightarrow>
     nVersion t = 2 \<and> map nSequence (vin t) = [6]"
  by (auto simp: create_spend_tx_def mk_COutPoint_def mk_CTxIn_def
      CMutableTransaction_def err_bind_def split: if_splits sum.splits)

lemma create_spend_tx_raises:
  "\<not> (length txid = 32 \<and> 0 \<le> n \<and> n \<le> 0xffffffff) \<Longrightarrow>
     \<exists>e. create_spend_tx L txid n addresses = Inl e"
  by (auto simp: create_spend_tx_def mk_COutPoint_def err_bind_def split: sum.splits)

lemma create_unvault_tx_raises:
  "\<not> (length txid = 32 \<and> 0 \<le> n \<and> n \<le> 0xffffffff) \<Longrightarrow>
     \<exists>e. create_unvault_tx L txid n pubkeys pub_server v = Inl e"
  by (auto simp: create_unvault_tx_def create_spend_vault_txout_raises split: sum.splits)

text \<open>
  C6. Every template that is returned has \<open>nVersion\<close> 2 and one input, whose
  \<open>nSequence\<close> is 0xFFFFFFFF for the unvault transaction, 0xFFFFFFFE for the cancel,
  the vault-emergency and the unvault-emergency transactions, and 6 for the spend
  transaction. A template is returned when the outpoint is one \<open>COutPoint\<close> accepts (a
  transaction id of 32 bytes and an output index from 0 to 0xFFFFFFFF): always for the
  cancel and the two emergency transactions, for every list of four pubkeys for the
  unvault transaction, and whenever every address decodes for the spend transaction.
  With any other outpoint every one of the five functions raises.
\<close>

theorem template_versions_sequences:
  "(\<forall>t. create_unvault_tx L txid n pubkeys pub_server v = Inr t \<longrightarrow>
        nVersion t = 2 \<and> map nSequence (vin t) = [0xFFFFFFFF])
   \<and> (\<forall>t. create_cancel_tx L txid n pubkeys v = Inr t \<longrightarrow>
        nVersion t = 2 \<and> map nSequence (vin t) = [0xFFFFFFFE])
   \<and> (\<forall>t. create_emergency_vault_tx L txid n v emer_pubkeys = Inr t \<longrightarrow>
        nVersion t = 2 \<and> map nSequence (vin t) = [0xFFFFFFFE])
   \<and> (\<forall>t. create_emer_unvault_tx L txid n emer_pubkeys v = Inr t \<longrightarrow>
        nVersion t = 2 \<and> map nSequence (vin t) = [0xFFFFFFFE])
   \<and> (\<forall>t. create_spend_tx L txid n addresses = Inr t \<longrightarrow>
        nVersion t = 2 \<and> map nSequence (vin t) = [6])
   \<and> (length txid = 32 \<and> 0 \<le> n \<and> n \<le> 0xFFFFFFFF \<longrightarrow>
        (\<exists>t. create_cancel_tx L txid n pubkeys v = Inr t)
        \<and> (\<exists>t. create_emergency_vault_tx L txid n v emer_pubkeys = Inr t)
        \<and> (\<exists>t. create_emer_unvault_tx L txid n emer_pubkeys v = Inr t)
        \<and> (length pubkeys = 4 \<longrightarrow>
              (\<exists>t. create_unvault_tx L txid n pubkeys pub_server v = Inr t))
        \<and> ((\<forall>a \<in> fst ` set addresses. to_scriptPubKey L a \<noteq> None) \<longrightarrow>
              (\<exists>t. create_spend_tx L txid n addresses = Inr t)))
   \<and> (\<not> (length txid = 32 \<and> 0 \<le> n \<and> n \<le> 0xFFFFFFFF) \<longrightarrow>
        (\<exists>e. create_unvault_tx L txid n pubkeys pub_server v = Inl e)
        \<and> (\<exists>e. create_cancel_tx L txid n pubkeys v = Inl e)
        \<and> (\<exists>e. create_emergency_vault_tx L txid n v emer_pubkeys = Inl e)
        \<and> (\<exists>e. create_emer_unvault_tx L txid n emer_pubkeys v = Inl e)
        \<and> (\<exists>e. create_spend_tx L txid n addresses = Inl e))"
proof -
  have u: "\<forall>t. create_unvault_tx L txid n pubkeys pub_server v = Inr t \<longrightarrow>
        nVersion t = 2 \<and> map nSequence (vin t) = [0xFFFFFFFF]"
  proof (intro allI impI)
    fix t assume "create_unvault_tx L txid n pubkeys pub_server v = Inr t"
    then obtain txout where "create_spend_vault_txout txid n txout False = Inr t"
      by (auto simp: create_unvault_tx_def split: sum.splits)
    from create_spend_vault_txout_Inr [OF this]
    show "nVersion t = 2 \<and> map nSequence (vin t) = [0xFFFFFFFF]" by simp
  qed
  have c: "\<forall>t. create_cancel_tx L txid n pubkeys v = Inr t \<longrightarrow>
        nVersion t = 2 \<and> map nSequence (vin t) = [0xFFFFFFFE]"
  proof (intro allI impI)
    fix t assume "create_cancel_tx L txid n pubkeys v = Inr t"
    then have "create_unvault_spend txid n (vault_txout L pubkeys v) True = Inr t"
      by (simp add: create_cancel_tx_def)
    from create_unvault_spend_Inr [OF this]
    show "nVersion t = 2 \<and> map nSequence (vin t) = [0xFFFFFFFE]" by simp
  qed
  have e: "\<forall>t. create_emergency_vault_tx L txid n v emer_pubkeys = Inr t \<longrightarrow>
        nVersion t = 2 \<and> map nSequence (vin t) = [0xFFFFFFFE]"
  proof (intro allI impI)
    fix t assume "create_emergency_vault_tx L txid n v emer_pubkeys = Inr t"
    then have "create_spend_vault_txout txid n (emergency_txout L emer_pubkeys v) True = Inr t"
      by (simp add: create_emergency_vault_tx_def)
    from create_spend_vault_txout_Inr [OF this]
    show "nVersion t = 2 \<and> map nSequence (vin t) = [0xFFFFFFFE]" by simp
  qed
  have ue: "\<forall>t. create_emer_unvault_tx L txid n emer_pubkeys v = Inr t \<longrightarrow>
        nVersion t = 2 \<and> map nSequence (vin t) = [0xFFFFFFFE]"
  proof (intro allI impI)
    fix t assume "create_emer_unvault_tx L txid n emer_pubkeys v = Inr t"
    then have "create_unvault_spend txid n (emergency_txout L emer_pubkeys v) True = Inr t"
      by (simp add: create_emer_unvault_tx_def)
    from create_unvault_spend_Inr [OF this]
    show "nVersion t = 2 \<and> map nSequence (vin t) = [0xFFFFFFFE]" by simp
  qed
  have s: "\<forall>t. create_spend_tx L txid n addresses = Inr t \<longrightarrow>
        nVersion t = 2 \<and> map nSequence (vin t) = [6]"
    using create_spend_tx_Inr by blast
  have tot: "length txid = 32 \<and> 0 \<le> n \<and> n \<le> 0xFFFFFFFF \<longrightarrow>
        (\<exists>t. create_cancel_tx L txid n pubkeys v = Inr t)
        \<and> (\<exists>t. create_emergency_vault_tx L txid n v emer_pubkeys = Inr t)
        \<and> (\<exists>t. create_emer_unvault_tx L txid n emer_pubkeys v = Inr t)
        \<and> (length pubkeys = 4 \<longrightarrow>
              (\<exists>t. create_unvault_tx L txid n pubkeys pub_server v = Inr t))
        \<and> ((\<forall>a \<in> fst ` set addresses. to_scriptPubKey L a \<noteq> None) \<longrightarrow>
              (\<exists>t. create_spend_tx L txid n addresses = Inr t))"
  proof
    assume ok: "length txid = 32 \<and> 0 \<le> n \<and> n \<le> 0xFFFFFFFF"
    have t1: "\<exists>t. create_cancel_tx L txid n pubkeys v = Inr t"
      unfolding create_cancel_tx_def Let_def using ok by (rule create_unvault_spend_total)
    have t2: "\<exists>t. create_emergency_vault_tx L txid n v emer_pubkeys = Inr t"
      unfolding create_emergency_vault_tx_def Let_def using ok
      by (rule create_spend_vault_txout_total)
    have t3: "\<exists>t. create_emer_unvault_tx L txid n emer_pubkeys v = Inr t"
      unfolding create_emer_unvault_tx_def Let_def using ok by (rule create_unvault_spend_total)
    have t4: "length pubkeys = 4 \<longrightarrow>
              (\<exists>t. create_unvault_tx L txid n pubkeys pub_server v = Inr t)"
    proof
      assume "length pubkeys = 4"
      from unvault_script_star_4 [OF this, of pub_server]
      obtain sc where sc: "unvault_script_star pubkeys pub_server = Inr sc" ..
      from create_spend_vault_txout_total [OF ok]
      show "\<exists>t. create_unvault_tx L txid n pubkeys pub_server v = Inr t"
        by (simp add: create_unvault_tx_def unvault_txout_def sc)
    qed
    have t5: "(\<forall>a \<in> fst ` set addresses. to_scriptPubKey L a \<noteq> None) \<longrightarrow>
              (\<exists>t. create_spend_tx L txid n addresses = Inr t)"
    proof
      assume "\<forall>a \<in> fst ` set addresses. to_scriptPubKey L a \<noteq> None"
      from spend_txouts_total [OF this]
      obtain outs where "spend_txouts L addresses = Inr outs" ..
      then show "\<exists>t. create_spend_tx L txid n addresses = Inr t"
        using ok by (simp add: create_spend_tx_def mk_COutPoint_def mk_CTxIn_def err_bind_def)
    qed
    from t1 t2 t3 t4 t5
    show "(\<exists>t. create_cancel_tx L txid n pubkeys v = Inr t)
        \<and> (\<exists>t. create_emergency_vault_tx L txid n v emer_pubkeys = Inr t)
        \<and> (\<exists>t. create_emer_unvault_tx L txid n emer_pubkeys v = Inr t)
        \<and> (length pubkeys = 4 \<longrightarrow>
              (\<exists>t. create_unvault_tx L txid n pubkeys pub_server v = Inr t))
        \<and> ((\<forall>a \<in> fst ` set addresses. to_scriptPubKey L a \<noteq> None) \<longrightarrow>
              (\<exists>t. create_spend_tx L txid n addresses = Inr t))"
      by (intro conjI)
  qed
  have bad: "\<not> (length txid = 32 \<and> 0 \<le> n \<and> n \<le> 0xFFFFFFFF) \<longrightarrow>
        (\<exists>e. create_unvault_tx L txid n pubkeys pub_server v = Inl e)
        \<and> (\<exists>e. create_cancel_tx L txid n pubkeys v = Inl e)
        \<and> (\<exists>e. create_emergency_vault_tx L txid n v emer_pubkeys = Inl e)
        \<and> (\<exists>e. create_emer_unvault_tx L txid n emer_pubkeys v = Inl e)
        \<and> (\<exists>e. create_spend_tx L txid n addresses = Inl e)"
  proof
    assume no: "\<not> (length txid = 32 \<and> 0 \<le> n \<and> n \<le> 0xFFFFFFFF)"
    have b1: "\<exists>e. create_unvault_tx L txid n pubkeys pub_server v = Inl e"
      using no by (rule create_unvault_tx_raises)
    have b2: "\<exists>e. create_cancel_tx L txid n pubkeys v = Inl e"
      unfolding create_cancel_tx_def Let_def
      using create_unvault_spend_raises [OF no] by (intro exI [of _ ValueError])
    have b3: "\<exists>e. create_emergency_vault_tx L txid n v emer_pubkeys = Inl e"
      unfolding create_emergency_vault_tx_def Let_def
      using create_spend_vault_txout_raises [OF no] by (intro exI [of _ ValueError])
    have b4: "\<exists>e. create_emer_unvault_tx L txid n emer_pubkeys v = Inl e"
      unfolding create_emer_unvault_tx_def Let_def
      using create_unvault_spend_raises [OF no] by (intro exI [of _ ValueError])
    have b5: "\<exists>e. create_spend_tx L txid n addresses = Inl e"
      using no by (rule create_spend_tx_raises)
    from b1 b2 b3 b4 b5
    show "(\<exists>e. create_unvault_tx L txid n pubkeys pub_server v = Inl e)
        \<and> (\<exists>e. create_cancel_tx L txid n pubkeys v = Inl e)
        \<and> (\<exists>e. create_emergency_vault_tx L txid n v emer_pubkeys = Inl e)
        \<and> (\<exists>e. create_emer_unvault_tx L txid n emer_pubkeys v = Inl e)
        \<and> (\<exists>e. create_spend_tx L txid n addresses = Inl e)"
      by (intro conjI)
  qed
  from u c e ue s tot bad show ?thesis by (intro conjI)
qed

theorem template_versions_sequences_witness:
  "(\<exists>t. create_unvault_tx lib0 (replicate 32 0xaa) 0 [[5], [6], [7], [8]] [9] 1000 = Inr t
        \<and> nVersion t = 2 \<and> map nSequence (vin t) = [0xFFFFFFFF])
   \<and> (\<exists>t. create_cancel_tx lib0 (replicate 32 0xaa) 0 [[5], [6], [7], [8]] 1000 = Inr t
        \<and> nVersion t = 2 \<and> map nSequence (vin t) = [0xFFFFFFFE])
   \<and> (\<exists>t. create_emergency_vault_tx lib0 (replicate 32 0xaa) 0 1000 [[1], [2], [3], [4]] = Inr t
        \<and> nVersion t = 2 \<and> map nSequence (vin t) = [0xFFFFFFFE])
   \<and> (\<exists>t. create_emer_unvault_tx lib0 (replicate 32 0xaa) 0 [[1], [2], [3], [4]] 1000 = Inr t
        \<and> nVersion t = 2 \<and> map nSequence (vin t) = [0xFFFFFFFE])
   \<and> (\<exists>t. create_spend_tx lib0 (replicate 32 0xaa) 0 [(''bcrt1qa'', 400), (''bcrt1qb'', 500)] = Inr t
        \<and> nVersion t = 2 \<and> map nSequence (vin t) = [6])
   \<and> (\<exists>e. create_cancel_tx lib0 [0xaa] 0 [[5], [6], [7], [8]] 1000 = Inl e)
   \<and> (\<exists>e. create_emergency_vault_tx lib0 (replicate 32 0xaa) (- 1) 1000 [[1], [2], [3], [4]]
          = Inl e)"
proof -
  have len: "length [[5], [6], [7], [8 :: 8 word]] = 4" by simp
  have ok: "length (replicate 32 (0xaa :: 8 word)) = 32 \<and> (0 :: int) \<le> 0 \<and> (0 :: int) \<le> 0xFFFFFFFF"
    by simp
  have dec: "\<forall>a \<in> fst ` set [(''bcrt1qa'', 400 :: int), (''bcrt1qb'', 500)]. to_scriptPubKey lib0 a \<noteq> None"
    by (simp add: lib0_def)
  have no1: "\<not> (length [0xaa :: 8 word] = 32 \<and> (0 :: int) \<le> 0 \<and> (0 :: int) \<le> 0xFFFFFFFF)"
    by simp
  have no2: "\<not> (length (replicate 32 (0xaa :: 8 word)) = 32 \<and> (0 :: int) \<le> - 1 \<and> (- 1 :: int) \<le> 0xFFFFFFFF)"
    by simp
  note A = template_versions_sequences
    [of lib0 "replicate 32 0xaa" 0 "[[5], [6], [7], [8]]" "[9]" 1000 "[[1], [2], [3], [4]]"
        "[(''bcrt1qa'', 400), (''bcrt1qb'', 500)]"]
  note B = template_versions_sequences
    [of lib0 "[0xaa]" 0 "[[5], [6], [7], [8]]" "[9]" 1000 "[[1], [2], [3], [4]]" "[]"]
  note C = template_versions_sequences
    [of lib0 "replicate 32 0xaa" "- 1" "[[5], [6], [7], [8]]" "[9]" 1000 "[[1], [2], [3], [4]]" "[]"]
  from A have tot: "length (replicate 32 (0xaa :: 8 word)) = 32 \<and> (0 :: int) \<le> 0 \<and> (0 :: int) \<le> 0xFFFFFFFF \<longrightarrow>
        (\<exists>t. create_cancel_tx lib0 (replicate 32 0xaa) 0 [[5], [6], [7], [8]] 1000 = Inr t)
        \<and> (\<exists>t. create_emergency_vault_tx lib0 (replicate 32 0xaa) 0 1000 [[1], [2], [3], [4]] = Inr t)
        \<and> (\<exists>t. create_emer_unvault_tx lib0 (replicate 32 0xaa) 0 [[1], [2], [3], [4]] 1000 = Inr t)
        \<and> (length [[5], [6], [7], [8 :: 8 word]] = 4 \<longrightarrow>
              (\<exists>t. create_unvault_tx lib0 (replicate 32 0xaa) 0 [[5], [6], [7], [8]] [9] 1000 = Inr t))
        \<and> ((\<forall>a \<in> fst ` set [(''bcrt1qa'', 400 :: int), (''bcrt1qb'', 500)]. to_scriptPubKey lib0 a \<noteq> None) \<longrightarrow>
              (\<exists>t. create_spend_tx lib0 (replicate 32 0xaa) 0 [(''bcrt1qa'', 400), (''bcrt1qb'', 500)] = Inr t))"
    by (elim conjE)
  from tot [rule_format, OF ok] len dec obtain t1 t2 t3 t4 t5 where
    t1: "create_unvault_tx lib0 (replicate 32 0xaa) 0 [[5], [6], [7], [8]] [9] 1000 = Inr t1" and
    t2: "create_cancel_tx lib0 (replicate 32 0xaa) 0 [[5], [6], [7], [8]] 1000 = Inr t2" and
    t3: "create_emergency_vault_tx lib0 (replicate 32 0xaa) 0 1000 [[1], [2], [3], [4]] = Inr t3" and
    t4: "create_emer_unvault_tx lib0 (replicate 32 0xaa) 0 [[1], [2], [3], [4]] 1000 = Inr t4" and
    t5: "create_spend_tx lib0 (replicate 32 0xaa) 0 [(''bcrt1qa'', 400), (''bcrt1qb'', 500)] = Inr t5"
    by blast
  from A have "\<forall>t. create_unvault_tx lib0 (replicate 32 0xaa) 0 [[5], [6], [7], [8]] [9] 1000 = Inr t \<longrightarrow>
        nVersion t = 2 \<and> map nSequence (vin t) = [0xFFFFFFFF]"
    by (elim conjE)
  from this [rule_format, OF t1]
  have r1: "nVersion t1 = 2 \<and> map nSequence (vin t1) = [0xFFFFFFFF]" .
  from A have "\<forall>t. create_cancel_tx lib0 (replicate 32 0xaa) 0 [[5], [6], [7], [8]] 1000 = Inr t \<longrightarrow>
        nVersion t = 2 \<and> map nSequence (vin t) = [0xFFFFFFFE]"
    by (elim conjE)
  from this [rule_format, OF t2]
  have r2: "nVersion t2 = 2 \<and> map nSequence (vin t2) = [0xFFFFFFFE]" .
  from A have "\<forall>t. create_emergency_vault_tx lib0 (replicate 32 0xaa) 0 1000 [[1], [2], [3], [4]] = Inr t \<longrightarrow>
        nVersion t = 2 \<and> map nSequence (vin t) = [0xFFFFFFFE]"
    by (elim conjE)
  from this [rule_format, OF t3]
  have r3: "nVersion t3 = 2 \<and> map nSequence (vin t3) = [0xFFFFFFFE]" .
  from A have "\<forall>t. create_emer_unvault_tx lib0 (replicate 32 0xaa) 0 [[1], [2], [3], [4]] 1000 = Inr t \<longrightarrow>
        nVersion t = 2 \<and> map nSequence (vin t) = [0xFFFFFFFE]"
    by (elim conjE)
  from this [rule_format, OF t4]
  have r4: "nVersion t4 = 2 \<and> map nSequence (vin t4) = [0xFFFFFFFE]" .
  from A have "\<forall>t. create_spend_tx lib0 (replicate 32 0xaa) 0 [(''bcrt1qa'', 400), (''bcrt1qb'', 500)] = Inr t \<longrightarrow>
        nVersion t = 2 \<and> map nSequence (vin t) = [6]"
    by (elim conjE)
  from this [rule_format, OF t5]
  have r5: "nVersion t5 = 2 \<and> map nSequence (vin t5) = [6]" .
  from B have "\<not> (length [0xaa :: 8 word] = 32 \<and> (0 :: int) \<le> 0 \<and> (0 :: int) \<le> 0xFFFFFFFF) \<longrightarrow>
        (\<exists>e. create_unvault_tx lib0 [0xaa] 0 [[5], [6], [7], [8]] [9] 1000 = Inl e)
        \<and> (\<exists>e. create_cancel_tx lib0 [0xaa] 0 [[5], [6], [7], [8]] 1000 = Inl e)
        \<and> (\<exists>e. create_emergency_vault_tx lib0 [0xaa] 0 1000 [[1], [2], [3], [4]] = Inl e)
        \<and> (\<exists>e. create_emer_unvault_tx lib0 [0xaa] 0 [[1], [2], [3], [4]] 1000 = Inl e)
        \<and> (\<exists>e. create_spend_tx lib0 [0xaa] 0 [] = Inl e)"
    by (elim conjE)
  from this [rule_format, OF no1]
  have f1: "\<exists>e. create_cancel_tx lib0 [0xaa] 0 [[5], [6], [7], [8]] 1000 = Inl e"
    by (elim conjE)
  from C have "\<not> (length (replicate 32 (0xaa :: 8 word)) = 32 \<and> (0 :: int) \<le> - 1 \<and> (- 1 :: int) \<le> 0xFFFFFFFF) \<longrightarrow>
        (\<exists>e. create_unvault_tx lib0 (replicate 32 0xaa) (- 1) [[5], [6], [7], [8]] [9] 1000 = Inl e)
        \<and> (\<exists>e. create_cancel_tx lib0 (replicate 32 0xaa) (- 1) [[5], [6], [7], [8]] 1000 = Inl e)
        \<and> (\<exists>e. create_emergency_vault_tx lib0 (replicate 32 0xaa) (- 1) 1000 [[1], [2], [3], [4]] = Inl e)
        \<and> (\<exists>e. create_emer_unvault_tx lib0 (replicate 32 0xaa) (- 1) [[1], [2], [3], [4]] 1000 = Inl e)
        \<and> (\<exists>e. create_spend_tx lib0 (replicate 32 0xaa) (- 1) [] = Inl e)"
    by (elim conjE)
  from this [rule_format, OF no2]
  have f2: "\<exists>e. create_emergency_vault_tx lib0 (replicate 32 0xaa) (- 1) 1000 [[1], [2], [3], [4]] = Inl e"
    by (elim conjE)
  from t1 r1 have e1: "\<exists>t. create_unvault_tx lib0 (replicate 32 0xaa) 0 [[5], [6], [7], [8]] [9] 1000 = Inr t
        \<and> nVersion t = 2 \<and> map nSequence (vin t) = [0xFFFFFFFF]"
    by (intro exI [of _ t1]) simp
  from t2 r2 have e2: "\<exists>t. create_cancel_tx lib0 (replicate 32 0xaa) 0 [[5], [6], [7], [8]] 1000 = Inr t
        \<and> nVersion t = 2 \<and> map nSequence (vin t) = [0xFFFFFFFE]"
    by (intro exI [of _ t2]) simp
  from t3 r3 have e3: "\<exists>t. create_emergency_vault_tx lib0 (replicate 32 0xaa) 0 1000 [[1], [2], [3], [4]] = Inr t
        \<and> nVersion t = 2 \<and> map nSequence (vin t) = [0xFFFFFFFE]"
    by (intro exI [of _ t3]) simp
  from t4 r4 have e4: "\<exists>t. create_emer_unvault_tx lib0 (replicate 32 0xaa) 0 [[1], [2], [3], [4]] 1000 = Inr t
        \<and> nVersion t = 2 \<and> map nSequence (vin t) = [0xFFFFFFFE]"
    by (intro exI [of _ t4]) simp
  from t5 r5 have e5: "\<exists>t. create_spend_tx lib0 (replicate 32 0xaa) 0 [(''bcrt1qa'', 400), (''bcrt1qb'', 500)] = Inr t
        \<and> nVersion t = 2 \<and> map nSequence (vin t) = [6]"
    by (intro exI [of _ t5]) simp
  from e1 e2 e3 e4 e5 f1 f2 show ?thesis by (intro conjI)
qed

text \<open>
  C10. \<open>form_spend_vault_txout\<close>, \<open>form_unvault_spend\<close> and \<open>form_spend_tx\<close> return
  a transaction with the inputs, outputs, \<open>nVersion\<close> and \<open>nLockTime\<close> of the one they
  were given; the last two return one for every list of four pubkeys.
\<close>

theorem form_frame:
  "vin (form_spend_vault_txout tx pubkeys sigs) = vin tx
   \<and> vout (form_spend_vault_txout tx pubkeys sigs) = vout tx
   \<and> nVersion (form_spend_vault_txout tx pubkeys sigs) = nVersion tx
   \<and> nLockTime (form_spend_vault_txout tx pubkeys sigs) = nLockTime tx
   \<and> (\<forall>t. form_unvault_spend tx sigs pubkeys pub_server = Inr t \<longrightarrow>
         vin t = vin tx \<and> vout t = vout tx \<and> nVersion t = nVersion tx \<and> nLockTime t = nLockTime tx)
   \<and> (\<forall>t. form_spend_tx tx pubkeys pub_server sigs = Inr t \<longrightarrow>
         vin t = vin tx \<and> vout t = vout tx \<and> nVersion t = nVersion tx \<and> nLockTime t = nLockTime tx)
   \<and> (length pubkeys = 4 \<longrightarrow>
         (\<exists>t. form_unvault_spend tx sigs pubkeys pub_server = Inr t)
       \<and> (\<exists>t. form_spend_tx tx pubkeys pub_server sigs = Inr t))"
proof (intro conjI allI impI)
  show "vin (form_spend_vault_txout tx pubkeys sigs) = vin tx"
    by (simp add: form_spend_vault_txout_def from_tx_def)
  show "vout (form_spend_vault_txout tx pubkeys sigs) = vout tx"
    by (simp add: form_spend_vault_txout_def from_tx_def)
  show "nVersion (form_spend_vault_txout tx pubkeys sigs) = nVersion tx"
    by (simp add: form_spend_vault_txout_def from_tx_def)
  show "nLockTime (form_spend_vault_txout tx pubkeys sigs) = nLockTime tx"
    by (simp add: form_spend_vault_txout_def from_tx_def)
next
  fix t assume "form_unvault_spend tx sigs pubkeys pub_server = Inr t"
  from form_unvault_spend_frame [OF this]
  show "vin t = vin tx" "vout t = vout tx" "nVersion t = nVersion tx" "nLockTime t = nLockTime tx"
    by simp_all
next
  fix t assume "form_spend_tx tx pubkeys pub_server sigs = Inr t"
  from form_spend_tx_frame [OF this]
  show "vin t = vin tx" "vout t = vout tx" "nVersion t = nVersion tx" "nLockTime t = nLockTime tx"
    by simp_all
next
  assume "length pubkeys = 4"
  from unvault_script_star_4 [OF this, of pub_server]
  obtain s where s: "unvault_script_star pubkeys pub_server = Inr s" ..
  show "\<exists>t. form_unvault_spend tx sigs pubkeys pub_server = Inr t"
    by (simp add: form_unvault_spend_def s)
  show "\<exists>t. form_spend_tx tx pubkeys pub_server sigs = Inr t"
    by (simp add: form_spend_tx_def s)
qed

theorem form_frame_witness:
  "(\<exists>t. form_unvault_spend tx0 [[1], [2], [3], [4]] [[5], [6], [7], [8]] [9] = Inr t
        \<and> vin t = vin tx0 \<and> vout t = vout tx0 \<and> nVersion t = nVersion tx0 \<and> nLockTime t = nLockTime tx0)
   \<and> (\<exists>t. form_spend_tx tx0 [[5], [6], [7], [8]] [9] [[1], [2], [], [4]] = Inr t
        \<and> vin t = vin tx0 \<and> vout t = vout tx0 \<and> nVersion t = nVersion tx0 \<and> nLockTime t = nLockTime tx0)"
proof -
  have len: "length [[5], [6], [7], [8 :: 8 word]] = 4" by simp
  note A = form_frame [of tx0 "[[5], [6], [7], [8]]" "[[1], [2], [3], [4]]" "[9]"]
  note B = form_frame [of tx0 "[[5], [6], [7], [8]]" "[[1], [2], [], [4]]" "[9]"]
  from A len have "\<exists>t. form_unvault_spend tx0 [[1], [2], [3], [4]] [[5], [6], [7], [8]] [9] = Inr t"
    by blast
  moreover from B len have "\<exists>t. form_spend_tx tx0 [[5], [6], [7], [8]] [9] [[1], [2], [], [4]] = Inr t"
    by blast
  ultimately show ?thesis using A B by blast
qed

section \<open>The signature fetchers\<close>

lemma checked_ext_refl: "checked_ext t t"
  by (simp add: checked_ext_def)

lemma checked_ext_trans: "checked_ext a b \<Longrightarrow> checked_ext b c \<Longrightarrow> checked_ext a c"
  unfolding checked_ext_def by (metis option.distinct(1))

lemma checked_ext_update:
  "i < length t \<Longrightarrow> t ! i = None \<Longrightarrow> sig \<noteq> [] \<Longrightarrow> last sig = ALL_ANYONECANPAY \<Longrightarrow>
     checked_ext t (t[i := Some sig])"
  by (auto simp: checked_ext_def nth_list_update)

lemma sigs_of_put_sigs: "sigs_of T (put_sigs T t v) = t"
  by (cases T) simp_all

lemma put_sigs_put_sigs: "put_sigs T t (put_sigs T t' v) = put_sigs T t v"
  by (cases T) simp_all

lemma put_sigs_sigs_of: "put_sigs T (sigs_of T v) v = v"
  by (cases T) simp_all

lemma fetch_slots_shape:
  "fetch_slots T S txid slots st = (r, st') \<Longrightarrow>
     posted st' = posted st \<and> clock st' = clock st \<and>
     (\<exists>t. pv st' = put_sigs T t (pv st) \<and> checked_ext (sigs_of T (pv st)) t)"
proof (induction slots arbitrary: st)
  case Nil
  then have "st' = st" by simp
  then show ?case
    using checked_ext_refl [of "sigs_of T (pv st)"] put_sigs_sigs_of [of T "pv st"] by metis
next
  case (Cons i rest)
  let ?t = "sigs_of T (pv st)"
  have same: "posted st = posted st \<and> clock st = clock st \<and>
     (\<exists>t. pv st = put_sigs T t (pv st) \<and> checked_ext ?t t)"
    using checked_ext_refl [of ?t] put_sigs_sigs_of [of T "pv st"] by metis
  show ?case
  proof (cases "get_signature S (clock st) txid i")
    case None
    with Cons.prems have "st' = st \<or> fetch_slots T S txid rest st = (r, st')"
      by (auto split: if_splits)
    with same Cons.IH show ?thesis by blast
  next
    case (Some sig)
    let ?st1 = "st\<lparr>pv := put_sigs T (?t[i - 1 := Some sig]) (pv st)\<rparr>"
    from Some Cons.prems consider "st' = st" | "fetch_slots T S txid rest st = (r, st')"
      | "i - 1 < length ?t" "?t ! (i - 1) = None" "sig \<noteq> []" "last sig = ALL_ANYONECANPAY"
        "fetch_slots T S txid rest ?st1 = (r, st')"
      by (auto split: if_splits)
    then show ?thesis
    proof cases
      case 1 with same show ?thesis by blast
    next
      case 2 with Cons.IH show ?thesis by blast
    next
      case 3
      from Cons.IH [OF 3(5)] obtain t where
        p: "posted st' = posted st" and c: "clock st' = clock st" and
        t: "pv st' = put_sigs T t (pv ?st1)" and
        e: "checked_ext (sigs_of T (pv ?st1)) t" by auto
      have e1: "checked_ext ?t (?t[i - 1 := Some sig])"
        using 3(1-4) by (rule checked_ext_update)
      from e have "checked_ext (?t[i - 1 := Some sig]) t" by (simp add: sigs_of_put_sigs)
      with e1 have "checked_ext ?t t" by (rule checked_ext_trans)
      moreover from t have "pv st' = put_sigs T t (pv st)" by (simp add: put_sigs_put_sigs)
      ultimately show ?thesis using p c by blast
    qed
  qed
qed

lemma poll_table_shape:
  "poll_table T n S txid st = (s, st') \<Longrightarrow>
     posted st' = posted st \<and>
     (\<exists>t. pv st' = put_sigs T t (pv st) \<and> checked_ext (sigs_of T (pv st)) t
          \<and> (s = Finished \<longrightarrow> None \<notin> set t))"
proof (induction n arbitrary: st)
  case 0
  then have "st' = st" and "s = Finished \<longrightarrow> None \<notin> set (sigs_of T (pv st))"
    by (auto split: if_splits)
  then show ?case
    using checked_ext_refl [of "sigs_of T (pv st)"] put_sigs_sigs_of [of T "pv st"] by metis
next
  case (Suc n)
  let ?t = "sigs_of T (pv st)"
  let ?st0 = "st\<lparr>clock := clock st + 1\<rparr>"
  obtain r st1 where f: "fetch_slots T S txid [1, 2, 3, 4] ?st0 = (r, st1)"
    by (cases "fetch_slots T S txid [1, 2, 3, 4] ?st0") blast
  from fetch_slots_shape [OF f] obtain t1 where
    p1: "posted st1 = posted st" and st1: "pv st1 = put_sigs T t1 (pv st)" and
    e1: "checked_ext ?t t1" by auto
  from Suc.prems f consider
      "st' = st" "s = Finished \<longrightarrow> None \<notin> set ?t"
    | "st' = ?st0" "s = Stopped"
    | e where "st' = st1" "s = Raised e"
    | "poll_table T n S txid st1 = (s, st')"
    by (auto split: if_splits option.splits)
  then show ?case
  proof cases
    case 1
    then show ?thesis
      using checked_ext_refl [of ?t] put_sigs_sigs_of [of T "pv st"] by metis
  next
    case 2
    then have "posted st' = posted st" "pv st' = put_sigs T ?t (pv st)" "s \<noteq> Finished"
      by (simp_all add: put_sigs_sigs_of)
    then show ?thesis using checked_ext_refl [of ?t] by blast
  next
    case 3
    then have "s \<noteq> Finished" by simp
    with 3 p1 st1 e1 show ?thesis by blast
  next
    case 4
    from Suc.IH [OF this] obtain t where
      a: "posted st' = posted st1" and b: "pv st' = put_sigs T t (pv st1)" and
      c: "checked_ext (sigs_of T (pv st1)) t" and d: "s = Finished \<longrightarrow> None \<notin> set t"
      by blast
    from b st1 have "pv st' = put_sigs T t (pv st)" by (simp add: put_sigs_put_sigs)
    moreover from c st1 have "checked_ext t1 t" by (simp add: sigs_of_put_sigs)
    with e1 have "checked_ext ?t t" by (rule checked_ext_trans)
    ultimately show ?thesis using a p1 d by auto
  qed
qed

lemma update_unvault_emergency_shape:
  assumes "update_unvault_emergency n X S st = (s, st')"
  shows "posted st' = posted st \<and>
         (\<exists>t. pv st' = (pv st)\<lparr>unvault_emer_sigs := t\<rparr> \<and> checked_ext (unvault_emer_sigs (pv st)) t
              \<and> (s = Finished \<longrightarrow> None \<notin> set t))"
proof (cases "unvault_emer_tx (pv st)")
  case None
  with assms have "st' = st" "s \<noteq> Finished"
    by (auto simp: update_unvault_emergency_def the_tx_def)
  then have "posted st' = posted st" "pv st' = (pv st)\<lparr>unvault_emer_sigs := unvault_emer_sigs (pv st)\<rparr>"
    by simp_all
  then show ?thesis using checked_ext_refl \<open>s \<noteq> Finished\<close> by blast
next
  case (Some tx)
  with assms have "poll_table UnvaultEmerSigs n S (hex (GetTxid X tx)) st = (s, st')"
    by (simp add: update_unvault_emergency_def the_tx_def)
  from poll_table_shape [OF this] show ?thesis by simp
qed

lemma update_cancel_unvault_shape:
  assumes "update_cancel_unvault n X S st = (s, st')"
  shows "posted st' = posted st \<and>
         (\<exists>t. pv st' = (pv st)\<lparr>cancel_sigs := t\<rparr> \<and> checked_ext (cancel_sigs (pv st)) t
              \<and> (s = Finished \<longrightarrow> None \<notin> set t))"
proof (cases "cancel_tx (pv st)")
  case None
  with assms have "st' = st" "s \<noteq> Finished"
    by (auto simp: update_cancel_unvault_def the_tx_def)
  then have "posted st' = posted st" "pv st' = (pv st)\<lparr>cancel_sigs := cancel_sigs (pv st)\<rparr>"
    by simp_all
  then show ?thesis using checked_ext_refl \<open>s \<noteq> Finished\<close> by blast
next
  case (Some tx)
  with assms have "poll_table CancelSigs n S (hex (GetTxid X tx)) st = (s, st')"
    by (simp add: update_cancel_unvault_def the_tx_def)
  from poll_table_shape [OF this] show ?thesis by simp
qed

lemma update_emergency_signatures_shape:
  assumes "update_emergency_signatures n X S st = (s, st')"
  shows "posted st' = posted st \<and>
         (\<exists>t b. pv st' = (pv st)\<lparr>emergency_sigs := t, emergency_signed := b\<rparr>
              \<and> checked_ext (emergency_sigs (pv st)) t)"
proof (cases "emergency_tx (pv st)")
  case None
  with assms have "st' = st"
    by (simp add: update_emergency_signatures_def the_tx_def)
  then have "posted st' = posted st"
    "pv st' = (pv st)\<lparr>emergency_sigs := emergency_sigs (pv st),
                       emergency_signed := emergency_signed (pv st)\<rparr>"
    by simp_all
  then show ?thesis using checked_ext_refl by blast
next
  case (Some tx)
  obtain s1 st1 where p: "poll_table EmergencySigs n S (hex (GetTxid X tx)) st = (s1, st1)"
    by (cases "poll_table EmergencySigs n S (hex (GetTxid X tx)) st") blast
  from poll_table_shape [OF p] obtain t where
    p1: "posted st1 = posted st" and st1: "pv st1 = (pv st)\<lparr>emergency_sigs := t\<rparr>" and
    e: "checked_ext (emergency_sigs (pv st)) t" by auto
  from assms Some p have "st' = st1 \<or> st' = st1\<lparr>pv := (pv st1)\<lparr>emergency_signed := True\<rparr>\<rparr>"
    by (auto simp: update_emergency_signatures_def the_tx_def Let_def split: status.splits if_splits)
  then have "posted st' = posted st"
    and "pv st' = (pv st)\<lparr>emergency_sigs := t, emergency_signed := emergency_signed (pv st)\<rparr>
           \<or> pv st' = (pv st)\<lparr>emergency_sigs := t, emergency_signed := True\<rparr>"
    using st1 p1 by auto
  then show ?thesis using e by blast
qed

lemma fetch_unvault_slots_shape:
  "fetch_unvault_slots S txid slots st = (r, st') \<Longrightarrow>
     posted st' = posted st \<and> (\<exists>t. pv st' = (pv st)\<lparr>unvault_sigs := t\<rparr>)"
proof (induction slots arbitrary: st)
  case Nil
  then have "posted st' = posted st" "pv st' = (pv st)\<lparr>unvault_sigs := unvault_sigs (pv st)\<rparr>"
    by simp_all
  then show ?case by blast
next
  case (Cons i rest)
  let ?st1 = "st\<lparr>pv := (pv st)\<lparr>unvault_sigs :=
                 (unvault_sigs (pv st))[i - 1 := get_signature S (clock st) txid i]\<rparr>\<rparr>"
  from Cons.prems consider "st' = st" | "fetch_unvault_slots S txid rest st = (r, st')"
    | "fetch_unvault_slots S txid rest ?st1 = (r, st')"
    by (auto split: if_splits)
  then show ?case
  proof cases
    case 1
    then have "posted st' = posted st" "pv st' = (pv st)\<lparr>unvault_sigs := unvault_sigs (pv st)\<rparr>"
      by simp_all
    then show ?thesis by blast
  next
    case 2
    from Cons.IH [OF this] show ?thesis .
  next
    case 3
    from Cons.IH [OF this] obtain t where "posted st' = posted ?st1"
      "pv st' = (pv ?st1)\<lparr>unvault_sigs := t\<rparr>"
      by blast
    then have "posted st' = posted st" "pv st' = (pv st)\<lparr>unvault_sigs := t\<rparr>" by simp_all
    then show ?thesis by blast
  qed
qed

lemma poll_unvault_shape:
  "poll_unvault n S txid st = (s, st') \<Longrightarrow>
     posted st' = posted st \<and> (\<exists>t. pv st' = (pv st)\<lparr>unvault_sigs := t\<rparr>)"
proof (induction n arbitrary: st)
  case 0
  then have "st' = st" by (auto split: if_splits)
  then have "posted st' = posted st" "pv st' = (pv st)\<lparr>unvault_sigs := unvault_sigs (pv st)\<rparr>"
    by simp_all
  then show ?case by blast
next
  case (Suc n)
  let ?st0 = "st\<lparr>clock := clock st + 1\<rparr>"
  obtain r st1 where f: "fetch_unvault_slots S txid [1, 2, 3, 4] ?st0 = (r, st1)"
    by (cases "fetch_unvault_slots S txid [1, 2, 3, 4] ?st0") blast
  from fetch_unvault_slots_shape [OF f] obtain t1 where
    st1: "posted st1 = posted st" "pv st1 = (pv st)\<lparr>unvault_sigs := t1\<rparr>" by auto
  from Suc.prems f consider "st' = st" | "st' = ?st0" | "st' = st1"
    | "poll_unvault n S txid st1 = (s, st')"
    by (auto split: if_splits option.splits)
  then show ?case
  proof cases
    case 1
    then have "posted st' = posted st" "pv st' = (pv st)\<lparr>unvault_sigs := unvault_sigs (pv st)\<rparr>"
      by simp_all
    then show ?thesis by blast
  next
    case 2
    then have "posted st' = posted st" "pv st' = (pv st)\<lparr>unvault_sigs := unvault_sigs (pv st)\<rparr>"
      by simp_all
    then show ?thesis by blast
  next
    case 3 with st1 show ?thesis by blast
  next
    case 4
    from Suc.IH [OF this] obtain t where "posted st' = posted st1"
      "pv st' = (pv st1)\<lparr>unvault_sigs := t\<rparr>" by blast
    with st1 have "posted st' = posted st" "pv st' = (pv st)\<lparr>unvault_sigs := t\<rparr>" by simp_all
    then show ?thesis by blast
  qed
qed

lemma update_unvault_transaction_shape:
  assumes "update_unvault_transaction n X S st = (s, st')"
  shows "posted st' = posted st \<and>
         (\<exists>t b. pv st' = (pv st)\<lparr>unvault_sigs := t, unvault_signed := b\<rparr>)"
proof (cases "unvault_tx (pv st)")
  case None
  with assms have "st' = st"
    by (simp add: update_unvault_transaction_def the_tx_def)
  then have "posted st' = posted st"
    "pv st' = (pv st)\<lparr>unvault_sigs := unvault_sigs (pv st), unvault_signed := unvault_signed (pv st)\<rparr>"
    by simp_all
  then show ?thesis by blast
next
  case (Some tx)
  obtain s1 st1 where p: "poll_unvault n S (hex (GetTxid X tx)) st = (s1, st1)"
    by (cases "poll_unvault n S (hex (GetTxid X tx)) st") blast
  from poll_unvault_shape [OF p] obtain t where
    st1: "posted st1 = posted st" "pv st1 = (pv st)\<lparr>unvault_sigs := t\<rparr>" by auto
  from assms Some p have "st' = st1 \<or> st' = st1\<lparr>pv := (pv st1)\<lparr>unvault_signed := True\<rparr>\<rparr>"
    by (auto simp: update_unvault_transaction_def the_tx_def split: status.splits)
  then have "posted st' = posted st"
    and "pv st' = (pv st)\<lparr>unvault_sigs := t, unvault_signed := unvault_signed (pv st)\<rparr>
           \<or> pv st' = (pv st)\<lparr>unvault_sigs := t, unvault_signed := True\<rparr>"
    using st1 by auto
  then show ?thesis by blast
qed

lemma add_new_vault_fresh:
  "fst (add_new_vault X0 E0 utxo0) = None \<and> vaults (snd (add_new_vault X0 E0 utxo0)) = [vault0]
   \<and> sent (snd (add_new_vault X0 E0 utxo0))
       = [(hex (0x6a # replicate 31 0), replicate 32 0x11 @ [0x81, 0x81]),
          (hex (0x99 # replicate 31 0), replicate 32 0x11 @ [0x81, 0x81]),
          (hex (0x06 # replicate 31 0), replicate 32 0x11 @ [0x81, 0x81])]"
  by code_simp

lemma run0:
  "posted (snd (update_unvault_revocations 1 X0 E0 S0 fetcher0)) = [(hex (0x02 # replicate 31 0), Some (replicate 32 0x11 @ [0x01, 0x01]))]
   \<and> emergency_sigs (pv (snd (update_unvault_revocations 1 X0 E0 S0 fetcher0)))
       = [Some (replicate 32 0x11 @ [0x01, 0x01]), None, None, None]"
  by code_simp

lemma run1:
  "unvault_sigs (pv (snd (update_unvault_transaction 1 X0 S0 fetcher0)))
       = [Some (replicate 32 0x11 @ [0x01, 0x01]), Some [0x02, 0x01], Some [0x03, 0x01], Some [0x04, 0x01]]"
  by code_simp

lemma run2:
  "update_cancel_unvault 1 X0 S0 fetcher0
     = (Finished, fetcher0\<lparr>pv := vault0\<lparr>cancel_sigs :=
          [Some (replicate 32 0x11 @ [0x01, 0x01]), Some [0x02, 0x81], Some [0x03, 0x81], Some [0x04, 0x81]]\<rparr>, clock := 1\<rparr>)"
  by code_simp

lemma err_bind_Inr: "err_bind m f = Inr y \<Longrightarrow> \<exists>x. m = Inr x \<and> f x = Inr y"
  by (cases m) (simp_all add: err_bind_def)

lemma set_slot_Inr: "set_slot t i x = Inr t' \<Longrightarrow> i < length t \<and> t' = t[i := x]"
  by (auto simp: set_slot_def split: if_splits)

lemma create_sign_emergency_Inr:
  assumes "create_sign_emergency X E v = Inr (v', sig)"
  shows "\<exists>tx slot.
           emergency_tx v' = Some tx
           \<and> index_None (keychains E) = Inr slot \<and> slot < length (emergency_sigs v)
           \<and> v' = v\<lparr>emergency_tx := Some tx,
                    emergency_sigs := (emergency_sigs v)[slot := Some
                      (sign_emergency_vault_tx (crypto X) tx (v_privkey v) (v_pubkeys v)
                         (v_amount v) True)]\<rparr>
           \<and> sig = sign_emergency_vault_tx (crypto X) tx (v_privkey v) (v_pubkeys v)
                     (v_amount v) False"
  using assms
  by (auto simp: create_sign_emergency_def Let_def split: if_splits
      dest!: err_bind_Inr set_slot_Inr)

lemma create_sign_unvault_Inr:
  assumes "create_sign_unvault X E v = Inr (v', sig)"
  shows "\<exists>tx. unvault_tx v' = Some tx \<and> v' = v\<lparr>unvault_tx := Some tx\<rparr>
           \<and> sig = sign_unvault_tx (crypto X) tx (v_privkey v) (v_pubkeys v) (v_amount v)"
  using assms
  by (auto simp: create_sign_unvault_def Let_def split: if_splits dest!: err_bind_Inr)

lemma create_sign_cancel_Inr:
  assumes "create_sign_cancel X E v = Inr (v', sig)"
  shows "\<exists>utx amount tx slot own.
           cancel_tx v' = Some tx \<and> cancel_sigs v' ! slot = Some own
           \<and> unvault_tx v = Some utx \<and> vout0_nValue utx = Inr amount
           \<and> index_None (keychains E) = Inr slot \<and> slot < length (cancel_sigs v)
           \<and> sign_cancel_tx (crypto X) tx (v_privkey v) (v_pubkeys v) (cosigner_pubkey E)
                amount True = Inr own
           \<and> v' = v\<lparr>cancel_tx := Some tx, cancel_sigs := (cancel_sigs v)[slot := Some own]\<rparr>
           \<and> sign_cancel_tx (crypto X) tx (v_privkey v) (v_pubkeys v) (cosigner_pubkey E)
                amount False = Inr sig"
  using assms
  by (auto simp: create_sign_cancel_def Let_def the_tx_def split: if_splits option.splits
      dest!: err_bind_Inr set_slot_Inr)

lemma create_sign_unvault_emer_Inr:
  assumes "create_sign_unvault_emer X E v = Inr (v', sig)"
  shows "\<exists>utx amount tx slot.
           unvault_emer_tx v' = Some tx
           \<and> unvault_tx v = Some utx \<and> vout0_nValue utx = Inr amount
           \<and> index_None (keychains E) = Inr slot \<and> slot < length (unvault_emer_sigs v)
           \<and> v' = v\<lparr>unvault_emer_tx := Some tx,
                    unvault_emer_sigs := (unvault_emer_sigs v)[slot := Some sig]\<rparr>
           \<and> sign_emer_unvault_tx (crypto X) tx (v_privkey v) (v_pubkeys v) (cosigner_pubkey E)
                amount False = Inr sig"
  using assms
  by (auto simp: create_sign_unvault_emer_def Let_def the_tx_def split: if_splits option.splits
      dest!: err_bind_Inr set_slot_Inr)

lemma watch_unvault_Inr:
  "watch_unvault X E v = Inr E1 \<Longrightarrow>
     sent E1 = sent E \<and> vaults E1 = vaults E \<and> keychains E1 = keychains E
     \<and> cosigner_pubkey E1 = cosigner_pubkey E \<and> emergency_pubkeys E1 = emergency_pubkeys E"
  by (auto simp: watch_unvault_def Let_def split: list.splits if_splits dest!: err_bind_Inr)

lemma add_new_vault_steps:
  assumes g: "guess_index X E (u_address out) = Some k"
    and 1: "create_sign_emergency X E (new_vault E out k) = Inr (v1, a)"
    and 2: "create_sign_unvault X E v1 = Inr (v2, us)"
    and 3: "err_bind (index_None (keychains E)) (\<lambda>slot. set_slot (unvault_sigs v2) slot (Some us))
              = Inr table"
    and 4: "watch_unvault X E (v2\<lparr>unvault_sigs := table\<rparr>) = Inr E1"
    and 5: "create_sign_cancel X E1 (v2\<lparr>unvault_sigs := table\<rparr>) = Inr (v3, b)"
    and 6: "create_sign_unvault_emer X E1 v3 = Inr (v4, c)"
  shows "\<exists>etx utx ctx uetx amount slot.
           add_new_vault X E out
             = (None, E1\<lparr>sent := sent E1 @ [(hex (GetTxid X etx), a), (hex (GetTxid X ctx), b),
                                             (hex (GetTxid X uetx), c)],
                         vaults := vaults E1 @ [v4]\<rparr>)
           \<and> v_txid v4 = u_txid out \<and> v_vout v4 = u_vout out \<and> v_amount v4 = u_amount out
           \<and> v_address v4 = u_address out
           \<and> v_pubkeys v4 = get_pubkeys E k \<and> v_privkey v4 = our_privkey_from_path E k
           \<and> emergency_tx v4 = Some etx \<and> unvault_tx v4 = Some utx
           \<and> cancel_tx v4 = Some ctx \<and> unvault_emer_tx v4 = Some uetx
           \<and> length (emergency_sigs v4) = 4 \<and> length (unvault_sigs v4) = 4
           \<and> length (cancel_sigs v4) = 4 \<and> length (unvault_emer_sigs v4) = 4
           \<and> index_None (keychains E) = Inr slot
           \<and> unvault_sigs v4 ! slot
                = Some (sign_unvault_tx (crypto X) utx (v_privkey v4) (v_pubkeys v4) (v_amount v4))
           \<and> vout0_nValue utx = Inr amount
           \<and> a = sign_emergency_vault_tx (crypto X) etx (v_privkey v4) (v_pubkeys v4)
                   (v_amount v4) False
           \<and> sign_cancel_tx (crypto X) ctx (v_privkey v4) (v_pubkeys v4) (cosigner_pubkey E)
                amount False = Inr b
           \<and> sign_emer_unvault_tx (crypto X) uetx (v_privkey v4) (v_pubkeys v4) (cosigner_pubkey E)
                amount False = Inr c"
proof -
  let ?nv = "new_vault E out k"
  from create_sign_emergency_Inr [OF 1] obtain etx s1 where
    v1: "v1 = ?nv\<lparr>emergency_tx := Some etx,
                    emergency_sigs := (emergency_sigs ?nv)[s1 := Some
                      (sign_emergency_vault_tx (crypto X) etx (v_privkey ?nv) (v_pubkeys ?nv)
                         (v_amount ?nv) True)]\<rparr>" and
    a: "a = sign_emergency_vault_tx (crypto X) etx (v_privkey ?nv) (v_pubkeys ?nv)
              (v_amount ?nv) False"
    by blast
  from create_sign_unvault_Inr [OF 2] obtain utx where
    v2: "v2 = v1\<lparr>unvault_tx := Some utx\<rparr>" and
    us: "us = sign_unvault_tx (crypto X) utx (v_privkey v1) (v_pubkeys v1) (v_amount v1)"
    by blast
  from err_bind_Inr [OF 3] obtain slot where
    slot: "index_None (keychains E) = Inr slot" and "set_slot (unvault_sigs v2) slot (Some us) = Inr table"
    by blast
  from set_slot_Inr [OF this(2)] have
    sl: "slot < length (unvault_sigs v2)" and table: "table = (unvault_sigs v2)[slot := Some us]"
    by simp_all
  note w = watch_unvault_Inr [OF 4]
  from create_sign_cancel_Inr [OF 5] obtain utx' amount ctx s3 own where
    u3: "unvault_tx (v2\<lparr>unvault_sigs := table\<rparr>) = Some utx'" and
    am: "vout0_nValue utx' = Inr amount" and
    v3: "v3 = (v2\<lparr>unvault_sigs := table\<rparr>)\<lparr>cancel_tx := Some ctx,
                 cancel_sigs := (cancel_sigs (v2\<lparr>unvault_sigs := table\<rparr>))[s3 := Some own]\<rparr>" and
    b: "sign_cancel_tx (crypto X) ctx (v_privkey (v2\<lparr>unvault_sigs := table\<rparr>))
          (v_pubkeys (v2\<lparr>unvault_sigs := table\<rparr>)) (cosigner_pubkey E1) amount False = Inr b"
    by blast
  from u3 v2 have utx': "utx' = utx" by simp
  from create_sign_unvault_emer_Inr [OF 6] obtain utx'' amount' uetx s4 where
    u4: "unvault_tx v3 = Some utx''" and
    am': "vout0_nValue utx'' = Inr amount'" and
    v4: "v4 = v3\<lparr>unvault_emer_tx := Some uetx,
                   unvault_emer_sigs := (unvault_emer_sigs v3)[s4 := Some c]\<rparr>" and
    c: "sign_emer_unvault_tx (crypto X) uetx (v_privkey v3) (v_pubkeys v3) (cosigner_pubkey E1)
          amount' False = Inr c"
    by blast
  from u4 v3 v2 have "utx'' = utx" by simp
  with am am' utx' have amount': "amount' = amount" by simp
  have tx4: "emergency_tx v4 = Some etx" "unvault_tx v4 = Some utx" "cancel_tx v4 = Some ctx"
    "unvault_emer_tx v4 = Some uetx"
    by (simp_all add: v4 v3 v2 v1)
  have keys: "v_txid v4 = u_txid out" "v_vout v4 = u_vout out" "v_amount v4 = u_amount out"
    "v_address v4 = u_address out" "v_pubkeys v4 = get_pubkeys E k"
    "v_privkey v4 = our_privkey_from_path E k"
    by (simp_all add: v4 v3 v2 v1 new_vault_def)
  have nvl: "length (emergency_sigs ?nv) = 4" "length (unvault_sigs ?nv) = 4"
    "length (cancel_sigs ?nv) = 4" "length (unvault_emer_sigs ?nv) = 4"
    by (simp_all add: new_vault_def)
  have lens: "length (emergency_sigs v4) = 4" "length (unvault_sigs v4) = 4"
    "length (cancel_sigs v4) = 4" "length (unvault_emer_sigs v4) = 4"
    using nvl by (simp_all add: v4 v3 v2 v1 table)
  have own: "unvault_sigs v4 ! slot
               = Some (sign_unvault_tx (crypto X) utx (v_privkey v4) (v_pubkeys v4) (v_amount v4))"
    using sl by (simp add: v4 v3 table us v2 v1)
  have a': "a = sign_emergency_vault_tx (crypto X) etx (v_privkey v4) (v_pubkeys v4)
                  (v_amount v4) False"
    by (simp add: a v4 v3 v2 v1)
  have b': "sign_cancel_tx (crypto X) ctx (v_privkey v4) (v_pubkeys v4) (cosigner_pubkey E)
              amount False = Inr b"
    using b w by (simp add: v4 v3 v2 v1)
  have c': "sign_emer_unvault_tx (crypto X) uetx (v_privkey v4) (v_pubkeys v4) (cosigner_pubkey E)
              amount False = Inr c"
    using c w by (simp add: amount' v4 v3 v2 v1)
  have r: "add_new_vault X E out
             = (None, E1\<lparr>sent := sent E1 @ [(hex (GetTxid X etx), a), (hex (GetTxid X ctx), b),
                                             (hex (GetTxid X uetx), c)],
                         vaults := vaults E1 @ [v4]\<rparr>)"
    by (simp add: add_new_vault_def g 1 2 3 4 5 6 tx4 the_tx_def)
  from am utx' have am0: "vout0_nValue utx = Inr amount" by simp
  show ?thesis
    apply (rule exI [of _ etx], rule exI [of _ utx], rule exI [of _ ctx], rule exI [of _ uetx],
        rule exI [of _ amount], rule exI [of _ slot])
    using r keys tx4 lens slot own am0 a' b' c' by (intro conjI)
qed

lemma add_new_vault_None:
  assumes "add_new_vault X E out = (None, E')"
  shows "\<exists>k v etx utx ctx uetx amount slot b c.
     guess_index X E (u_address out) = Some k
     \<and> vaults E' = vaults E @ [v] \<and> keychains E' = keychains E
     \<and> v_txid v = u_txid out \<and> v_vout v = u_vout out \<and> v_amount v = u_amount out
     \<and> v_address v = u_address out
     \<and> v_pubkeys v = get_pubkeys E k \<and> v_privkey v = our_privkey_from_path E k
     \<and> emergency_tx v = Some etx \<and> unvault_tx v = Some utx
     \<and> cancel_tx v = Some ctx \<and> unvault_emer_tx v = Some uetx
     \<and> length (emergency_sigs v) = 4 \<and> length (unvault_sigs v) = 4
     \<and> length (cancel_sigs v) = 4 \<and> length (unvault_emer_sigs v) = 4
     \<and> index_None (keychains E) = Inr slot
     \<and> unvault_sigs v ! slot
          = Some (sign_unvault_tx (crypto X) utx (v_privkey v) (v_pubkeys v) (v_amount v))
     \<and> vout0_nValue utx = Inr amount
     \<and> sign_cancel_tx (crypto X) ctx (v_privkey v) (v_pubkeys v) (cosigner_pubkey E)
          amount False = Inr b
     \<and> sign_emer_unvault_tx (crypto X) uetx (v_privkey v) (v_pubkeys v) (cosigner_pubkey E)
          amount False = Inr c
     \<and> sent E' = sent E @
          [(hex (GetTxid X etx),
            sign_emergency_vault_tx (crypto X) etx (v_privkey v) (v_pubkeys v) (v_amount v) False),
           (hex (GetTxid X ctx), b), (hex (GetTxid X uetx), c)]"
proof -
  note d = add_new_vault_def
  from assms obtain k where g: "guess_index X E (u_address out) = Some k"
    by (auto simp: d split: option.splits)
  from assms obtain v1 a where
    1: "create_sign_emergency X E (new_vault E out k) = Inr (v1, a)"
    by (auto simp: d g split: sum.splits)
  from assms obtain v2 us where 2: "create_sign_unvault X E v1 = Inr (v2, us)"
    by (auto simp: d g 1 split: sum.splits)
  from assms obtain table where
    3: "err_bind (index_None (keychains E)) (\<lambda>slot. set_slot (unvault_sigs v2) slot (Some us))
          = Inr table"
    by (auto simp: d g 1 2 split: sum.splits)
  let ?v2 = "v2\<lparr>unvault_sigs := table\<rparr>"
  from assms obtain E1 where 4: "watch_unvault X E ?v2 = Inr E1"
    by (auto simp: d g 1 2 3 split: sum.splits)
  from assms obtain v3 b where 5: "create_sign_cancel X E1 ?v2 = Inr (v3, b)"
    by (auto simp: d g 1 2 3 4 split: sum.splits)
  from assms obtain v4 c where 6: "create_sign_unvault_emer X E1 v3 = Inr (v4, c)"
    by (auto simp: d g 1 2 3 4 5 split: sum.splits)
  note w = watch_unvault_Inr [OF 4]
  from add_new_vault_steps [OF g 1 2 3 4 5 6] obtain etx utx ctx uetx amount slot where
    r: "add_new_vault X E out
             = (None, E1\<lparr>sent := sent E1 @ [(hex (GetTxid X etx), a), (hex (GetTxid X ctx), b),
                                             (hex (GetTxid X uetx), c)],
                         vaults := vaults E1 @ [v4]\<rparr>)" and
    f: "v_txid v4 = u_txid out" "v_vout v4 = u_vout out" "v_amount v4 = u_amount out"
       "v_address v4 = u_address out"
       "v_pubkeys v4 = get_pubkeys E k" "v_privkey v4 = our_privkey_from_path E k"
       "emergency_tx v4 = Some etx" "unvault_tx v4 = Some utx"
       "cancel_tx v4 = Some ctx" "unvault_emer_tx v4 = Some uetx"
       "length (emergency_sigs v4) = 4" "length (unvault_sigs v4) = 4"
       "length (cancel_sigs v4) = 4" "length (unvault_emer_sigs v4) = 4"
       "index_None (keychains E) = Inr slot"
       "unvault_sigs v4 ! slot
          = Some (sign_unvault_tx (crypto X) utx (v_privkey v4) (v_pubkeys v4) (v_amount v4))"
       "vout0_nValue utx = Inr amount" and
    a: "a = sign_emergency_vault_tx (crypto X) etx (v_privkey v4) (v_pubkeys v4)
                   (v_amount v4) False" and
    bc: "sign_cancel_tx (crypto X) ctx (v_privkey v4) (v_pubkeys v4) (cosigner_pubkey E)
                amount False = Inr b"
        "sign_emer_unvault_tx (crypto X) uetx (v_privkey v4) (v_pubkeys v4) (cosigner_pubkey E)
                amount False = Inr c"
    by (elim exE conjE)
  from r assms have E': "E' = E1\<lparr>sent := sent E1 @ [(hex (GetTxid X etx), a), (hex (GetTxid X ctx), b),
                                             (hex (GetTxid X uetx), c)],
                         vaults := vaults E1 @ [v4]\<rparr>"
    by simp
  have e1: "vaults E' = vaults E @ [v4]" "keychains E' = keychains E"
    using w by (simp_all add: E')
  have e2: "sent E' = sent E @
          [(hex (GetTxid X etx),
            sign_emergency_vault_tx (crypto X) etx (v_privkey v4) (v_pubkeys v4) (v_amount v4) False),
           (hex (GetTxid X ctx), b), (hex (GetTxid X uetx), c)]"
    using w a by (simp add: E')
  show ?thesis
    apply (rule exI [of _ k], rule exI [of _ v4], rule exI [of _ etx], rule exI [of _ utx],
        rule exI [of _ ctx], rule exI [of _ uetx], rule exI [of _ amount], rule exI [of _ slot],
        rule exI [of _ b], rule exI [of _ c])
    using g e1 f bc e2 by (intro conjI)
qed

lemma add_new_vault_Some:
  assumes "add_new_vault X E out = (Some e, E')"
  shows "sent E' = sent E \<and> vaults E' = vaults E"
proof (cases "guess_index X E (u_address out)")
  case None
  with assms show ?thesis by (simp add: add_new_vault_def)
next
  case g: (Some k)
  note d = add_new_vault_def
  show ?thesis
  proof (cases "create_sign_emergency X E (new_vault E out k)")
    case (Inl e1)
    with assms g show ?thesis by (simp add: d)
  next
    case (Inr p1)
    obtain v1 a where p1: "p1 = (v1, a)" by (cases p1)
    note 1 = Inr [unfolded p1]
    show ?thesis
    proof (cases "create_sign_unvault X E v1")
      case (Inl e2)
      with assms g 1 show ?thesis by (simp add: d)
    next
      case (Inr p2)
      obtain v2 us where p2: "p2 = (v2, us)" by (cases p2)
      note 2 = Inr [unfolded p2]
      show ?thesis
      proof (cases "err_bind (index_None (keychains E))
                      (\<lambda>slot. set_slot (unvault_sigs v2) slot (Some us))")
        case (Inl e3)
        with assms g 1 2 show ?thesis by (simp add: d)
      next
        case 3: (Inr table)
        let ?v2 = "v2\<lparr>unvault_sigs := table\<rparr>"
        show ?thesis
        proof (cases "watch_unvault X E ?v2")
          case (Inl e4)
          with assms g 1 2 3 show ?thesis by (simp add: d)
        next
          case 4: (Inr E1)
          note w = watch_unvault_Inr [OF 4]
          show ?thesis
          proof (cases "create_sign_cancel X E1 ?v2")
            case (Inl e5)
            with assms g 1 2 3 4 have "E' = E1" by (simp add: d)
            with w show ?thesis by simp
          next
            case (Inr p5)
            obtain v3 b where p5: "p5 = (v3, b)" by (cases p5)
            note 5 = Inr [unfolded p5]
            show ?thesis
            proof (cases "create_sign_unvault_emer X E1 v3")
              case (Inl e6)
              with assms g 1 2 3 4 5 have "E' = E1" by (simp add: d)
              with w show ?thesis by simp
            next
              case (Inr p6)
              obtain v4 c where p6: "p6 = (v4, c)" by (cases p6)
              note 6 = Inr [unfolded p6]
              from add_new_vault_steps [OF g 1 2 3 4 5 6] assms have False by auto
              then show ?thesis ..
            qed
          qed
        qed
      qed
    qed
  qed
qed

lemma update_unvault_revocations_gate:
  assumes "update_unvault_revocations n X E S st = (s, st')"
  shows "emergency_sigs (pv st') = emergency_sigs (pv st)
         \<and> (posted st' = posted st
            \<or> ((\<exists>utx slot. unvault_tx (pv st) = Some utx \<and> index_None (keychains E) = Inr slot
                   \<and> posted st' = posted st @ [(hex (GetTxid X utx), unvault_sigs (pv st) ! slot)])
               \<and> None \<notin> set (cancel_sigs (pv st')) \<and> None \<notin> set (unvault_emer_sigs (pv st'))
               \<and> length (cancel_sigs (pv st')) = length (cancel_sigs (pv st))
               \<and> length (unvault_emer_sigs (pv st')) = length (unvault_emer_sigs (pv st))
               \<and> unvault_secure (pv st')))"
proof -
  obtain s1 st1 where r1: "update_unvault_emergency n X S st = (s1, st1)"
    by (cases "update_unvault_emergency n X S st") blast
  from update_unvault_emergency_shape [OF r1] obtain t1 where
    p1: "posted st1 = posted st" and v1: "pv st1 = (pv st)\<lparr>unvault_emer_sigs := t1\<rparr>" and
    e1: "checked_ext (unvault_emer_sigs (pv st)) t1" by blast
  obtain s2 st2 where r2: "update_cancel_unvault n X S st1 = (s2, st2)"
    by (cases "update_cancel_unvault n X S st1") blast
  from update_cancel_unvault_shape [OF r2] obtain t2 where
    p2: "posted st2 = posted st1" and v2: "pv st2 = (pv st1)\<lparr>cancel_sigs := t2\<rparr>" and
    e2: "checked_ext (cancel_sigs (pv st1)) t2" by blast
  let ?st3 = "st2\<lparr>pv := (pv st2)\<lparr>unvault_secure := True\<rparr>\<rparr>"
  have keep1: "emergency_sigs (pv st1) = emergency_sigs (pv st)" "posted st1 = posted st"
    using v1 p1 by simp_all
  have keep2: "emergency_sigs (pv st2) = emergency_sigs (pv st)" "posted st2 = posted st"
    using v1 v2 p1 p2 by simp_all
  have keep3: "emergency_sigs (pv ?st3) = emergency_sigs (pv st)" "posted ?st3 = posted st"
    using keep2 by simp_all
  have unfold: "update_unvault_revocations n X E S st =
      (if \<not> returned s1 then (s1, st1)
       else if \<not> returned s2 then (s2, st2)
       else if None \<notin> set (unvault_emer_sigs (pv st2) @ cancel_sigs (pv st2)) then
         (case the_tx (unvault_tx (pv ?st3)) of
            Inl e \<Rightarrow> (Raised e, ?st3)
          | Inr utx \<Rightarrow>
              (case index_None (keychains E) of
                 Inl e \<Rightarrow> (Raised e, ?st3)
               | Inr slot \<Rightarrow>
                   if length (unvault_sigs (pv ?st3)) \<le> slot then (Raised IndexError, ?st3)
                   else update_unvault_transaction n X S
                          (?st3\<lparr>posted := posted ?st3 @
                                 [(hex (GetTxid X utx), unvault_sigs (pv ?st3) ! slot)]\<rparr>)))
       else (Finished, st2))"
    by (simp add: update_unvault_revocations_def r1 r2 Let_def)
  have "st' = st1 \<or> st' = st2 \<or> st' = ?st3
        \<or> (\<exists>utx slot. None \<notin> set (unvault_emer_sigs (pv st2) @ cancel_sigs (pv st2))
              \<and> unvault_tx (pv ?st3) = Some utx \<and> index_None (keychains E) = Inr slot
              \<and> update_unvault_transaction n X S
                   (?st3\<lparr>posted := posted ?st3 @ [(hex (GetTxid X utx), unvault_sigs (pv ?st3) ! slot)]\<rparr>)
                   = (s, st'))"
  proof (cases "\<not> returned s1")
    case True
    with assms unfold show ?thesis by auto
  next
    case ret1: False
    show ?thesis
    proof (cases "\<not> returned s2")
      case True
      with assms unfold ret1 show ?thesis by auto
    next
      case ret2: False
      show ?thesis
      proof (cases "None \<notin> set (unvault_emer_sigs (pv st2) @ cancel_sigs (pv st2))")
        case False
        with assms unfold ret1 ret2 show ?thesis by auto
      next
        case full: True
        show ?thesis
        proof (cases "unvault_tx (pv st2)")
          case None
          with assms unfold ret1 ret2 full have "st' = ?st3" by (auto simp: the_tx_def)
          then show ?thesis by blast
        next
          case (Some utx)
          show ?thesis
          proof (cases "index_None (keychains E)")
            case (Inl e)
            with assms unfold ret1 ret2 full Some have "st' = ?st3" by (auto simp: the_tx_def)
            then show ?thesis by blast
          next
            case (Inr slot)
            show ?thesis
            proof (cases "length (unvault_sigs (pv st2)) \<le> slot")
              case True
              with assms unfold ret1 ret2 full Some Inr have "st' = ?st3" by (auto simp: the_tx_def)
              then show ?thesis by blast
            next
              case False
              with assms unfold ret1 ret2 full Some Inr
              have "update_unvault_transaction n X S
                   (?st3\<lparr>posted := posted ?st3 @ [(hex (GetTxid X utx), unvault_sigs (pv ?st3) ! slot)]\<rparr>)
                   = (s, st')" by (auto simp: the_tx_def)
              moreover have "unvault_tx (pv ?st3) = Some utx" using Some by simp
              ultimately show ?thesis using full Inr by blast
            qed
          qed
        qed
      qed
    qed
  qed
  then consider
      (a) "st' = st1"
    | (b) "st' = st2"
    | (c) "st' = ?st3"
    | (d) utx slot where "None \<notin> set (unvault_emer_sigs (pv st2) @ cancel_sigs (pv st2))"
        "unvault_tx (pv ?st3) = Some utx" "index_None (keychains E) = Inr slot"
        "update_unvault_transaction n X S
           (?st3\<lparr>posted := posted ?st3 @ [(hex (GetTxid X utx), unvault_sigs (pv ?st3) ! slot)]\<rparr>)
           = (s, st')"
    by blast
  then show ?thesis
  proof cases
    case a with keep1 show ?thesis by simp
  next
    case b with keep2 show ?thesis by simp
  next
    case c with keep3 show ?thesis by simp
  next
    case d
    let ?st4 = "?st3\<lparr>posted := posted ?st3 @ [(hex (GetTxid X utx), unvault_sigs (pv ?st3) ! slot)]\<rparr>"
    from update_unvault_transaction_shape [OF d(4)] obtain t b where
      p4: "posted st' = posted ?st4" and
      v4: "pv st' = (pv ?st4)\<lparr>unvault_sigs := t, unvault_signed := b\<rparr>" by blast
    have full: "None \<notin> set t1" "None \<notin> set t2" using d(1) v1 v2 by simp_all
    have len: "length t1 = length (unvault_emer_sigs (pv st))" "length t2 = length (cancel_sigs (pv st))"
      using e1 e2 v1 by (simp_all add: checked_ext_def)
    have "emergency_sigs (pv st') = emergency_sigs (pv st)" using v4 v2 v1 by simp
    moreover have "unvault_tx (pv st) = Some utx" using d(2) v2 v1 by simp
    moreover have "posted st' = posted st @ [(hex (GetTxid X utx), unvault_sigs (pv st) ! slot)]"
      using p4 p2 p1 v2 v1 by simp
    moreover have "cancel_sigs (pv st') = t2" "unvault_emer_sigs (pv st') = t1" "unvault_secure (pv st')"
      using v4 v2 v1 by simp_all
    ultimately show ?thesis using full len d(3) by simp
  qed
qed

lemma run3:
  "posted (snd (update_unvault_revocations 1 X0 (snd (add_new_vault X0 E0 utxo0)) S0 fetcher0))
     = [(hex (0x02 # replicate 31 0), Some (replicate 32 0x11 @ [0x01, 0x01]))]
   \<and> pv fetcher0 = last (vaults (snd (add_new_vault X0 E0 utxo0)))
   \<and> posted fetcher0 = []"
  by code_simp

lemma add_new_vault_short_txid:
  "fst (add_new_vault X0 E0 (utxo0\<lparr>u_txid := ''ab''\<rparr>)) = Some ValueError"
  by code_simp

lemma sign_emergency_vault_tx_last:
  "last (sign_emergency_vault_tx L tx privkey pubkeys prev_value sign_all)
     = (if sign_all then SIGHASH_ALL else ALL_ANYONECANPAY)"
  by (simp add: sign_emergency_vault_tx_def)

lemma sign_unvault_tx_last: "last (sign_unvault_tx L tx privkey pubkeys prev_value) = SIGHASH_ALL"
  by (simp add: sign_unvault_tx_def)

lemma flags_differ: "SIGHASH_ALL \<noteq> ALL_ANYONECANPAY"
  by (simp add: sighash_values)

text \<open>
  C1, as the code has it. \<open>update_unvault_revocations\<close> never reads or writes the
  emergency table. It sends at most one signature, the own slot of the unvault table
  under the unvault transaction's txid, and when it has sent it the cancel table and the
  unvault-emergency table hold no \<open>None\<close> in any of their slots (whose number is
  unchanged) and \<open>unvault_secure\<close> is set. This holds of the state reached for every
  amount of fuel, so of every point of the run.

  The only other sender is \<open>add_new_vault\<close>. When it returns it has appended one
  vault, whose four tables have four slots each and whose unvault table holds the own
  unvault signature, and it has sent exactly three signatures: the
  \<open>SIGHASH_ALL | SIGHASH_ANYONECANPAY\<close> signatures of the emergency, the cancel and the
  unvault-emergency transaction of that vault, each under the txid of its transaction.
  Each of them ends with the flag byte 0x81 and the unvault signature with 0x01, so the
  unvault signature is none of the three. When \<open>add_new_vault\<close> raises it has sent
  nothing and added no vault: every statement of it that can raise comes before the
  first send.

  Together: on a vault that \<open>add_new_vault\<close> has appended, once
  \<open>update_unvault_revocations\<close> has sent anything, what it has sent is the own unvault
  signature, and the cancel and the unvault-emergency table then hold four signatures
  each.
\<close>

theorem unvault_sig_gated:
  "(update_unvault_revocations n X E S st = (s, st') \<longrightarrow>
      emergency_sigs (pv st') = emergency_sigs (pv st)
      \<and> (posted st' = posted st
         \<or> ((\<exists>utx slot. unvault_tx (pv st) = Some utx \<and> index_None (keychains E) = Inr slot
                \<and> posted st' = posted st @ [(hex (GetTxid X utx), unvault_sigs (pv st) ! slot)])
            \<and> None \<notin> set (cancel_sigs (pv st')) \<and> None \<notin> set (unvault_emer_sigs (pv st'))
            \<and> length (cancel_sigs (pv st')) = length (cancel_sigs (pv st))
            \<and> length (unvault_emer_sigs (pv st')) = length (unvault_emer_sigs (pv st))
            \<and> unvault_secure (pv st'))))
   \<and> (add_new_vault X E out = (None, E') \<longrightarrow>
        (\<exists>v etx utx ctx uetx amount slot a b c us.
           vaults E' = vaults E @ [v]
           \<and> emergency_tx v = Some etx \<and> unvault_tx v = Some utx
           \<and> cancel_tx v = Some ctx \<and> unvault_emer_tx v = Some uetx
           \<and> length (emergency_sigs v) = 4 \<and> length (unvault_sigs v) = 4
           \<and> length (cancel_sigs v) = 4 \<and> length (unvault_emer_sigs v) = 4
           \<and> index_None (keychains E) = Inr slot
           \<and> us = sign_unvault_tx (crypto X) utx (v_privkey v) (v_pubkeys v) (v_amount v)
           \<and> unvault_sigs v ! slot = Some us
           \<and> vout0_nValue utx = Inr amount
           \<and> a = sign_emergency_vault_tx (crypto X) etx (v_privkey v) (v_pubkeys v)
                   (v_amount v) False
           \<and> sign_cancel_tx (crypto X) ctx (v_privkey v) (v_pubkeys v) (cosigner_pubkey E)
                amount False = Inr b
           \<and> sign_emer_unvault_tx (crypto X) uetx (v_privkey v) (v_pubkeys v)
                (cosigner_pubkey E) amount False = Inr c
           \<and> sent E' = sent E @ [(hex (GetTxid X etx), a), (hex (GetTxid X ctx), b),
                                  (hex (GetTxid X uetx), c)]
           \<and> last a = ALL_ANYONECANPAY \<and> last b = ALL_ANYONECANPAY
           \<and> last c = ALL_ANYONECANPAY \<and> last us = SIGHASH_ALL
           \<and> us \<noteq> a \<and> us \<noteq> b \<and> us \<noteq> c))
   \<and> (add_new_vault X E out = (Some e, E') \<longrightarrow> sent E' = sent E \<and> vaults E' = vaults E)
   \<and> (add_new_vault X E out = (None, E') \<and> pv st = last (vaults E')
       \<and> update_unvault_revocations n X E' S st = (s, st') \<and> posted st' \<noteq> posted st \<longrightarrow>
        length (cancel_sigs (pv st')) = 4 \<and> None \<notin> set (cancel_sigs (pv st'))
        \<and> length (unvault_emer_sigs (pv st')) = 4 \<and> None \<notin> set (unvault_emer_sigs (pv st'))
        \<and> (\<exists>utx. unvault_tx (pv st) = Some utx
              \<and> posted st' = posted st @
                   [(hex (GetTxid X utx),
                     Some (sign_unvault_tx (crypto X) utx (v_privkey (pv st)) (v_pubkeys (pv st))
                             (v_amount (pv st))))]))"
proof -
  have A: "update_unvault_revocations n X E S st = (s, st') \<longrightarrow>
      emergency_sigs (pv st') = emergency_sigs (pv st)
      \<and> (posted st' = posted st
         \<or> ((\<exists>utx slot. unvault_tx (pv st) = Some utx \<and> index_None (keychains E) = Inr slot
                \<and> posted st' = posted st @ [(hex (GetTxid X utx), unvault_sigs (pv st) ! slot)])
            \<and> None \<notin> set (cancel_sigs (pv st')) \<and> None \<notin> set (unvault_emer_sigs (pv st'))
            \<and> length (cancel_sigs (pv st')) = length (cancel_sigs (pv st))
            \<and> length (unvault_emer_sigs (pv st')) = length (unvault_emer_sigs (pv st))
            \<and> unvault_secure (pv st')))"
    by (rule impI) (rule update_unvault_revocations_gate)
  have B: "add_new_vault X E out = (None, E') \<longrightarrow>
        (\<exists>v etx utx ctx uetx amount slot a b c us.
           vaults E' = vaults E @ [v]
           \<and> emergency_tx v = Some etx \<and> unvault_tx v = Some utx
           \<and> cancel_tx v = Some ctx \<and> unvault_emer_tx v = Some uetx
           \<and> length (emergency_sigs v) = 4 \<and> length (unvault_sigs v) = 4
           \<and> length (cancel_sigs v) = 4 \<and> length (unvault_emer_sigs v) = 4
           \<and> index_None (keychains E) = Inr slot
           \<and> us = sign_unvault_tx (crypto X) utx (v_privkey v) (v_pubkeys v) (v_amount v)
           \<and> unvault_sigs v ! slot = Some us
           \<and> vout0_nValue utx = Inr amount
           \<and> a = sign_emergency_vault_tx (crypto X) etx (v_privkey v) (v_pubkeys v)
                   (v_amount v) False
           \<and> sign_cancel_tx (crypto X) ctx (v_privkey v) (v_pubkeys v) (cosigner_pubkey E)
                amount False = Inr b
           \<and> sign_emer_unvault_tx (crypto X) uetx (v_privkey v) (v_pubkeys v)
                (cosigner_pubkey E) amount False = Inr c
           \<and> sent E' = sent E @ [(hex (GetTxid X etx), a), (hex (GetTxid X ctx), b),
                                  (hex (GetTxid X uetx), c)]
           \<and> last a = ALL_ANYONECANPAY \<and> last b = ALL_ANYONECANPAY
           \<and> last c = ALL_ANYONECANPAY \<and> last us = SIGHASH_ALL
           \<and> us \<noteq> a \<and> us \<noteq> b \<and> us \<noteq> c)"
  proof
    assume "add_new_vault X E out = (None, E')"
    from add_new_vault_None [OF this] obtain k v etx utx ctx uetx amount slot b c where
      f: "vaults E' = vaults E @ [v]"
         "emergency_tx v = Some etx" "unvault_tx v = Some utx"
         "cancel_tx v = Some ctx" "unvault_emer_tx v = Some uetx"
         "length (emergency_sigs v) = 4" "length (unvault_sigs v) = 4"
         "length (cancel_sigs v) = 4" "length (unvault_emer_sigs v) = 4"
         "index_None (keychains E) = Inr slot" and
      own: "unvault_sigs v ! slot
          = Some (sign_unvault_tx (crypto X) utx (v_privkey v) (v_pubkeys v) (v_amount v))" and
      am: "vout0_nValue utx = Inr amount" and
      b: "sign_cancel_tx (crypto X) ctx (v_privkey v) (v_pubkeys v) (cosigner_pubkey E)
          amount False = Inr b" and
      c: "sign_emer_unvault_tx (crypto X) uetx (v_privkey v) (v_pubkeys v) (cosigner_pubkey E)
          amount False = Inr c" and
      snt: "sent E' = sent E @
          [(hex (GetTxid X etx),
            sign_emergency_vault_tx (crypto X) etx (v_privkey v) (v_pubkeys v) (v_amount v) False),
           (hex (GetTxid X ctx), b), (hex (GetTxid X uetx), c)]"
      by (elim exE conjE)
    define us where "us = sign_unvault_tx (crypto X) utx (v_privkey v) (v_pubkeys v) (v_amount v)"
    define a where
      "a = sign_emergency_vault_tx (crypto X) etx (v_privkey v) (v_pubkeys v) (v_amount v) False"
    have la: "last a = ALL_ANYONECANPAY" unfolding a_def by (simp add: sign_emergency_vault_tx_last)
    from b have lb: "last b = ALL_ANYONECANPAY"
      unfolding sign_cancel_tx_def by (simp add: sign_unvault_revault_flag)
    from c have lc: "last c = ALL_ANYONECANPAY"
      unfolding sign_emer_unvault_tx_def by (simp add: sign_unvault_revault_flag)
    have lu: "last us = SIGHASH_ALL" unfolding us_def by (rule sign_unvault_tx_last)
    have ne: "us \<noteq> a" "us \<noteq> b" "us \<noteq> c"
      using la lb lc lu flags_differ by auto
    from own have own': "unvault_sigs v ! slot = Some us" by (simp add: us_def)
    from snt have snt': "sent E' = sent E @ [(hex (GetTxid X etx), a), (hex (GetTxid X ctx), b),
                                  (hex (GetTxid X uetx), c)]"
      by (simp add: a_def)
    show "\<exists>v etx utx ctx uetx amount slot a b c us.
           vaults E' = vaults E @ [v]
           \<and> emergency_tx v = Some etx \<and> unvault_tx v = Some utx
           \<and> cancel_tx v = Some ctx \<and> unvault_emer_tx v = Some uetx
           \<and> length (emergency_sigs v) = 4 \<and> length (unvault_sigs v) = 4
           \<and> length (cancel_sigs v) = 4 \<and> length (unvault_emer_sigs v) = 4
           \<and> index_None (keychains E) = Inr slot
           \<and> us = sign_unvault_tx (crypto X) utx (v_privkey v) (v_pubkeys v) (v_amount v)
           \<and> unvault_sigs v ! slot = Some us
           \<and> vout0_nValue utx = Inr amount
           \<and> a = sign_emergency_vault_tx (crypto X) etx (v_privkey v) (v_pubkeys v)
                   (v_amount v) False
           \<and> sign_cancel_tx (crypto X) ctx (v_privkey v) (v_pubkeys v) (cosigner_pubkey E)
                amount False = Inr b
           \<and> sign_emer_unvault_tx (crypto X) uetx (v_privkey v) (v_pubkeys v)
                (cosigner_pubkey E) amount False = Inr c
           \<and> sent E' = sent E @ [(hex (GetTxid X etx), a), (hex (GetTxid X ctx), b),
                                  (hex (GetTxid X uetx), c)]
           \<and> last a = ALL_ANYONECANPAY \<and> last b = ALL_ANYONECANPAY
           \<and> last c = ALL_ANYONECANPAY \<and> last us = SIGHASH_ALL
           \<and> us \<noteq> a \<and> us \<noteq> b \<and> us \<noteq> c"
      apply (rule exI [of _ v], rule exI [of _ etx], rule exI [of _ utx], rule exI [of _ ctx],
          rule exI [of _ uetx], rule exI [of _ amount], rule exI [of _ slot], rule exI [of _ a],
          rule exI [of _ b], rule exI [of _ c], rule exI [of _ us])
      using f us_def own' am a_def b c snt' la lb lc lu ne by (intro conjI)
  qed
  have C: "add_new_vault X E out = (Some e, E') \<longrightarrow> sent E' = sent E \<and> vaults E' = vaults E"
    by (rule impI) (rule add_new_vault_Some)
  have D: "add_new_vault X E out = (None, E') \<and> pv st = last (vaults E')
       \<and> update_unvault_revocations n X E' S st = (s, st') \<and> posted st' \<noteq> posted st \<longrightarrow>
        length (cancel_sigs (pv st')) = 4 \<and> None \<notin> set (cancel_sigs (pv st'))
        \<and> length (unvault_emer_sigs (pv st')) = 4 \<and> None \<notin> set (unvault_emer_sigs (pv st'))
        \<and> (\<exists>utx. unvault_tx (pv st) = Some utx
              \<and> posted st' = posted st @
                   [(hex (GetTxid X utx),
                     Some (sign_unvault_tx (crypto X) utx (v_privkey (pv st)) (v_pubkeys (pv st))
                             (v_amount (pv st))))])"
  proof
    assume h: "add_new_vault X E out = (None, E') \<and> pv st = last (vaults E')
       \<and> update_unvault_revocations n X E' S st = (s, st') \<and> posted st' \<noteq> posted st"
    then have h1: "add_new_vault X E out = (None, E')" and h2: "pv st = last (vaults E')"
      and h3: "update_unvault_revocations n X E' S st = (s, st')"
      and h4: "posted st' \<noteq> posted st" by simp_all
    from add_new_vault_None [OF h1] obtain v utx slot where
      f: "vaults E' = vaults E @ [v]" "keychains E' = keychains E" "unvault_tx v = Some utx"
         "length (cancel_sigs v) = 4" "length (unvault_emer_sigs v) = 4"
         "index_None (keychains E) = Inr slot" and
      own: "unvault_sigs v ! slot
          = Some (sign_unvault_tx (crypto X) utx (v_privkey v) (v_pubkeys v) (v_amount v))"
      by (elim exE conjE)
    from h2 f(1) have pv: "pv st = v" by simp
    from update_unvault_revocations_gate [OF h3] h4 have
      g: "(\<exists>utx slot. unvault_tx (pv st) = Some utx \<and> index_None (keychains E') = Inr slot
                \<and> posted st' = posted st @ [(hex (GetTxid X utx), unvault_sigs (pv st) ! slot)])"
         "None \<notin> set (cancel_sigs (pv st'))" "None \<notin> set (unvault_emer_sigs (pv st'))"
         "length (cancel_sigs (pv st')) = length (cancel_sigs (pv st))"
         "length (unvault_emer_sigs (pv st')) = length (unvault_emer_sigs (pv st))"
      by simp_all
    from g(1) obtain utx' slot' where
      g1: "unvault_tx (pv st) = Some utx'" "index_None (keychains E') = Inr slot'"
          "posted st' = posted st @ [(hex (GetTxid X utx'), unvault_sigs (pv st) ! slot')]"
      by (elim exE conjE)
    from g1(1) pv f(3) have u: "utx' = utx" by simp
    from g1(2) f(2) f(6) have sl: "slot' = slot" by simp
    have p: "posted st' = posted st @
                   [(hex (GetTxid X utx),
                     Some (sign_unvault_tx (crypto X) utx (v_privkey (pv st)) (v_pubkeys (pv st))
                             (v_amount (pv st))))]"
      using g1(3) own by (simp add: u sl pv)
    have ex: "\<exists>utx. unvault_tx (pv st) = Some utx
              \<and> posted st' = posted st @
                   [(hex (GetTxid X utx),
                     Some (sign_unvault_tx (crypto X) utx (v_privkey (pv st)) (v_pubkeys (pv st))
                             (v_amount (pv st))))]"
      using p g1(1) u by (intro exI [of _ utx]) simp
    have l1: "length (cancel_sigs (pv st')) = 4" using g(4) f(4) pv by simp
    have l2: "length (unvault_emer_sigs (pv st')) = 4" using g(5) f(5) pv by simp
    from l1 g(2) l2 g(3) ex
    show "length (cancel_sigs (pv st')) = 4 \<and> None \<notin> set (cancel_sigs (pv st'))
        \<and> length (unvault_emer_sigs (pv st')) = 4 \<and> None \<notin> set (unvault_emer_sigs (pv st'))
        \<and> (\<exists>utx. unvault_tx (pv st) = Some utx
              \<and> posted st' = posted st @
                   [(hex (GetTxid X utx),
                     Some (sign_unvault_tx (crypto X) utx (v_privkey (pv st)) (v_pubkeys (pv st))
                             (v_amount (pv st))))])"
      by (intro conjI)
  qed
  from A B C D show ?thesis by (intro conjI)
qed

theorem unvault_sig_gated_witness:
  "posted (snd (update_unvault_revocations 1 X0 E0 S0 fetcher0))
     = [(hex (0x02 # replicate 31 0), Some (replicate 32 0x11 @ [0x01, 0x01]))]
   \<and> None \<notin> set (cancel_sigs (pv (snd (update_unvault_revocations 1 X0 E0 S0 fetcher0))))
   \<and> None \<notin> set (unvault_emer_sigs (pv (snd (update_unvault_revocations 1 X0 E0 S0 fetcher0))))
   \<and> fst (add_new_vault X0 E0 utxo0) = None
   \<and> length (sent (snd (add_new_vault X0 E0 utxo0))) = 3
   \<and> length (cancel_sigs (pv (snd (update_unvault_revocations 1 X0
        (snd (add_new_vault X0 E0 utxo0)) S0 fetcher0)))) = 4
   \<and> None \<notin> set (cancel_sigs (pv (snd (update_unvault_revocations 1 X0
        (snd (add_new_vault X0 E0 utxo0)) S0 fetcher0))))
   \<and> fst (add_new_vault X0 E0 (utxo0\<lparr>u_txid := ''ab''\<rparr>)) = Some ValueError
   \<and> sent (snd (add_new_vault X0 E0 (utxo0\<lparr>u_txid := ''ab''\<rparr>))) = sent E0"
proof -
  let ?r = "update_unvault_revocations 1 X0 E0 S0 fetcher0"
  let ?a = "add_new_vault X0 E0 utxo0"
  let ?r' = "update_unvault_revocations 1 X0 (snd ?a) S0 fetcher0"
  let ?f = "add_new_vault X0 E0 (utxo0\<lparr>u_txid := ''ab''\<rparr>)"
  have run: "?r = (fst ?r, snd ?r)" by simp
  have run': "?r' = (fst ?r', snd ?r')" by simp
  have ok: "fst ?a = None" by (rule add_new_vault_fresh [THEN conjunct1])
  then have ingest: "?a = (None, snd ?a)" by (cases ?a) simp
  have fail: "?f = (Some ValueError, snd ?f)"
    using add_new_vault_short_txid by (cases ?f) simp
  note T = unvault_sig_gated [of 1 X0 E0 S0 fetcher0 "fst ?r" "snd ?r" utxo0 "snd ?a" ValueError]
  note T' = unvault_sig_gated [of 1 X0 E0 S0 fetcher0 "fst ?r'" "snd ?r'" utxo0 "snd ?a" ValueError]
  note F = unvault_sig_gated [of 1 X0 E0 S0 fetcher0 "fst ?r" "snd ?r" "utxo0\<lparr>u_txid := ''ab''\<rparr>"
      "snd ?f" ValueError]
  have p: "posted (snd ?r) = [(hex (0x02 # replicate 31 0), Some (replicate 32 0x11 @ [0x01, 0x01]))]"
    by (rule run0 [THEN conjunct1])
  have p0: "posted fetcher0 = []" by (simp add: fetcher0_def)
  with p have ne: "posted (snd ?r) \<noteq> posted fetcher0" by simp
  from T have "?r = (fst ?r, snd ?r) \<longrightarrow>
      emergency_sigs (pv (snd ?r)) = emergency_sigs (pv fetcher0)
      \<and> (posted (snd ?r) = posted fetcher0
         \<or> ((\<exists>utx slot. unvault_tx (pv fetcher0) = Some utx \<and> index_None (keychains E0) = Inr slot
                \<and> posted (snd ?r) = posted fetcher0 @ [(hex (GetTxid X0 utx), unvault_sigs (pv fetcher0) ! slot)])
            \<and> None \<notin> set (cancel_sigs (pv (snd ?r))) \<and> None \<notin> set (unvault_emer_sigs (pv (snd ?r)))
            \<and> length (cancel_sigs (pv (snd ?r))) = length (cancel_sigs (pv fetcher0))
            \<and> length (unvault_emer_sigs (pv (snd ?r))) = length (unvault_emer_sigs (pv fetcher0))
            \<and> unvault_secure (pv (snd ?r))))"
    by (elim conjE)
  from this [rule_format, OF run] ne
  have g: "None \<notin> set (cancel_sigs (pv (snd ?r)))" "None \<notin> set (unvault_emer_sigs (pv (snd ?r)))"
    by simp_all
  from T have "?a = (None, snd ?a) \<longrightarrow>
        (\<exists>v etx utx ctx uetx amount slot a b c us.
           vaults (snd ?a) = vaults E0 @ [v]
           \<and> emergency_tx v = Some etx \<and> unvault_tx v = Some utx
           \<and> cancel_tx v = Some ctx \<and> unvault_emer_tx v = Some uetx
           \<and> length (emergency_sigs v) = 4 \<and> length (unvault_sigs v) = 4
           \<and> length (cancel_sigs v) = 4 \<and> length (unvault_emer_sigs v) = 4
           \<and> index_None (keychains E0) = Inr slot
           \<and> us = sign_unvault_tx (crypto X0) utx (v_privkey v) (v_pubkeys v) (v_amount v)
           \<and> unvault_sigs v ! slot = Some us
           \<and> vout0_nValue utx = Inr amount
           \<and> a = sign_emergency_vault_tx (crypto X0) etx (v_privkey v) (v_pubkeys v)
                   (v_amount v) False
           \<and> sign_cancel_tx (crypto X0) ctx (v_privkey v) (v_pubkeys v) (cosigner_pubkey E0)
                amount False = Inr b
           \<and> sign_emer_unvault_tx (crypto X0) uetx (v_privkey v) (v_pubkeys v)
                (cosigner_pubkey E0) amount False = Inr c
           \<and> sent (snd ?a) = sent E0 @ [(hex (GetTxid X0 etx), a), (hex (GetTxid X0 ctx), b),
                                  (hex (GetTxid X0 uetx), c)]
           \<and> last a = ALL_ANYONECANPAY \<and> last b = ALL_ANYONECANPAY
           \<and> last c = ALL_ANYONECANPAY \<and> last us = SIGHASH_ALL
           \<and> us \<noteq> a \<and> us \<noteq> b \<and> us \<noteq> c)"
    by (elim conjE)
  from this [rule_format, OF ingest] obtain x1 a x2 b x3 c where
    "sent (snd ?a) = sent E0 @ [(x1, a), (x2, b), (x3, c)]"
    by (elim exE conjE)
  then have three: "length (sent (snd ?a)) = 3" by (simp add: E0_def)
  have pre: "?a = (None, snd ?a) \<and> pv fetcher0 = last (vaults (snd ?a))
       \<and> ?r' = (fst ?r', snd ?r') \<and> posted (snd ?r') \<noteq> posted fetcher0"
    using ingest run' run3 by simp
  from T' have "?a = (None, snd ?a) \<and> pv fetcher0 = last (vaults (snd ?a))
       \<and> ?r' = (fst ?r', snd ?r') \<and> posted (snd ?r') \<noteq> posted fetcher0 \<longrightarrow>
        length (cancel_sigs (pv (snd ?r'))) = 4 \<and> None \<notin> set (cancel_sigs (pv (snd ?r')))
        \<and> length (unvault_emer_sigs (pv (snd ?r'))) = 4 \<and> None \<notin> set (unvault_emer_sigs (pv (snd ?r')))
        \<and> (\<exists>utx. unvault_tx (pv fetcher0) = Some utx
              \<and> posted (snd ?r') = posted fetcher0 @
                   [(hex (GetTxid X0 utx),
                     Some (sign_unvault_tx (crypto X0) utx (v_privkey (pv fetcher0)) (v_pubkeys (pv fetcher0))
                             (v_amount (pv fetcher0))))])"
    by (elim conjE)
  from this [rule_format, OF pre]
  have four: "length (cancel_sigs (pv (snd ?r'))) = 4" "None \<notin> set (cancel_sigs (pv (snd ?r')))"
    by simp_all
  from F have "?f = (Some ValueError, snd ?f) \<longrightarrow>
      sent (snd ?f) = sent E0 \<and> vaults (snd ?f) = vaults E0"
    by (elim conjE)
  from this [rule_format, OF fail] have unsent: "sent (snd ?f) = sent E0" by (rule conjunct1)
  have part1: "posted (snd ?r)
       = [(hex (0x02 # replicate 31 0), Some (replicate 32 0x11 @ [0x01, 0x01]))]
     \<and> None \<notin> set (cancel_sigs (pv (snd ?r)))
     \<and> None \<notin> set (unvault_emer_sigs (pv (snd ?r)))"
    using p g by (intro conjI)
  have part2: "fst ?a = None \<and> length (sent (snd ?a)) = 3"
    using ok three by (rule conjI)
  have part3: "length (cancel_sigs (pv (snd ?r'))) = 4 \<and> None \<notin> set (cancel_sigs (pv (snd ?r')))"
    using four by (rule conjI)
  have part4: "fst ?f = Some ValueError \<and> sent (snd ?f) = sent E0"
    using add_new_vault_short_txid unsent by (rule conjI)
  from part1 part2 part3 part4 show ?thesis by simp
qed

text \<open>
  C1, as the claim states it, fails: on the vault \<open>add_new_vault\<close> has just built, with
  the peers' cancel and unvault-emergency signatures on the sig-server, the unvault
  signature is sent while three slots of the emergency table are still empty.
\<close>

theorem unvault_sig_before_emergency_counterexample:
  "posted (snd (update_unvault_revocations 1 X0 E0 S0 fetcher0))
     = [(hex (0x02 # replicate 31 0), Some (replicate 32 0x11 @ [0x01, 0x01]))]
   \<and> emergency_sigs (pv (snd (update_unvault_revocations 1 X0 E0 S0 fetcher0)))
       = [Some (replicate 32 0x11 @ [0x01, 0x01]), None, None, None]
   \<and> fst (add_new_vault X0 E0 utxo0) = None
   \<and> vaults (snd (add_new_vault X0 E0 utxo0)) = [pv fetcher0]"
  by code_simp

text \<open>
  C9, as the code has it. The fetchers of the emergency, the unvault-emergency and the
  cancel table leave every slot unchanged or fill an empty slot with a non-empty
  signature whose last byte is \<open>SIGHASH_ALL | SIGHASH_ANYONECANPAY\<close>, whatever the
  sig-server answers and however the run ends. The fetcher of the unvault table makes no
  such test: an empty slot receives what \<open>get_signature\<close> returns.
\<close>

theorem fetched_signatures_checked:
  "(update_emergency_signatures n X S st = (s, st') \<longrightarrow>
      checked_ext (emergency_sigs (pv st)) (emergency_sigs (pv st')))
   \<and> (update_unvault_emergency n X S st = (s, st') \<longrightarrow>
      checked_ext (unvault_emer_sigs (pv st)) (unvault_emer_sigs (pv st')))
   \<and> (update_cancel_unvault n X S st = (s, st') \<longrightarrow>
      checked_ext (cancel_sigs (pv st)) (cancel_sigs (pv st')))
   \<and> (i - 1 < length (unvault_sigs (pv st)) \<and> unvault_sigs (pv st) ! (i - 1) = None \<longrightarrow>
      fetch_unvault_slots S txid [i] st
        = (None, st\<lparr>pv := (pv st)\<lparr>unvault_sigs :=
                    (unvault_sigs (pv st))[i - 1 := get_signature S (clock st) txid i]\<rparr>\<rparr>))"
proof (intro conjI impI)
  assume "update_emergency_signatures n X S st = (s, st')"
  from update_emergency_signatures_shape [OF this]
  show "checked_ext (emergency_sigs (pv st)) (emergency_sigs (pv st'))" by auto
next
  assume "update_unvault_emergency n X S st = (s, st')"
  from update_unvault_emergency_shape [OF this]
  show "checked_ext (unvault_emer_sigs (pv st)) (unvault_emer_sigs (pv st'))" by auto
next
  assume "update_cancel_unvault n X S st = (s, st')"
  from update_cancel_unvault_shape [OF this]
  show "checked_ext (cancel_sigs (pv st)) (cancel_sigs (pv st'))" by auto
next
  assume "i - 1 < length (unvault_sigs (pv st)) \<and> unvault_sigs (pv st) ! (i - 1) = None"
  then show "fetch_unvault_slots S txid [i] st
        = (None, st\<lparr>pv := (pv st)\<lparr>unvault_sigs :=
                    (unvault_sigs (pv st))[i - 1 := get_signature S (clock st) txid i]\<rparr>\<rparr>)"
    by auto
qed

theorem fetched_signatures_checked_witness:
  "cancel_sigs (pv (snd (update_cancel_unvault 1 X0 S0 fetcher0)))
     = [Some (replicate 32 0x11 @ [0x01, 0x01]), Some [0x02, 0x81], Some [0x03, 0x81], Some [0x04, 0x81]]
   \<and> checked_ext (cancel_sigs (pv fetcher0)) (cancel_sigs (pv (snd (update_cancel_unvault 1 X0 S0 fetcher0))))
   \<and> fetch_unvault_slots S0 (hex (0x02 # replicate 31 0)) [2] fetcher0
        = (None, fetcher0\<lparr>pv := vault0\<lparr>unvault_sigs := [Some (replicate 32 0x11 @ [0x01, 0x01]), Some [0x02, 0x01], None, None]\<rparr>\<rparr>)"
proof -
  let ?r = "update_cancel_unvault 1 X0 S0 fetcher0"
  have run: "?r = (fst ?r, snd ?r)" by simp
  note T = fetched_signatures_checked [of 1 X0 S0 fetcher0 "fst ?r" "snd ?r" 2 "hex (0x02 # replicate 31 0)"]
  from T run have a: "checked_ext (cancel_sigs (pv fetcher0)) (cancel_sigs (pv (snd ?r)))"
    by blast
  have pre: "2 - 1 < length (unvault_sigs (pv fetcher0)) \<and> unvault_sigs (pv fetcher0) ! (2 - 1) = None"
    by (simp add: fetcher0_def vault0_def)
  from T pre have "fetch_unvault_slots S0 (hex (0x02 # replicate 31 0)) [2] fetcher0
        = (None, fetcher0\<lparr>pv := (pv fetcher0)\<lparr>unvault_sigs :=
             (unvault_sigs (pv fetcher0))[2 - 1 := get_signature S0 (clock fetcher0) (hex (0x02 # replicate 31 0)) 2]\<rparr>\<rparr>)"
    by blast
  then have b: "fetch_unvault_slots S0 (hex (0x02 # replicate 31 0)) [2] fetcher0
        = (None, fetcher0\<lparr>pv := vault0\<lparr>unvault_sigs := [Some (replicate 32 0x11 @ [0x01, 0x01]), Some [0x02, 0x01], None, None]\<rparr>\<rparr>)"
    by (simp add: fetcher0_def vault0_def S0_def)
  have c: "cancel_sigs (pv (snd ?r))
     = [Some (replicate 32 0x11 @ [0x01, 0x01]), Some [0x02, 0x81], Some [0x03, 0x81], Some [0x04, 0x81]]"
    by code_simp
  from a b c show ?thesis by (intro conjI)
qed

text \<open>
  C9, as the claim states it, fails for the unvault table: a peer signature ending in
  0x01 is stored.
\<close>

theorem unvault_fetcher_unchecked_counterexample:
  "unvault_sigs (pv (snd (update_unvault_transaction 1 X0 S0 fetcher0))) ! 1 = Some [0x02, 0x01]
   \<and> last [0x02, 0x01 :: 8 word] \<noteq> ALL_ANYONECANPAY"
  by code_simp

section \<open>Ingest, spend votes and fee-rate targets\<close>

lemma guess_loop_None_iff:
  "guess_loop X E a i = None \<longleftrightarrow> (\<forall>j. i \<le> j \<and> j < max_index E \<longrightarrow> get_vault_address X E j \<noteq> a)"
proof (induction X E a i rule: guess_loop.induct)
  case (1 X E a i)
  show ?case
  proof (cases "i < max_index E")
    case False
    then show ?thesis by (auto simp: guess_loop.simps [of X E a i])
  next
    case True
    show ?thesis
    proof (cases "a = get_vault_address X E i")
      case True
      have g: "guess_loop X E a i = Some i"
        using True \<open>i < max_index E\<close> by (subst guess_loop.simps) simp
      have "\<not> (\<forall>j. i \<le> j \<and> j < max_index E \<longrightarrow> get_vault_address X E j \<noteq> a)"
      proof
        assume "\<forall>j. i \<le> j \<and> j < max_index E \<longrightarrow> get_vault_address X E j \<noteq> a"
        then have "i \<le> i \<and> i < max_index E \<longrightarrow> get_vault_address X E i \<noteq> a" by (rule spec)
        with True \<open>i < max_index E\<close> show False by simp
      qed
      with g show ?thesis by simp
    next
      case False
      with \<open>i < max_index E\<close> have "guess_loop X E a i = guess_loop X E a (i + 1)"
        by (simp add: guess_loop.simps [of X E a i])
      moreover have "(\<forall>j. i \<le> j \<and> j < max_index E \<longrightarrow> get_vault_address X E j \<noteq> a)
          \<longleftrightarrow> (\<forall>j. i + 1 \<le> j \<and> j < max_index E \<longrightarrow> get_vault_address X E j \<noteq> a)"
      proof
        assume "\<forall>j. i \<le> j \<and> j < max_index E \<longrightarrow> get_vault_address X E j \<noteq> a"
        then show "\<forall>j. i + 1 \<le> j \<and> j < max_index E \<longrightarrow> get_vault_address X E j \<noteq> a" by auto
      next
        assume r: "\<forall>j. i + 1 \<le> j \<and> j < max_index E \<longrightarrow> get_vault_address X E j \<noteq> a"
        show "\<forall>j. i \<le> j \<and> j < max_index E \<longrightarrow> get_vault_address X E j \<noteq> a"
        proof (intro allI impI)
          fix j assume j: "i \<le> j \<and> j < max_index E"
          show "get_vault_address X E j \<noteq> a"
          proof (cases "j = i")
            case True with False show ?thesis by simp
          next
            case False with j r show ?thesis by simp
          qed
        qed
      qed
      ultimately show ?thesis using "1.IH" [OF True False] by simp
    qed
  qed
qed

lemma guess_loop_Some:
  "guess_loop X E a i = Some k \<Longrightarrow>
     i \<le> k \<and> k < max_index E \<and> get_vault_address X E k = a
     \<and> (\<forall>j. i \<le> j \<and> j < k \<longrightarrow> get_vault_address X E j \<noteq> a)"
proof (induction X E a i rule: guess_loop.induct)
  case (1 X E a i)
  show ?case
  proof (cases "i < max_index E")
    case False
    with "1.prems" show ?thesis by (simp add: guess_loop.simps [of X E a i])
  next
    case True
    show ?thesis
    proof (cases "a = get_vault_address X E i")
      case True
      have "guess_loop X E a i = Some i"
        using True \<open>i < max_index E\<close> by (subst guess_loop.simps) simp
      with "1.prems" have "k = i" by simp
      with True \<open>i < max_index E\<close> show ?thesis by auto
    next
      case False
      with \<open>i < max_index E\<close> "1.prems" have "guess_loop X E a (i + 1) = Some k"
        by (simp add: guess_loop.simps [of X E a i])
      from "1.IH" [OF True False this] have
        k: "i + 1 \<le> k" "k < max_index E" "get_vault_address X E k = a" and
        r: "\<forall>j. i + 1 \<le> j \<and> j < k \<longrightarrow> get_vault_address X E j \<noteq> a" by simp_all
      have "\<forall>j. i \<le> j \<and> j < k \<longrightarrow> get_vault_address X E j \<noteq> a"
      proof (intro allI impI)
        fix j assume j: "i \<le> j \<and> j < k"
        show "get_vault_address X E j \<noteq> a"
        proof (cases "j = i")
          case True with False show ?thesis by simp
        next
          case False with j r show ?thesis by simp
        qed
      qed
      with k show ?thesis by simp
    qed
  qed
qed

lemma get_vault_address0:
  "get_vault_address X0 E0 j = (if j = 0 then ''bcrt1q542102'' else ''bcrt1q542103'')"
  by (simp add: get_vault_address_def get_pubkeys_def X0_def E0_def lib0_def vault_txout_def
      vault_script_def CScript_def encode_op_pushdata_def opcode_defs hex_def hexdigit_def Let_def)

lemma guess_index0: "guess_index X0 E0 (u_address utxo0) = Some 0"
  by (simp add: guess_index_def guess_loop.simps [of X0 E0 _ 0] get_vault_address0)
     (simp add: E0_def utxo0_def)

lemma add_new_vault_short_txid_vaults:
  "vaults (snd (add_new_vault X0 E0 (utxo0\<lparr>u_txid := ''ab''\<rparr>))) = []"
  by code_simp

text \<open>
  C8, as the code has it. \<open>guess_index\<close> tries the indices from 0, not from
  \<open>current_index\<close>: it returns \<open>None\<close> exactly when no index of [0, max_index) has the
  address, and otherwise the first index of that range that has it. When no index of
  [0, max_index) has the address of the new output, \<open>add_new_vault\<close> raises and leaves
  the engine, its vault list included, as it was. When \<open>add_new_vault\<close> returns, it has
  appended one vault, for the output it was given, with the public keys and the private
  key of the index \<open>guess_index\<close> found. Whenever it raises, the vault list is as it was.
\<close>

theorem guess_index_range:
  "(guess_index X E a = None \<longleftrightarrow>
      (\<forall>j. 0 \<le> j \<and> j < max_index E \<longrightarrow> get_vault_address X E j \<noteq> a))
   \<and> (\<forall>k. guess_index X E a = Some k \<longrightarrow>
         0 \<le> k \<and> k < max_index E \<and> get_vault_address X E k = a
         \<and> (\<forall>j. 0 \<le> j \<and> j < k \<longrightarrow> get_vault_address X E j \<noteq> a))
   \<and> ((\<forall>j. 0 \<le> j \<and> j < max_index E \<longrightarrow> get_vault_address X E j \<noteq> u_address out) \<longrightarrow>
         add_new_vault X E out
           = (Some (VaultException ''No such vault script with our known pubkeys !''), E))
   \<and> (\<forall>E'. add_new_vault X E out = (None, E') \<longrightarrow>
         (\<exists>k v. guess_index X E (u_address out) = Some k
            \<and> 0 \<le> k \<and> k < max_index E \<and> get_vault_address X E k = u_address out
            \<and> vaults E' = vaults E @ [v]
            \<and> v_txid v = u_txid out \<and> v_vout v = u_vout out \<and> v_amount v = u_amount out
            \<and> v_address v = u_address out
            \<and> v_pubkeys v = get_pubkeys E k \<and> v_privkey v = our_privkey_from_path E k))
   \<and> (\<forall>e E'. add_new_vault X E out = (Some e, E') \<longrightarrow> vaults E' = vaults E)"
proof -
  have n: "guess_index X E a = None \<longleftrightarrow>
      (\<forall>j. 0 \<le> j \<and> j < max_index E \<longrightarrow> get_vault_address X E j \<noteq> a)"
    unfolding guess_index_def by (rule guess_loop_None_iff)
  have s: "\<forall>k. guess_index X E a = Some k \<longrightarrow>
         0 \<le> k \<and> k < max_index E \<and> get_vault_address X E k = a
         \<and> (\<forall>j. 0 \<le> j \<and> j < k \<longrightarrow> get_vault_address X E j \<noteq> a)"
    unfolding guess_index_def using guess_loop_Some [of X E a 0] by blast
  have f: "(\<forall>j. 0 \<le> j \<and> j < max_index E \<longrightarrow> get_vault_address X E j \<noteq> u_address out) \<longrightarrow>
         add_new_vault X E out
           = (Some (VaultException ''No such vault script with our known pubkeys !''), E)"
  proof
    assume "\<forall>j. 0 \<le> j \<and> j < max_index E \<longrightarrow> get_vault_address X E j \<noteq> u_address out"
    then have "guess_index X E (u_address out) = None"
      unfolding guess_index_def by (simp only: guess_loop_None_iff)
    then show "add_new_vault X E out
           = (Some (VaultException ''No such vault script with our known pubkeys !''), E)"
      by (simp add: add_new_vault_def)
  qed
  have u: "\<forall>E'. add_new_vault X E out = (None, E') \<longrightarrow>
         (\<exists>k v. guess_index X E (u_address out) = Some k
            \<and> 0 \<le> k \<and> k < max_index E \<and> get_vault_address X E k = u_address out
            \<and> vaults E' = vaults E @ [v]
            \<and> v_txid v = u_txid out \<and> v_vout v = u_vout out \<and> v_amount v = u_amount out
            \<and> v_address v = u_address out
            \<and> v_pubkeys v = get_pubkeys E k \<and> v_privkey v = our_privkey_from_path E k)"
  proof (intro allI impI)
    fix E' assume "add_new_vault X E out = (None, E')"
    from add_new_vault_None [OF this] obtain k v where
      g: "guess_index X E (u_address out) = Some k" and
      v: "vaults E' = vaults E @ [v]"
         "v_txid v = u_txid out" "v_vout v = u_vout out" "v_amount v = u_amount out"
         "v_address v = u_address out"
         "v_pubkeys v = get_pubkeys E k" "v_privkey v = our_privkey_from_path E k"
      by (elim exE conjE)
    from g have "guess_loop X E (u_address out) 0 = Some k" by (simp add: guess_index_def)
    from guess_loop_Some [OF this] have
      k: "0 \<le> k" "k < max_index E" "get_vault_address X E k = u_address out" by simp_all
    show "\<exists>k v. guess_index X E (u_address out) = Some k
            \<and> 0 \<le> k \<and> k < max_index E \<and> get_vault_address X E k = u_address out
            \<and> vaults E' = vaults E @ [v]
            \<and> v_txid v = u_txid out \<and> v_vout v = u_vout out \<and> v_amount v = u_amount out
            \<and> v_address v = u_address out
            \<and> v_pubkeys v = get_pubkeys E k \<and> v_privkey v = our_privkey_from_path E k"
      apply (rule exI [of _ k], rule exI [of _ v])
      using g k v by (intro conjI)
  qed
  have r: "\<forall>e E'. add_new_vault X E out = (Some e, E') \<longrightarrow> vaults E' = vaults E"
  proof (intro allI impI)
    fix e E' assume "add_new_vault X E out = (Some e, E')"
    from add_new_vault_Some [OF this] show "vaults E' = vaults E" by (rule conjunct2)
  qed
  from n s f u r show ?thesis by (intro conjI)
qed

theorem guess_index_range_witness:
  "add_new_vault X0 E0 (utxo0\<lparr>u_address := ''bcrt1q000000''\<rparr>)
     = (Some (VaultException ''No such vault script with our known pubkeys !''), E0)
   \<and> guess_index X0 E0 (u_address utxo0) = Some 0
   \<and> get_vault_address X0 E0 0 = u_address utxo0
   \<and> fst (add_new_vault X0 E0 utxo0) = None
   \<and> map v_pubkeys (vaults (snd (add_new_vault X0 E0 utxo0))) = [get_pubkeys E0 0]
   \<and> map v_address (vaults (snd (add_new_vault X0 E0 utxo0))) = [u_address utxo0]
   \<and> fst (add_new_vault X0 E0 (utxo0\<lparr>u_txid := ''ab''\<rparr>)) = Some ValueError
   \<and> vaults (snd (add_new_vault X0 E0 (utxo0\<lparr>u_txid := ''ab''\<rparr>))) = vaults E0"
proof -
  let ?a = "add_new_vault X0 E0 utxo0"
  let ?f = "add_new_vault X0 E0 (utxo0\<lparr>u_txid := ''ab''\<rparr>)"
  note A = guess_index_range [of X0 E0 "''bcrt1q000000''" "utxo0\<lparr>u_address := ''bcrt1q000000''\<rparr>"]
  note B = guess_index_range [of X0 E0 "u_address utxo0" utxo0]
  note C = guess_index_range [of X0 E0 "u_address utxo0" "utxo0\<lparr>u_txid := ''ab''\<rparr>"]
  have no: "\<forall>j. 0 \<le> j \<and> j < max_index E0 \<longrightarrow>
          get_vault_address X0 E0 j \<noteq> u_address (utxo0\<lparr>u_address := ''bcrt1q000000''\<rparr>)"
    by (simp add: get_vault_address0)
  from A have "(\<forall>j. 0 \<le> j \<and> j < max_index E0 \<longrightarrow>
          get_vault_address X0 E0 j \<noteq> u_address (utxo0\<lparr>u_address := ''bcrt1q000000''\<rparr>)) \<longrightarrow>
         add_new_vault X0 E0 (utxo0\<lparr>u_address := ''bcrt1q000000''\<rparr>)
           = (Some (VaultException ''No such vault script with our known pubkeys !''), E0)"
    by (elim conjE)
  from this [rule_format, OF no [rule_format]]
  have w1: "add_new_vault X0 E0 (utxo0\<lparr>u_address := ''bcrt1q000000''\<rparr>)
     = (Some (VaultException ''No such vault script with our known pubkeys !''), E0)" .
  from B have "\<forall>k. guess_index X0 E0 (u_address utxo0) = Some k \<longrightarrow>
         0 \<le> k \<and> k < max_index E0 \<and> get_vault_address X0 E0 k = u_address utxo0
         \<and> (\<forall>j. 0 \<le> j \<and> j < k \<longrightarrow> get_vault_address X0 E0 j \<noteq> u_address utxo0)"
    by (elim conjE)
  from this [rule_format, OF guess_index0]
  have w0: "get_vault_address X0 E0 0 = u_address utxo0" by (elim conjE)
  have ok: "fst ?a = None" by (rule add_new_vault_fresh [THEN conjunct1])
  then have ingest: "?a = (None, snd ?a)" by (cases ?a) simp
  from B have "\<forall>E'. ?a = (None, E') \<longrightarrow>
         (\<exists>k v. guess_index X0 E0 (u_address utxo0) = Some k
            \<and> 0 \<le> k \<and> k < max_index E0 \<and> get_vault_address X0 E0 k = u_address utxo0
            \<and> vaults E' = vaults E0 @ [v]
            \<and> v_txid v = u_txid utxo0 \<and> v_vout v = u_vout utxo0 \<and> v_amount v = u_amount utxo0
            \<and> v_address v = u_address utxo0
            \<and> v_pubkeys v = get_pubkeys E0 k \<and> v_privkey v = our_privkey_from_path E0 k)"
    by (elim conjE)
  from this [rule_format, OF ingest] obtain k v where
    g: "guess_index X0 E0 (u_address utxo0) = Some k" and
    v: "vaults (snd ?a) = vaults E0 @ [v]" "v_address v = u_address utxo0"
       "v_pubkeys v = get_pubkeys E0 k"
    by (elim exE conjE)
  from g guess_index0 have k: "k = 0" by simp
  have e0: "vaults E0 = []" by (simp add: E0_def)
  have w2: "map v_pubkeys (vaults (snd ?a)) = [get_pubkeys E0 0]"
    using v(1) v(3) k e0 by simp
  have w3: "map v_address (vaults (snd ?a)) = [u_address utxo0]"
    using v(1) v(2) e0 by simp
  have fail: "?f = (Some ValueError, snd ?f)"
    using add_new_vault_short_txid by (cases ?f) simp
  from C have "\<forall>e E'. ?f = (Some e, E') \<longrightarrow> vaults E' = vaults E0"
    by (elim conjE)
  from this [rule_format, OF fail] have w4: "vaults (snd ?f) = vaults E0" .
  from w1 guess_index0 w0 ok w2 w3 add_new_vault_short_txid w4 show ?thesis by (intro conjI)
qed

text \<open>
  C8, as the claim states it, fails: with \<open>current_index\<close> 1, an output at the address
  of index 0 matches no index of [current_index, max_index), and yet the ingest raises
  nothing and appends the vault of that output, with the public keys of index 0.
\<close>

theorem guess_index_below_current_counterexample:
  "\<not> (\<exists>i. current_index E0 \<le> i \<and> i < max_index E0 \<and> get_vault_address X0 E0 i = u_address utxo0)
   \<and> guess_index X0 E0 (u_address utxo0) = Some 0
   \<and> fst (add_new_vault X0 E0 utxo0) = None
   \<and> vaults E0 = []
   \<and> map v_address (vaults (snd (add_new_vault X0 E0 utxo0))) = [u_address utxo0]
   \<and> map v_pubkeys (vaults (snd (add_new_vault X0 E0 utxo0))) = [get_pubkeys E0 0]"
proof -
  have a: "\<not> (\<exists>i. current_index E0 \<le> i \<and> i < max_index E0 \<and> get_vault_address X0 E0 i = u_address utxo0)"
    by (simp add: get_vault_address0) (simp add: E0_def utxo0_def)
  have c: "fst (add_new_vault X0 E0 utxo0) = None" "vaults E0 = []"
    using add_new_vault_fresh by (simp_all add: E0_def)
  have v: "vaults (snd (add_new_vault X0 E0 utxo0)) = [vault0]"
    by (rule add_new_vault_fresh [THEN conjunct2, THEN conjunct1])
  have d: "map v_address (vaults (snd (add_new_vault X0 E0 utxo0))) = [u_address utxo0]"
    "map v_pubkeys (vaults (snd (add_new_vault X0 E0 utxo0))) = [get_pubkeys E0 0]"
    unfolding v by (simp_all add: vault0_def utxo0_def get_pubkeys_def E0_def)
  from a guess_index0 c d show ?thesis by (intro conjI)
qed

lemma spend_vote_Accept_iff:
  "spend_vote E addresses = Accept \<longleftrightarrow> fst ` set addresses \<subseteq> set (acked_addresses E)"
  by (auto simp: spend_vote_def Let_def list_ex_iff)

text \<open>
  C2 does not hold of the code: the second test of \<open>poll_for_spends\<close> refuses a proposal
  as soon as one output is not an acknowledged address, so a proposal paying an
  acknowledged address and a watched vault address (change) is refused, and the vote
  recorded for it is a refusal. A proposal with no output at all is accepted.
\<close>

theorem spend_with_change_refused:
  "spend_vote E_spend [(''bcrt1qacked'', 10000), (''bcrt1q542103'', 90000)] = Refuse
   \<and> votes (poll_for_spends_pass
              [(''ab'', [(''bcrt1qacked'', 10000), (''bcrt1q542103'', 90000)])]
              \<lparr>sp_engine = E_spend, known_spends = [], votes = []\<rparr>) = [(''ab'', Refuse)]
   \<and> spend_vote E_spend [] = Accept"
  by code_simp

lemma unvault_emergency_target_is_cancel:
  "g ''cancel'' = g' ''cancel'' \<Longrightarrow>
     get_signed_unvault_emergency_tx (X\<lparr>getfeerate := g\<rparr>) E v
       = get_signed_unvault_emergency_tx (X\<lparr>getfeerate := g'\<rparr>) E v"
  by (simp add: get_signed_unvault_emergency_tx_def Let_def cong: if_cong)

text \<open>
  C7 does not hold of the code: before broadcast, \<open>get_signed_unvault_emergency_tx\<close>
  compares the fee-rate of the unvault-emergency transaction with bitcoind's target for
  \<open>cancel\<close>. With a fee-rate of 5, a \<open>cancel\<close> target of 1 and an \<open>emergency\<close>
  target of 10, the unvault-emergency transaction is returned as it is (one input),
  while \<open>get_signed_emergency_tx\<close>, which asks for \<open>emergency\<close>, bumps the vault
  emergency transaction (a second input).
\<close>

theorem unvault_emergency_compared_to_cancel_target:
  "map_sum id (map_option (\<lambda>t. length (vin t))) (get_signed_unvault_emergency_tx X0 E0 vault_full)
     = Inr (Some 1)
   \<and> map_sum id (map_option (\<lambda>t. length (vin t))) (get_signed_emergency_tx X0 E0 vault_full)
     = Inr (Some 2)
   \<and> getfeerate X0 ''emergency'' = 10 \<and> getfeerate X0 ''cancel'' = 1
   \<and> tx_feerate X0 (the (unvault_emer_tx vault_full)) (Some 99900) = 5
   \<and> tx_feerate X0 (the (emergency_tx vault_full)) None = 5"
  by code_simp

end
